theory Spec2Isabelle
  imports Main "HOL-Library.Word"
begin

unbundle bit_operations_syntax

section \<open>The decode side of NvPipe (decode.c)\<close>

text \<open>
  The session state of decode.c is the C struct \<open>nvp_decoder\<close>. Everything the file
  calls outside itself (the cuvid decoder and parser, the CUDA memory functions, the
  NV12-to-RGB converter) is an external engine. The engine is a parameter of the
  model: a record of functions that give, for the history of all calls completed so
  far and the arguments of the present call, the reply of the present call. This is
  the most general deterministic engine. Every call is recorded with its reply in the
  history, in the order in which the calls return.
\<close>

subsection \<open>C types\<close>

type_synonym size_t = "64 word"
type_synonym c_int = "32 word"
type_synonym c_uint = "32 word"
type_synonym handle = "64 word"
type_synonym CUdeviceptr = "64 word"
type_synonym CUresult = int

text \<open>\<open>CUDA_SUCCESS\<close> is 0 in the CUDA driver API; every other value is an error.\<close>

definition CUDA_SUCCESS :: CUresult where
  "CUDA_SUCCESS = 0"

text \<open>
  \<open>nvp_err_t\<close> is declared in nvpipe.h, whose numeric values are not needed here: the
  three constants decode.c uses are kept symbolic, and a \<open>CUresult\<close> that is returned
  where an \<open>nvp_err_t\<close> is expected (\<open>return mrs\<close>, \<open>errcode = sub\<close>) keeps its value
  under \<open>CUresult_value\<close>. The test \<open>if(errc)\<close> of the source is read as
  \<open>errc \<noteq> NVPIPE_SUCCESS\<close>.
\<close>

datatype nvp_err_t = NVPIPE_SUCCESS | NVPIPE_EINVAL | NVPIPE_EDECODE | CUresult_value CUresult

text \<open>The tag of \<open>nvp_impl_t\<close> (internal-api.h); decode.c only compares it with \<open>DECODER\<close>.\<close>

datatype nvp_impl_type = ENCODER | DECODER

datatype cudaVideoCodec =
  cudaVideoCodec_MPEG1 | cudaVideoCodec_MPEG2 | cudaVideoCodec_MPEG4 | cudaVideoCodec_VC1
  | cudaVideoCodec_H264 | cudaVideoCodec_JPEG | cudaVideoCodec_HEVC

datatype cudaVideoChromaFormat =
  cudaVideoChromaFormat_Monochrome | cudaVideoChromaFormat_420
  | cudaVideoChromaFormat_422 | cudaVideoChromaFormat_444

record display_area_t =
  left :: c_int
  top :: c_int
  right :: c_int
  bottom :: c_int

text \<open>The fields of \<open>CUVIDEOFORMAT\<close> that \<open>dec_sequence\<close> reads.\<close>

record CUVIDEOFORMAT =
  codec :: cudaVideoCodec
  progressive_sequence :: c_int
  bit_depth_luma_minus8 :: "8 word"
  coded_height :: c_uint
  display_area :: display_area_t
  chroma_format :: cudaVideoChromaFormat

text \<open>The fields of \<open>CUVIDPICPARAMS\<close> that \<open>dec_ode\<close> reads.\<close>

record CUVIDPICPARAMS =
  PicWidthInMbs :: c_int
  FrameHeightInMbs :: c_int

text \<open>
  The fields of \<open>CUVIDDECODECREATEINFO\<close> that \<open>dec_initialize\<close> sets to something
  other than a constant. The display area of the create info has \<open>short\<close> fields.
\<close>

record CUVIDDECODECREATEINFO =
  CodecType :: cudaVideoCodec
  ulWidth :: size_t
  ulHeight :: size_t
  ulNumDecodeSurfaces :: size_t
  ChromaFormat :: cudaVideoChromaFormat
  ulTargetWidth :: size_t
  ulTargetHeight :: size_t
  crt_left :: "16 word"
  crt_top :: "16 word"
  crt_right :: "16 word"
  crt_bottom :: "16 word"
  ulNumOutputSurfaces :: size_t

text \<open>\<open>struct nvp_decoder\<close>; the inner struct \<open>d\<close> is flattened (\<open>d.wi\<close> is \<open>d_wi\<close>).\<close>

record nvp_decoder =
  impl_type :: nvp_impl_type
  initialized :: bool
  decoder :: handle
  parser :: handle
  d_wi :: size_t
  d_hi :: size_t
  d_wdst :: size_t
  d_hdst :: size_t
  d_wsrc :: size_t
  d_hsrc :: size_t
  rgb :: CUdeviceptr
  empty :: bool
  reorg :: handle

subsection \<open>The engine and the history of calls\<close>

text \<open>
  A call with its arguments. Values that the engine writes through a pointer argument
  (the new handle, the allocated pointer, the mapped frame and its pitch) are the last
  arguments of the constructor.
\<close>

datatype call =
    CuvidCreateDecoder CUVIDDECODECREATEINFO handle
  | CuvidDestroyDecoder handle
  | CuvidCreateVideoParser handle
  | CuvidDestroyVideoParser handle
  | CuvidParseVideoData handle "8 word list" size_t
  | CuvidDecodePicture handle CUVIDPICPARAMS
  | CuvidMapVideoFrame handle CUdeviceptr c_uint
  | CuvidUnmapVideoFrame handle CUdeviceptr
  | CuMemAlloc size_t CUdeviceptr
  | CuMemFree CUdeviceptr
  | CuMemcpyDtoHAsync handle CUdeviceptr size_t handle
  | Nv122rgb handle
  | Reorg_submit handle CUdeviceptr size_t size_t CUdeviceptr c_uint
  | Reorg_sync handle
  | Reorg_destroy handle
  | Free_nvp

datatype event = Ev call CUresult

text \<open>
  What \<open>cuvidParseVideoData\<close> does with one packet: it fires the sequence callback and
  the decode-picture callback any number of times and then returns a result. After
  each callback it goes on with the first script when the callback returned 0 and with
  the second one otherwise.
\<close>

datatype parse_script =
    Parse_done CUresult
  | Sequence_cb CUVIDEOFORMAT parse_script parse_script
  | Decode_cb CUVIDPICPARAMS parse_script parse_script

record engine =
  on_cuvidCreateDecoder :: "event list \<Rightarrow> CUVIDDECODECREATEINFO \<Rightarrow> CUresult \<times> handle"
  on_cuvidDestroyDecoder :: "event list \<Rightarrow> handle \<Rightarrow> CUresult"
  on_cuvidCreateVideoParser :: "event list \<Rightarrow> CUresult \<times> handle"
  on_cuvidDestroyVideoParser :: "event list \<Rightarrow> handle \<Rightarrow> CUresult"
  on_cuvidParseVideoData :: "event list \<Rightarrow> handle \<Rightarrow> 8 word list \<Rightarrow> size_t \<Rightarrow> parse_script"
  on_cuvidDecodePicture :: "event list \<Rightarrow> handle \<Rightarrow> CUVIDPICPARAMS \<Rightarrow> CUresult"
  on_cuvidMapVideoFrame :: "event list \<Rightarrow> handle \<Rightarrow> CUresult \<times> CUdeviceptr \<times> c_uint"
  on_cuvidUnmapVideoFrame :: "event list \<Rightarrow> handle \<Rightarrow> CUdeviceptr \<Rightarrow> CUresult"
  on_cuMemAlloc :: "event list \<Rightarrow> size_t \<Rightarrow> CUresult \<times> CUdeviceptr"
  on_cuMemFree :: "event list \<Rightarrow> CUdeviceptr \<Rightarrow> CUresult"
  on_cuMemcpyDtoHAsync :: "event list \<Rightarrow> handle \<Rightarrow> CUdeviceptr \<Rightarrow> size_t \<Rightarrow> handle \<Rightarrow> CUresult"
  on_nv122rgb :: "event list \<Rightarrow> handle"
  on_reorg_submit ::
    "event list \<Rightarrow> handle \<Rightarrow> CUdeviceptr \<Rightarrow> size_t \<Rightarrow> size_t \<Rightarrow> CUdeviceptr \<Rightarrow> c_uint \<Rightarrow> CUresult"
  on_reorg_sync :: "event list \<Rightarrow> handle \<Rightarrow> CUresult"

text \<open>The messages of the \<open>ERR\<close>, \<open>WARN\<close> and \<open>TRACE\<close> macros, without their arguments.\<close>

datatype log_level = ERR | WARN | TRACE

record world =
  nvp :: nvp_decoder
  calls :: "event list"
  logs :: "(log_level \<times> string) list"

definition log_msg :: "log_level \<Rightarrow> string \<Rightarrow> world \<Rightarrow> world" where
  "log_msg lvl msg w = w\<lparr>logs := logs w @ [(lvl, msg)]\<rparr>"

definition record_call :: "call \<Rightarrow> CUresult \<Rightarrow> world \<Rightarrow> world" where
  "record_call c rc w = w\<lparr>calls := calls w @ [Ev c rc]\<rparr>"

text \<open>
  How a function of decode.c ends: it returns, or the process is terminated by a
  failed \<open>assert\<close> (assertions are enabled) or by a call through a NULL pointer.
  Functions that can be terminated return an \<open>option\<close>, \<open>None\<close> for termination.
\<close>

datatype outcome = Returned nvp_err_t | Aborted

subsection \<open>The calls into the engine\<close>

definition cuvidCreateDecoder :: "engine \<Rightarrow> world \<Rightarrow> CUVIDDECODECREATEINFO \<Rightarrow> CUresult \<times> handle \<times> world" where
  "cuvidCreateDecoder E w crt =
     (let (rc, h) = on_cuvidCreateDecoder E (calls w) crt
      in (rc, h, record_call (CuvidCreateDecoder crt h) rc w))"

definition cuvidDestroyDecoder :: "engine \<Rightarrow> world \<Rightarrow> handle \<Rightarrow> CUresult \<times> world" where
  "cuvidDestroyDecoder E w h =
     (let rc = on_cuvidDestroyDecoder E (calls w) h
      in (rc, record_call (CuvidDestroyDecoder h) rc w))"

definition cuvidCreateVideoParser :: "engine \<Rightarrow> world \<Rightarrow> CUresult \<times> handle \<times> world" where
  "cuvidCreateVideoParser E w =
     (let (rc, h) = on_cuvidCreateVideoParser E (calls w)
      in (rc, h, record_call (CuvidCreateVideoParser h) rc w))"

definition cuvidDestroyVideoParser :: "engine \<Rightarrow> world \<Rightarrow> handle \<Rightarrow> CUresult \<times> world" where
  "cuvidDestroyVideoParser E w h =
     (let rc = on_cuvidDestroyVideoParser E (calls w) h
      in (rc, record_call (CuvidDestroyVideoParser h) rc w))"

definition cuvidDecodePicture :: "engine \<Rightarrow> world \<Rightarrow> handle \<Rightarrow> CUVIDPICPARAMS \<Rightarrow> CUresult \<times> world" where
  "cuvidDecodePicture E w h pic =
     (let rc = on_cuvidDecodePicture E (calls w) h pic
      in (rc, record_call (CuvidDecodePicture h pic) rc w))"

definition cuvidMapVideoFrame :: "engine \<Rightarrow> world \<Rightarrow> handle \<Rightarrow> CUresult \<times> CUdeviceptr \<times> c_uint \<times> world" where
  "cuvidMapVideoFrame E w h =
     (let (rc, data, pitch) = on_cuvidMapVideoFrame E (calls w) h
      in (rc, data, pitch, record_call (CuvidMapVideoFrame h data pitch) rc w))"

definition cuvidUnmapVideoFrame :: "engine \<Rightarrow> world \<Rightarrow> handle \<Rightarrow> CUdeviceptr \<Rightarrow> CUresult \<times> world" where
  "cuvidUnmapVideoFrame E w h data =
     (let rc = on_cuvidUnmapVideoFrame E (calls w) h data
      in (rc, record_call (CuvidUnmapVideoFrame h data) rc w))"

definition cuMemAlloc :: "engine \<Rightarrow> world \<Rightarrow> size_t \<Rightarrow> CUresult \<times> CUdeviceptr \<times> world" where
  "cuMemAlloc E w n =
     (let (rc, p) = on_cuMemAlloc E (calls w) n
      in (rc, p, record_call (CuMemAlloc n p) rc w))"

definition cuMemFree :: "engine \<Rightarrow> world \<Rightarrow> CUdeviceptr \<Rightarrow> CUresult \<times> world" where
  "cuMemFree E w p =
     (let rc = on_cuMemFree E (calls w) p
      in (rc, record_call (CuMemFree p) rc w))"

definition cuMemcpyDtoHAsync ::
  "engine \<Rightarrow> world \<Rightarrow> handle \<Rightarrow> CUdeviceptr \<Rightarrow> size_t \<Rightarrow> handle \<Rightarrow> CUresult \<times> world" where
  "cuMemcpyDtoHAsync E w obuf src n strm =
     (let rc = on_cuMemcpyDtoHAsync E (calls w) obuf src n strm
      in (rc, record_call (CuMemcpyDtoHAsync obuf src n strm) rc w))"

definition nv122rgb :: "engine \<Rightarrow> world \<Rightarrow> handle \<times> world" where
  "nv122rgb E w =
     (let r = on_nv122rgb E (calls w)
      in (r, record_call (Nv122rgb r) CUDA_SUCCESS w))"

definition reorg_submit ::
  "engine \<Rightarrow> world \<Rightarrow> handle \<Rightarrow> CUdeviceptr \<Rightarrow> size_t \<Rightarrow> size_t \<Rightarrow> CUdeviceptr \<Rightarrow> c_uint \<Rightarrow> CUresult \<times> world" where
  "reorg_submit E w r data width height dst pitch =
     (let rc = on_reorg_submit E (calls w) r data width height dst pitch
      in (rc, record_call (Reorg_submit r data width height dst pitch) rc w))"

definition reorg_sync :: "engine \<Rightarrow> world \<Rightarrow> handle \<Rightarrow> CUresult \<times> world" where
  "reorg_sync E w r =
     (let rc = on_reorg_sync E (calls w) r
      in (rc, record_call (Reorg_sync r) rc w))"

subsection \<open>decode.c\<close>

definition MAX_WIDTH :: size_t where
  "MAX_WIDTH = 4096"

definition MAX_HEIGHT :: size_t where
  "MAX_HEIGHT = 4096"

text \<open>The create info that \<open>dec_initialize\<close> fills in (lines 99 to 116).\<close>

definition create_info :: "size_t \<Rightarrow> size_t \<Rightarrow> size_t \<Rightarrow> size_t \<Rightarrow> CUVIDDECODECREATEINFO" where
  "create_info iwidth iheight dstwidth dstheight =
     \<lparr>CodecType = cudaVideoCodec_H264, ulWidth = iwidth, ulHeight = iheight,
      ulNumDecodeSurfaces = 1, ChromaFormat = cudaVideoChromaFormat_420,
      ulTargetWidth = dstwidth, ulTargetHeight = dstheight,
      crt_left = 0, crt_top = 0, crt_right = ucast iwidth,
      crt_bottom = ucast iheight, ulNumOutputSurfaces = 1\<rparr>"

text \<open>
  \<open>dec_initialize\<close> (lines 93 to 147). The result is \<open>None\<close> when one of the three
  assertions fails, otherwise the returned \<open>bool\<close>.
\<close>

definition dec_initialize ::
  "engine \<Rightarrow> world \<Rightarrow> size_t \<Rightarrow> size_t \<Rightarrow> size_t \<Rightarrow> size_t \<Rightarrow> bool option \<times> world" where
  "dec_initialize E w iwidth iheight dstwidth dstheight =
     (if \<not> (iwidth > 0 \<and> iheight > 0) then (None, w)
      else if \<not> (dstwidth > 0 \<and> dstheight > 0) then (None, w)
      else if decoder (nvp w) \<noteq> 0 then (None, w)
      else
        let crt = create_info iwidth iheight dstwidth dstheight;
            w1 = w\<lparr>nvp := (nvp w)\<lparr>d_wi := iwidth, d_hi := iheight\<rparr>\<rparr>;
            (rc, h, w2) = cuvidCreateDecoder E w1 crt;
            w3 = w2\<lparr>nvp := (nvp w2)\<lparr>decoder := h\<rparr>\<rparr>
        in
          if rc \<noteq> CUDA_SUCCESS then (Some False, log_msg ERR ''decoder creation failed'' w3)
          else if dstwidth \<noteq> d_wdst (nvp w3) \<or> dstheight \<noteq> d_hdst (nvp w3) then
            let (freed, w4) =
                  (if rgb (nvp w3) \<noteq> 0 then
                     let (frc, w') = cuMemFree E w3 (rgb (nvp w3))
                     in if frc \<noteq> CUDA_SUCCESS
                        then (False, log_msg ERR ''Could not free internal RGB buffer.'' w')
                        else (True, w'\<lparr>nvp := (nvp w')\<lparr>rgb := 0\<rparr>\<rparr>)
                   else (True, w3))
            in
              if \<not> freed then (Some False, w4)
              else
                let nb_rgb = dstwidth * dstheight * 3;
                    (arc, p, w5) = cuMemAlloc E w4 nb_rgb;
                    w6 = w5\<lparr>nvp := (nvp w5)\<lparr>rgb := p\<rparr>\<rparr>
                in
                  if arc \<noteq> CUDA_SUCCESS then
                    (Some False,
                     (log_msg ERR ''could not allocate temporary RGB buffer'' w6)
                       \<lparr>nvp := (nvp w6)\<lparr>rgb := 0\<rparr>\<rparr>)
                  else
                    (Some True,
                     w6\<lparr>nvp := (nvp w6)\<lparr>d_wdst := dstwidth, d_hdst := dstheight,
                                         initialized := True\<rparr>\<rparr>)
          else (Some True, w3\<lparr>nvp := (nvp w3)\<lparr>initialized := True\<rparr>\<rparr>))"

text \<open>
  \<open>resize\<close>, lines 153 to 156: the decoder, if there is one, is destroyed and its
  handle is set to NULL whatever the engine answers.
\<close>

definition resize_destroy :: "engine \<Rightarrow> world \<Rightarrow> world" where
  "resize_destroy E w =
     (let w1 = (if decoder (nvp w) \<noteq> 0 then
                  let (rc, w') = cuvidDestroyDecoder E w (decoder (nvp w))
                  in if rc \<noteq> CUDA_SUCCESS then log_msg ERR ''Error destroying decoder'' w' else w'
                else w)
      in w1\<lparr>nvp := (nvp w1)\<lparr>decoder := 0\<rparr>\<rparr>)"

text \<open>\<open>resize\<close> (lines 150 to 158); the result of \<open>dec_initialize\<close> is dropped.\<close>

definition resize ::
  "engine \<Rightarrow> world \<Rightarrow> size_t \<Rightarrow> size_t \<Rightarrow> size_t \<Rightarrow> size_t \<Rightarrow> unit option \<times> world" where
  "resize E w width height dstwidth dstheight =
     (case dec_initialize E (resize_destroy E w) width height dstwidth dstheight of
        (None, w3) \<Rightarrow> (None, w3)
      | (Some _, w3) \<Rightarrow> (Some (), w3))"

text \<open>
  \<open>nvp_cuvid_destroy\<close> (lines 160 to 179). \<open>free(nvp)\<close> is recorded as a call; the
  struct of the result is the struct as it was when it was freed.
\<close>

definition nvp_cuvid_destroy :: "engine \<Rightarrow> world \<Rightarrow> unit option \<times> world" where
  "nvp_cuvid_destroy E w =
     (if impl_type (nvp w) \<noteq> DECODER then (None, w)
      else
        let w1 = (if decoder (nvp w) \<noteq> 0 then
                    let (rc, w') = cuvidDestroyDecoder E w (decoder (nvp w))
                    in if rc \<noteq> CUDA_SUCCESS then log_msg WARN ''Error destroying decoder'' w' else w'
                  else w);
            w2 = (if parser (nvp w1) \<noteq> 0 then
                    let (rc, w') = cuvidDestroyVideoParser E w1 (parser (nvp w1))
                    in if rc \<noteq> CUDA_SUCCESS then log_msg WARN ''Error destroying parser.'' w' else w'
                  else w1);
            w3 = (let (rc, w') = cuMemFree E w2 (rgb (nvp w2))
                  in if rc \<noteq> CUDA_SUCCESS
                     then log_msg WARN ''Error freeing decode temporary buffer.'' w' else w');
            w4 = (if reorg (nvp w3) \<noteq> 0 then
                    (record_call (Reorg_destroy (reorg (nvp w3))) CUDA_SUCCESS w3)
                      \<lparr>nvp := (nvp w3)\<lparr>reorg := 0\<rparr>\<rparr>
                  else w3)
        in (Some (), record_call Free_nvp CUDA_SUCCESS w4))"

text \<open>
  \<open>dec_sequence\<close> (lines 181 to 217), the sequence callback. The differences of the
  \<open>int\<close> fields are taken in 32 bits and converted to \<open>size_t\<close> with sign extension.
\<close>

definition dec_sequence :: "engine \<Rightarrow> world \<Rightarrow> CUVIDEOFORMAT \<Rightarrow> c_int option \<times> world" where
  "dec_sequence E w fmt =
     (let w1 = (if (scast (right (display_area fmt)) :: size_t) > MAX_WIDTH \<or>
                   (scast (bottom (display_area fmt)) :: size_t) > MAX_HEIGHT
                then log_msg WARN ''Video stream exceeds (%zux%zu) limits.'' w else w)
      in
        if bit_depth_luma_minus8 fmt \<noteq> 0 then
          (Some 0, log_msg WARN
             ''Unhandled bit depth (%d).  Was the frame compressed by a different version of this library?'' w1)
        else if chroma_format fmt \<noteq> cudaVideoChromaFormat_420 then (None, w1)
        else if codec fmt \<noteq> cudaVideoCodec_H264 then (None, w1)
        else if progressive_sequence fmt \<noteq> 1 then (None, w1)
        else
          let wd = (scast (right (display_area fmt) - left (display_area fmt)) :: size_t);
              h = (scast (bottom (display_area fmt) - top (display_area fmt)) :: size_t);
              w2 = (if (ucast (coded_height fmt) :: size_t) \<noteq> h
                    then log_msg TRACE ''coded height (%u) does not correspond to height (%zu).'' w1
                    else w1)
          in
            if \<not> initialized (nvp w2) then
              (case dec_initialize E w2 wd h wd h of
                 (None, w3) \<Rightarrow> (None, w3)
               | (Some ok, w3) \<Rightarrow> if \<not> ok then (Some 0, w3) else (Some 1, w3))
            else (Some 1, w2))"

text \<open>\<open>dec_ode\<close> (lines 219 to 234), the decode-picture callback.\<close>

definition dec_ode :: "engine \<Rightarrow> world \<Rightarrow> CUVIDPICPARAMS \<Rightarrow> c_int \<times> world" where
  "dec_ode E w pic =
     (let (dec, w1) = cuvidDecodePicture E w (decoder (nvp w)) pic
      in if CUDA_SUCCESS \<noteq> dec then (0, log_msg WARN ''Error %d decoding frame'' w1)
         else (1, w1\<lparr>nvp := (nvp w1)\<lparr>d_wsrc := scast (PicWidthInMbs pic * 16),
                                      d_hsrc := scast (FrameHeightInMbs pic * 16)\<rparr>\<rparr>))"

text \<open>
  \<open>cuvidParseVideoData\<close> with the two callbacks that \<open>initialize_parser\<close> registers:
  the engine's script for the packet is run, each callback on the state the previous
  one left. The call is recorded when it returns.
\<close>

fun run_script :: "engine \<Rightarrow> world \<Rightarrow> parse_script \<Rightarrow> CUresult option \<times> world" where
  "run_script E w (Parse_done rc) = (Some rc, w)"
| "run_script E w (Sequence_cb fmt k0 k1) =
     (case dec_sequence E w fmt of
        (None, w') \<Rightarrow> (None, w')
      | (Some r, w') \<Rightarrow> if r = 0 then run_script E w' k0 else run_script E w' k1)"
| "run_script E w (Decode_cb pic k0 k1) =
     (case dec_ode E w pic of
        (r, w') \<Rightarrow> if r = 0 then run_script E w' k0 else run_script E w' k1)"

definition cuvidParseVideoData ::
  "engine \<Rightarrow> world \<Rightarrow> handle \<Rightarrow> 8 word list \<Rightarrow> size_t \<Rightarrow> CUresult option \<times> world" where
  "cuvidParseVideoData E w h payload payload_size =
     (case run_script E w (on_cuvidParseVideoData E (calls w) h payload payload_size) of
        (None, w') \<Rightarrow> (None, w')
      | (Some rc, w') \<Rightarrow> (Some rc, record_call (CuvidParseVideoData h payload payload_size) rc w'))"

text \<open>\<open>initialize_parser\<close> (lines 236 to 256).\<close>

definition initialize_parser :: "engine \<Rightarrow> world \<Rightarrow> nvp_err_t \<times> world" where
  "initialize_parser E w =
     (let (rc, h, w1) = cuvidCreateVideoParser E w;
          w2 = w1\<lparr>nvp := (nvp w1)\<lparr>parser := h\<rparr>\<rparr>
      in if rc \<noteq> CUDA_SUCCESS then (NVPIPE_EDECODE, log_msg ERR ''failed creating video parser.'' w2)
         else (NVPIPE_SUCCESS, w2))"

text \<open>
  \<open>nvp_cuvid_decode\<close>, lines 277 to 307: the argument checks, the lazy creation of the
  parser and the submission of the packet. \<open>Some\<close> is the outcome with which the
  function ends here, \<open>None\<close> means that it goes on to line 309.
\<close>

definition nvp_cuvid_decode_submit ::
  "engine \<Rightarrow> world \<Rightarrow> 8 word list \<Rightarrow> size_t \<Rightarrow> size_t \<Rightarrow> size_t \<Rightarrow> outcome option \<times> world" where
  "nvp_cuvid_decode_submit E w ibuf ibuf_sz width height =
     (if impl_type (nvp w) \<noteq> DECODER then
        (Some (Returned NVPIPE_EINVAL), log_msg ERR ''backend implementation configuration error'' w)
      else if ibuf_sz = 0 then
        (Some (Returned NVPIPE_EINVAL), log_msg ERR ''input buffer size is 0.'' w)
      else if width = 0 \<or> height = 0 \<or> (height AND 1) = 1 then
        (Some (Returned NVPIPE_EINVAL), log_msg ERR ''invalid width or height'' w)
      else
        let (errc, w1) = (if parser (nvp w) = 0 then initialize_parser E w else (NVPIPE_SUCCESS, w))
        in
          if errc \<noteq> NVPIPE_SUCCESS then (Some (Returned errc), w1)
          else
            (case cuvidParseVideoData E w1 (parser (nvp w1)) ibuf ibuf_sz of
               (None, w2) \<Rightarrow> (Some Aborted, w2)
             | (Some parse, w2) \<Rightarrow>
                 if CUDA_SUCCESS \<noteq> parse
                 then (Some (Returned NVPIPE_EDECODE), log_msg ERR ''parsing video data failed'' w2)
                 else (None, w2)))"

text \<open>
  \<open>nvp_cuvid_decode\<close>, lines 334 to 384: the picture is mapped, converted into the
  RGB buffer, copied to the caller's buffer and unmapped.
\<close>

definition nvp_cuvid_decode_output ::
  "engine \<Rightarrow> world \<Rightarrow> handle \<Rightarrow> size_t \<Rightarrow> size_t \<Rightarrow> outcome \<times> world" where
  "nvp_cuvid_decode_output E w obuf width height =
     (if decoder (nvp w) = 0 then (Aborted, w)
      else
        let (mrs, data, pitch, w1) = cuvidMapVideoFrame E w (decoder (nvp w))
        in
          if CUDA_SUCCESS \<noteq> mrs
          then (Returned (CUresult_value mrs), log_msg ERR ''Failed mapping frame: %d'' w1)
          else
            let w2 = (if reorg (nvp w1) = 0 then
                        let (r, w') = nv122rgb E w1 in w'\<lparr>nvp := (nvp w')\<lparr>reorg := r\<rparr>\<rparr>
                      else w1)
            in
              if reorg (nvp w2) = 0 then (Aborted, w2)
              else
                let (sub, w3) = reorg_submit E w2 (reorg (nvp w2)) data width height (rgb (nvp w2)) pitch;
                    (errcode, w7) =
                      (if CUDA_SUCCESS \<noteq> sub then (CUresult_value sub, w3)
                       else
                         let nb_rgb = d_wdst (nvp w3) * d_hdst (nvp w3) * 3;
                             (hcopy, w4) = cuMemcpyDtoHAsync E w3 obuf (rgb (nvp w3)) nb_rgb (reorg (nvp w3))
                         in
                           if CUDA_SUCCESS \<noteq> hcopy then (CUresult_value hcopy, w4)
                           else
                             let (synch, w5) = reorg_sync E w4 (reorg (nvp w4))
                             in if CUDA_SUCCESS \<noteq> synch then (CUresult_value synch, w5)
                                else (NVPIPE_SUCCESS, w5));
                    (urc, w8) = cuvidUnmapVideoFrame E w7 (decoder (nvp w7)) data;
                    w9 = (if urc \<noteq> CUDA_SUCCESS then log_msg WARN ''Could not unmap frame.'' w8 else w8)
                in (Returned errcode, w9))"

text \<open>
  \<open>nvp_cuvid_decode\<close> (lines 271 to 385). The function calls itself at lines 318 and
  331; a call that never returns has the value \<open>None\<close>.
\<close>

partial_function (option) nvp_cuvid_decode ::
  "engine \<Rightarrow> world \<Rightarrow> 8 word list \<Rightarrow> size_t \<Rightarrow> handle \<Rightarrow> size_t \<Rightarrow> size_t \<Rightarrow> (outcome \<times> world) option" where
  "nvp_cuvid_decode E w ibuf ibuf_sz obuf width height =
     (case nvp_cuvid_decode_submit E w ibuf ibuf_sz width height of
        (Some out, w1) \<Rightarrow> Some (out, w1)
      | (None, w1) \<Rightarrow>
          if d_wsrc (nvp w1) = 0 \<or> d_hsrc (nvp w1) = 0 then
            if empty (nvp w1)
            then Some (Returned NVPIPE_EINVAL, log_msg ERR ''Input is just stream metadata!'' w1)
            else nvp_cuvid_decode E (w1\<lparr>nvp := (nvp w1)\<lparr>empty := True\<rparr>\<rparr>) ibuf ibuf_sz obuf width height
          else
            let w2 = w1\<lparr>nvp := (nvp w1)\<lparr>empty := False\<rparr>\<rparr>
            in
              if d_wsrc (nvp w2) \<noteq> d_wi (nvp w2) \<or> d_hsrc (nvp w2) \<noteq> d_hi (nvp w2) \<or>
                 d_wdst (nvp w2) \<noteq> width \<or> d_hdst (nvp w2) \<noteq> height
              then
                (case resize E w2 (d_wsrc (nvp w2)) (d_hsrc (nvp w2)) width height of
                   (None, w3) \<Rightarrow> Some (Aborted, w3)
                 | (Some _, w3) \<Rightarrow> nvp_cuvid_decode E w3 ibuf ibuf_sz obuf width height)
              else Some (nvp_cuvid_decode_output E w2 obuf width height))"

text \<open>
  \<open>nvp_create_decoder\<close> (lines 414 to 427): the struct that \<open>calloc\<close> zeroed, with the
  tag set. The session starts with no call made and nothing logged.
\<close>

definition nvp_create_decoder :: nvp_decoder where
  "nvp_create_decoder =
     \<lparr>impl_type = DECODER, initialized = False, decoder = 0, parser = 0,
      d_wi = 0, d_hi = 0, d_wdst = 0, d_hdst = 0, d_wsrc = 0, d_hsrc = 0,
      rgb = 0, empty = False, reorg = 0\<rparr>"

definition new_session :: world where
  "new_session = \<lparr>nvp = nvp_create_decoder, calls = [], logs = []\<rparr>"

subsection \<open>Reading the history\<close>

fun call_of :: "event \<Rightarrow> call" where
  "call_of (Ev c rc) = c"

fun rc_of :: "event \<Rightarrow> CUresult" where
  "rc_of (Ev c rc) = rc"

text \<open>The calls made while the decoder is set up, resized or driven by the parser.\<close>

fun setup_call :: "call \<Rightarrow> bool" where
  "setup_call (CuvidCreateDecoder crt h) = True"
| "setup_call (CuvidDestroyDecoder h) = True"
| "setup_call (CuvidCreateVideoParser h) = True"
| "setup_call (CuvidDecodePicture h pic) = True"
| "setup_call (CuMemAlloc n p) = True"
| "setup_call (CuMemFree p) = True"
| "setup_call c = False"

fun is_parse :: "call \<Rightarrow> bool" where
  "is_parse (CuvidParseVideoData h payload n) = True"
| "is_parse c = False"

text \<open>The calls of the output stage whose failure ends the call with an error.\<close>

fun output_call :: "call \<Rightarrow> bool" where
  "output_call (CuvidMapVideoFrame h d p) = True"
| "output_call (Reorg_submit r d wd ht dst p) = True"
| "output_call (CuMemcpyDtoHAsync obuf src n strm) = True"
| "output_call (Reorg_sync r) = True"
| "output_call c = False"

text \<open>The calls made between mapping a picture and unmapping it.\<close>

fun convert_call :: "call \<Rightarrow> bool" where
  "convert_call (Nv122rgb r) = True"
| "convert_call (Reorg_submit r d wd ht dst p) = True"
| "convert_call (CuMemcpyDtoHAsync obuf src n strm) = True"
| "convert_call (Reorg_sync r) = True"
| "convert_call c = False"

definition setup_events :: "event list \<Rightarrow> bool" where
  "setup_events tr = list_all (\<lambda>e. setup_call (call_of e)) tr"

definition parse_count :: "event list \<Rightarrow> nat" where
  "parse_count tr = length (filter (\<lambda>e. is_parse (call_of e)) tr)"

text \<open>Set-up calls and submissions that succeeded: what is done before a resubmission.\<close>

definition quiet :: "event list \<Rightarrow> bool" where
  "quiet tr =
     list_all (\<lambda>e. setup_call (call_of e) \<or> is_parse (call_of e) \<and> rc_of e = CUDA_SUCCESS) tr"

definition convert_events :: "event list \<Rightarrow> bool" where
  "convert_events tr = list_all (\<lambda>e. convert_call (call_of e)) tr"

text \<open>The error a run of the conversion steps ends with: that of its first failed step.\<close>

definition first_error :: "event list \<Rightarrow> nvp_err_t" where
  "first_error tr =
     (case filter (\<lambda>e. rc_of e \<noteq> CUDA_SUCCESS) tr of
        [] \<Rightarrow> NVPIPE_SUCCESS
      | e # _ \<Rightarrow> CUresult_value (rc_of e))"

text \<open>
  The invocation of \<open>nvp_cuvid_decode\<close> that ends the recursion: it ends with \<open>y\<close>
  without calling itself.
\<close>

definition decode_ends ::
  "engine \<Rightarrow> world \<Rightarrow> 8 word list \<Rightarrow> size_t \<Rightarrow> handle \<Rightarrow> size_t \<Rightarrow> size_t \<Rightarrow> outcome \<times> world \<Rightarrow> bool" where
  "decode_ends E w ibuf ibuf_sz obuf width height y =
     (case nvp_cuvid_decode_submit E w ibuf ibuf_sz width height of
        (Some out, w1) \<Rightarrow> y = (out, w1)
      | (None, w1) \<Rightarrow>
          if d_wsrc (nvp w1) = 0 \<or> d_hsrc (nvp w1) = 0 then
            empty (nvp w1) \<and>
            y = (Returned NVPIPE_EINVAL, log_msg ERR ''Input is just stream metadata!'' w1)
          else
            let w2 = w1\<lparr>nvp := (nvp w1)\<lparr>empty := False\<rparr>\<rparr>
            in
              if d_wsrc (nvp w2) \<noteq> d_wi (nvp w2) \<or> d_hsrc (nvp w2) \<noteq> d_hi (nvp w2) \<or>
                 d_wdst (nvp w2) \<noteq> width \<or> d_hdst (nvp w2) \<noteq> height
              then
                (case resize E w2 (d_wsrc (nvp w2)) (d_hsrc (nvp w2)) width height of
                   (None, w3) \<Rightarrow> y = (Aborted, w3)
                 | (Some _, w3) \<Rightarrow> False)
              else y = nvp_cuvid_decode_output E w2 obuf width height)"

text \<open>
  Scripts that end in success on every path and whose callbacks neither fail an
  assertion of \<open>dec_sequence\<close> nor report a picture without width or height.
\<close>

fun calm :: "parse_script \<Rightarrow> bool" where
  "calm (Parse_done rc) = (rc = CUDA_SUCCESS)"
| "calm (Sequence_cb fmt k0 k1) =
     ((bit_depth_luma_minus8 fmt \<noteq> 0 \<or>
       (chroma_format fmt = cudaVideoChromaFormat_420 \<and> codec fmt = cudaVideoCodec_H264
        \<and> progressive_sequence fmt = 1))
      \<and> calm k0 \<and> calm k1)"
| "calm (Decode_cb pic k0 k1) =
     ((scast (PicWidthInMbs pic * 16) :: size_t) \<noteq> 0
      \<and> (scast (FrameHeightInMbs pic * 16) :: size_t) \<noteq> 0 \<and> calm k0 \<and> calm k1)"


text \<open>Calls that neither create a decoder or a buffer nor touch a decoded picture.\<close>

fun idle_call :: "call \<Rightarrow> bool" where
  "idle_call (CuvidCreateVideoParser h) = True"
| "idle_call (CuvidDecodePicture h pic) = True"
| "idle_call (CuvidParseVideoData h payload n) = True"
| "idle_call c = False"

definition idle_events :: "event list \<Rightarrow> bool" where
  "idle_events tr = list_all (\<lambda>e. idle_call (call_of e)) tr"

subsection \<open>Concrete engines and sessions\<close>

text \<open>A stream of 64 by 64 pictures: one sequence header and one picture per packet.\<close>

definition fmt_64 :: CUVIDEOFORMAT where
  "fmt_64 =
     \<lparr>codec = cudaVideoCodec_H264, progressive_sequence = 1, bit_depth_luma_minus8 = 0,
      coded_height = 64, display_area = \<lparr>left = 0, top = 0, right = 64, bottom = 64\<rparr>,
      chroma_format = cudaVideoChromaFormat_420\<rparr>"

definition pic_64 :: CUVIDPICPARAMS where
  "pic_64 = \<lparr>PicWidthInMbs = 4, FrameHeightInMbs = 4\<rparr>"

definition script_64 :: parse_script where
  "script_64 =
     Sequence_cb fmt_64 (Parse_done CUDA_SUCCESS)
       (Decode_cb pic_64 (Parse_done CUDA_SUCCESS) (Parse_done CUDA_SUCCESS))"

text \<open>An engine on which every call succeeds.\<close>

definition steady_engine :: engine where
  "steady_engine =
     \<lparr>on_cuvidCreateDecoder = (\<lambda>hist crt. (CUDA_SUCCESS, 16)),
      on_cuvidDestroyDecoder = (\<lambda>hist h. CUDA_SUCCESS),
      on_cuvidCreateVideoParser = (\<lambda>hist. (CUDA_SUCCESS, 32)),
      on_cuvidDestroyVideoParser = (\<lambda>hist h. CUDA_SUCCESS),
      on_cuvidParseVideoData = (\<lambda>hist h payload n. script_64),
      on_cuvidDecodePicture = (\<lambda>hist h pic. CUDA_SUCCESS),
      on_cuvidMapVideoFrame = (\<lambda>hist h. (CUDA_SUCCESS, 4096, 256)),
      on_cuvidUnmapVideoFrame = (\<lambda>hist h d. CUDA_SUCCESS),
      on_cuMemAlloc = (\<lambda>hist n. (CUDA_SUCCESS, 8192)),
      on_cuMemFree = (\<lambda>hist p. CUDA_SUCCESS),
      on_cuMemcpyDtoHAsync = (\<lambda>hist obuf src n strm. CUDA_SUCCESS),
      on_nv122rgb = (\<lambda>hist. 48),
      on_reorg_submit = (\<lambda>hist r d wd ht dst p. CUDA_SUCCESS),
      on_reorg_sync = (\<lambda>hist r. CUDA_SUCCESS)\<rparr>"

text \<open>Engines on which one call fails.\<close>

definition copy_fails_engine :: engine where
  "copy_fails_engine = steady_engine\<lparr>on_cuMemcpyDtoHAsync := (\<lambda>hist obuf src n strm. 700)\<rparr>"



text \<open>An engine for which no packet carries a picture: parsing succeeds and fires no callback.\<close>

definition metadata_engine :: engine where
  "metadata_engine =
     steady_engine\<lparr>on_cuvidParseVideoData := (\<lambda>hist h payload n. Parse_done CUDA_SUCCESS)\<rparr>"

text \<open>
  The session after one picture of the 64 by 64 stream has been decoded at 64 by 64, an
  engine on which releasing the decoder and the buffer fails, and an engine that can
  create no decoder with an output larger than 4096 by 4096 and decodes no picture
  without a decoder.
\<close>

definition session_64 :: world where
  "session_64 =
     (case nvp_cuvid_decode steady_engine new_session [1, 2, 3] 3 0 64 64 of
        Some (out, w) \<Rightarrow> w
      | None \<Rightarrow> new_session)"

definition teardown_fails_engine :: engine where
  "teardown_fails_engine =
     steady_engine\<lparr>on_cuvidDestroyDecoder := (\<lambda>hist h. 1), on_cuMemFree := (\<lambda>hist p. 1)\<rparr>"

definition limited_engine :: engine where
  "limited_engine =
     steady_engine
       \<lparr>on_cuvidCreateDecoder :=
          (\<lambda>hist crt. if ulTargetWidth crt \<le> 4096 \<and> ulTargetHeight crt \<le> 4096
                       then (CUDA_SUCCESS, 16) else (1, 0)),
        on_cuvidDecodePicture := (\<lambda>hist h pic. if h = 0 then 400 else CUDA_SUCCESS)\<rparr>"

text \<open>An engine that is out of device memory: every \<open>cuMemAlloc\<close> fails.\<close>

definition no_memory_engine :: engine where
  "no_memory_engine = steady_engine\<lparr>on_cuMemAlloc := (\<lambda>hist n. (2, 0))\<rparr>"




text \<open>
  An engine whose stream changes size: the first submission of a session resolves a
  64 by 64 picture, the second a 128 by 128 one, every later one a 256 by 256 one.
  \<open>session_shifting\<close> is the session after one picture has been decoded from it at
  64 by 64.
\<close>

definition pic_128 :: CUVIDPICPARAMS where
  "pic_128 = \<lparr>PicWidthInMbs = 8, FrameHeightInMbs = 8\<rparr>"

definition pic_256 :: CUVIDPICPARAMS where
  "pic_256 = \<lparr>PicWidthInMbs = 16, FrameHeightInMbs = 16\<rparr>"

definition shifting_engine :: engine where
  "shifting_engine =
     steady_engine
       \<lparr>on_cuvidParseVideoData :=
          (\<lambda>hist h payload n.
             Sequence_cb fmt_64 (Parse_done CUDA_SUCCESS)
               (Decode_cb (if parse_count hist = 0 then pic_64
                           else if parse_count hist = 1 then pic_128 else pic_256)
                  (Parse_done CUDA_SUCCESS) (Parse_done CUDA_SUCCESS)))\<rparr>"

definition session_shifting :: world where
  "session_shifting =
     (case nvp_cuvid_decode shifting_engine new_session [1, 2, 3] 3 0 64 64 of
        Some (out, w) \<Rightarrow> w
      | None \<Rightarrow> new_session)"

text \<open>The creation parameters of the decoders that a history asks the engine for.\<close>

definition created :: "event list \<Rightarrow> CUVIDDECODECREATEINFO list" where
  "created tr =
     concat (map (\<lambda>e. case call_of e of CuvidCreateDecoder crt h \<Rightarrow> [crt] | _ \<Rightarrow> []) tr)"

text \<open>An engine on which only unmapping a picture fails.\<close>

definition unmap_fails_engine :: engine where
  "unmap_fails_engine = steady_engine\<lparr>on_cuvidUnmapVideoFrame := (\<lambda>hist h d. 5)\<rparr>"

text \<open>The creation of the parser, and histories in which no creation of a parser failed.\<close>

fun parser_create :: "call \<Rightarrow> bool" where
  "parser_create (CuvidCreateVideoParser h) = True"
| "parser_create c = False"

definition no_parser :: "event list \<Rightarrow> bool" where
  "no_parser tr = list_all (\<lambda>e. \<not> parser_create (call_of e)) tr"

definition parsers_ok :: "event list \<Rightarrow> bool" where
  "parsers_ok tr = list_all (\<lambda>e. \<not> parser_create (call_of e) \<or> rc_of e = CUDA_SUCCESS) tr"



section \<open>Auxiliary facts\<close>

declare nvp_cuvid_decode.simps [code]

lemma log_msg_simps [simp]:
  "nvp (log_msg l m w) = nvp w" "calls (log_msg l m w) = calls w"
  "logs (log_msg l m w) = logs w @ [(l, m)]"
  by (simp_all add: log_msg_def)

lemma record_call_simps [simp]:
  "nvp (record_call c rc w) = nvp w" "calls (record_call c rc w) = calls w @ [Ev c rc]"
  "logs (record_call c rc w) = logs w"
  by (simp_all add: record_call_def)

lemmas engine_call_defs =
  cuvidCreateDecoder_def cuvidDestroyDecoder_def cuvidCreateVideoParser_def
  cuvidDestroyVideoParser_def cuvidDecodePicture_def cuvidMapVideoFrame_def
  cuvidUnmapVideoFrame_def cuMemAlloc_def cuMemFree_def cuMemcpyDtoHAsync_def
  nv122rgb_def reorg_submit_def reorg_sync_def

lemma setup_events_simps [simp]:
  "setup_events []"
  "setup_events (e # tr) = (setup_call (call_of e) \<and> setup_events tr)"
  "setup_events (tr @ tr') = (setup_events tr \<and> setup_events tr')"
  by (simp_all add: setup_events_def)

lemma dec_initialize_calls:
  assumes "dec_initialize E w a b c d = (r, w')"
  shows "\<exists>tr. calls w' = calls w @ tr \<and> setup_events tr"
  using assms
  by (auto simp: dec_initialize_def engine_call_defs Let_def split: if_splits prod.splits)

lemma dec_initialize_frame:
  assumes "dec_initialize E w a b c d = (r, w')"
  shows "empty (nvp w') = empty (nvp w) \<and> d_wsrc (nvp w') = d_wsrc (nvp w)
       \<and> d_hsrc (nvp w') = d_hsrc (nvp w) \<and> parser (nvp w') = parser (nvp w)
       \<and> reorg (nvp w') = reorg (nvp w) \<and> impl_type (nvp w') = impl_type (nvp w)"
  using assms
  by (auto simp: dec_initialize_def engine_call_defs Let_def split: if_splits prod.splits)

lemma dec_ode_calls:
  assumes "dec_ode E w pic = (r, w')"
  shows "\<exists>tr. calls w' = calls w @ tr \<and> setup_events tr"
  using assms
  by (auto simp: dec_ode_def engine_call_defs Let_def split: if_splits prod.splits)

lemma dec_ode_frame:
  assumes "dec_ode E w pic = (r, w')"
  shows "empty (nvp w') = empty (nvp w) \<and> parser (nvp w') = parser (nvp w)
       \<and> reorg (nvp w') = reorg (nvp w) \<and> impl_type (nvp w') = impl_type (nvp w)"
  using assms
  by (auto simp: dec_ode_def engine_call_defs Let_def split: if_splits prod.splits)

lemma dec_sequence_calls:
  assumes "dec_sequence E w fmt = (r, w')"
  shows "\<exists>tr. calls w' = calls w @ tr \<and> setup_events tr"
  using assms
  by (auto simp: dec_sequence_def Let_def split: if_splits option.splits prod.splits
           dest!: dec_initialize_calls)

lemma dec_sequence_frame:
  assumes "dec_sequence E w fmt = (r, w')"
  shows "empty (nvp w') = empty (nvp w) \<and> d_wsrc (nvp w') = d_wsrc (nvp w)
       \<and> d_hsrc (nvp w') = d_hsrc (nvp w) \<and> parser (nvp w') = parser (nvp w)
       \<and> reorg (nvp w') = reorg (nvp w) \<and> impl_type (nvp w') = impl_type (nvp w)"
  using assms
  by (auto simp: dec_sequence_def Let_def split: if_splits option.splits prod.splits
           dest!: dec_initialize_frame)

lemma run_script_calls:
  "run_script E w k = (r, w') \<Longrightarrow> \<exists>tr. calls w' = calls w @ tr \<and> setup_events tr"
proof (induction k arbitrary: w)
  case (Parse_done rc)
  then show ?case by simp
next
  case (Sequence_cb fmt k0 k1)
  obtain r1 w1 where s: "dec_sequence E w fmt = (r1, w1)" by (cases "dec_sequence E w fmt")
  from dec_sequence_calls [OF s] obtain tr1 where
    tr1: "calls w1 = calls w @ tr1" "setup_events tr1" by blast
  show ?case
  proof (cases r1)
    case None
    with s Sequence_cb.prems tr1 show ?thesis by auto
  next
    case (Some v)
    with s Sequence_cb.prems
    have "run_script E w1 (if v = 0 then k0 else k1) = (r, w')" by (simp split: if_splits)
    then obtain tr2 where "calls w' = calls w1 @ tr2" "setup_events tr2"
      using Sequence_cb.IH [of w1] by (auto split: if_splits)
    with tr1 show ?thesis by auto
  qed
next
  case (Decode_cb pic k0 k1)
  obtain v w1 where s: "dec_ode E w pic = (v, w1)" by (cases "dec_ode E w pic")
  from dec_ode_calls [OF s] obtain tr1 where
    tr1: "calls w1 = calls w @ tr1" "setup_events tr1" by blast
  from s Decode_cb.prems
  have "run_script E w1 (if v = 0 then k0 else k1) = (r, w')" by (simp split: if_splits)
  then obtain tr2 where "calls w' = calls w1 @ tr2" "setup_events tr2"
    using Decode_cb.IH [of w1] by (auto split: if_splits)
  with tr1 show ?case by auto
qed

lemma run_script_frame:
  "run_script E w k = (r, w') \<Longrightarrow>
     empty (nvp w') = empty (nvp w) \<and> parser (nvp w') = parser (nvp w)
       \<and> reorg (nvp w') = reorg (nvp w) \<and> impl_type (nvp w') = impl_type (nvp w)"
proof (induction k arbitrary: w)
  case (Parse_done rc)
  then show ?case by simp
next
  case (Sequence_cb fmt k0 k1)
  obtain r1 w1 where s: "dec_sequence E w fmt = (r1, w1)" by (cases "dec_sequence E w fmt")
  note f = dec_sequence_frame [OF s]
  show ?case
  proof (cases r1)
    case None
    with s Sequence_cb.prems f show ?thesis by auto
  next
    case (Some v)
    with s Sequence_cb.prems
    have "run_script E w1 (if v = 0 then k0 else k1) = (r, w')" by (simp split: if_splits)
    then show ?thesis
      using Sequence_cb.IH [of w1] f by (auto split: if_splits)
  qed
next
  case (Decode_cb pic k0 k1)
  obtain v w1 where s: "dec_ode E w pic = (v, w1)" by (cases "dec_ode E w pic")
  note f = dec_ode_frame [OF s]
  from s Decode_cb.prems
  have "run_script E w1 (if v = 0 then k0 else k1) = (r, w')" by (simp split: if_splits)
  then show ?case
    using Decode_cb.IH [of w1] f by (auto split: if_splits)
qed

lemma cuvidParseVideoData_Some:
  assumes "cuvidParseVideoData E w h payload n = (Some rc, w')"
  shows "\<exists>tr. calls w' = calls w @ tr @ [Ev (CuvidParseVideoData h payload n) rc]
            \<and> setup_events tr"
    and "empty (nvp w') = empty (nvp w) \<and> parser (nvp w') = parser (nvp w)
       \<and> reorg (nvp w') = reorg (nvp w) \<and> impl_type (nvp w') = impl_type (nvp w)"
proof -
  obtain r0 w0 where
    rs: "run_script E w (on_cuvidParseVideoData E (calls w) h payload n) = (r0, w0)"
    by (cases "run_script E w (on_cuvidParseVideoData E (calls w) h payload n)")
  with assms have w': "w' = record_call (CuvidParseVideoData h payload n) rc w0"
    by (auto simp: cuvidParseVideoData_def split: option.splits)
  from run_script_calls [OF rs] w'
  show "\<exists>tr. calls w' = calls w @ tr @ [Ev (CuvidParseVideoData h payload n) rc]
            \<and> setup_events tr"
    by auto
  from run_script_frame [OF rs] w'
  show "empty (nvp w') = empty (nvp w) \<and> parser (nvp w') = parser (nvp w)
       \<and> reorg (nvp w') = reorg (nvp w) \<and> impl_type (nvp w') = impl_type (nvp w)"
    by simp
qed

lemma cuvidParseVideoData_None:
  assumes "cuvidParseVideoData E w h payload n = (None, w')"
  shows "\<exists>tr. calls w' = calls w @ tr \<and> setup_events tr"
  using assms
  by (auto simp: cuvidParseVideoData_def split: prod.splits option.splits
           dest!: run_script_calls)

lemma initialize_parser_calls:
  assumes "initialize_parser E w = (r, w')"
  shows "\<exists>tr. calls w' = calls w @ tr \<and> setup_events tr"
    and "empty (nvp w') = empty (nvp w) \<and> reorg (nvp w') = reorg (nvp w)
       \<and> impl_type (nvp w') = impl_type (nvp w)"
    and "r = NVPIPE_SUCCESS \<or> r = NVPIPE_EDECODE"
  using assms
  by (auto simp: initialize_parser_def engine_call_defs Let_def split: prod.splits if_splits)

lemma quiet_simps [simp]:
  "quiet []"
  "quiet (e # tr) =
     ((setup_call (call_of e) \<or> is_parse (call_of e) \<and> rc_of e = CUDA_SUCCESS) \<and> quiet tr)"
  "quiet (tr @ tr') = (quiet tr \<and> quiet tr')"
  by (simp_all add: quiet_def)

lemma setup_events_quiet: "setup_events tr \<Longrightarrow> quiet tr"
  by (induction tr) auto

lemma setup_call_kinds:
  "setup_call c \<Longrightarrow> \<not> is_parse c \<and> \<not> output_call c \<and> \<not> convert_call c"
  by (cases c) auto

lemma is_parse_kinds: "is_parse c \<Longrightarrow> \<not> output_call c \<and> \<not> convert_call c"
  by (cases c) auto

lemma setup_events_member:
  "setup_events tr \<Longrightarrow> e \<in> set tr \<Longrightarrow>
     \<not> is_parse (call_of e) \<and> \<not> output_call (call_of e) \<and> \<not> convert_call (call_of e)"
  by (auto simp: setup_events_def list_all_iff dest: setup_call_kinds)

lemma quiet_member:
  "quiet tr \<Longrightarrow> e \<in> set tr \<Longrightarrow>
     \<not> output_call (call_of e) \<and> \<not> convert_call (call_of e)
     \<and> (is_parse (call_of e) \<longrightarrow> rc_of e = CUDA_SUCCESS)"
  by (auto simp: quiet_def list_all_iff dest: setup_call_kinds is_parse_kinds)

lemma submit_None:
  assumes "nvp_cuvid_decode_submit E w ibuf ibuf_sz width height = (None, w1)"
  shows "\<exists>tr h. calls w1 = calls w @ tr @ [Ev (CuvidParseVideoData h ibuf ibuf_sz) CUDA_SUCCESS]
            \<and> setup_events tr"
    and "empty (nvp w1) = empty (nvp w) \<and> reorg (nvp w1) = reorg (nvp w)
          \<and> impl_type (nvp w1) = DECODER"
    and "ibuf_sz \<noteq> 0 \<and> width \<noteq> 0 \<and> height \<noteq> 0 \<and> even height"
proof -
  from assms have args: "impl_type (nvp w) = DECODER" "ibuf_sz \<noteq> 0" "width \<noteq> 0" "height \<noteq> 0"
    "height AND 1 \<noteq> 1"
    by (auto simp: nvp_cuvid_decode_submit_def split: if_splits)
  then show "ibuf_sz \<noteq> 0 \<and> width \<noteq> 0 \<and> height \<noteq> 0 \<and> even height"
    by (simp add: and_one_eq even_iff_mod_2_eq_zero)
  obtain errc w0 where
    ip: "(if parser (nvp w) = 0 then initialize_parser E w else (NVPIPE_SUCCESS, w)) = (errc, w0)"
    by (cases "if parser (nvp w) = 0 then initialize_parser E w else (NVPIPE_SUCCESS, w)")
  then have w0: "\<exists>tr. calls w0 = calls w @ tr \<and> setup_events tr"
    "empty (nvp w0) = empty (nvp w) \<and> reorg (nvp w0) = reorg (nvp w)
       \<and> impl_type (nvp w0) = impl_type (nvp w)"
    by (auto split: if_splits dest: initialize_parser_calls)
  from assms args ip have
    p: "cuvidParseVideoData E w0 (parser (nvp w0)) ibuf ibuf_sz = (Some CUDA_SUCCESS, w1)"
    by (auto simp: nvp_cuvid_decode_submit_def split: if_splits prod.splits option.splits)
  from cuvidParseVideoData_Some(1) [OF p] w0(1)
  show "\<exists>tr h. calls w1 = calls w @ tr @ [Ev (CuvidParseVideoData h ibuf ibuf_sz) CUDA_SUCCESS]
            \<and> setup_events tr"
    by (metis append.assoc setup_events_simps(3))
  from cuvidParseVideoData_Some(2) [OF p] w0(2) args(1)
  show "empty (nvp w1) = empty (nvp w) \<and> reorg (nvp w1) = reorg (nvp w)
          \<and> impl_type (nvp w1) = DECODER"
    by simp
qed

lemma submit_Some:
  assumes "nvp_cuvid_decode_submit E w ibuf ibuf_sz width height = (Some out, w1)"
  shows "\<exists>tr. calls w1 = calls w @ tr \<and>
           (quiet tr \<or>
            (\<exists>tr' h k. tr = tr' @ [Ev (CuvidParseVideoData h ibuf ibuf_sz) k] \<and> quiet tr'
                 \<and> k \<noteq> CUDA_SUCCESS \<and> out = Returned NVPIPE_EDECODE))"
    and "out = Aborted \<or> out = Returned NVPIPE_EINVAL \<or> out = Returned NVPIPE_EDECODE"
proof -
  obtain errc w0 where
    ip: "(if parser (nvp w) = 0 then initialize_parser E w else (NVPIPE_SUCCESS, w)) = (errc, w0)"
    by (cases "if parser (nvp w) = 0 then initialize_parser E w else (NVPIPE_SUCCESS, w)")
  then have w0: "\<exists>tr. calls w0 = calls w @ tr \<and> setup_events tr"
    "errc = NVPIPE_SUCCESS \<or> errc = NVPIPE_EDECODE"
    by (auto split: if_splits dest: initialize_parser_calls)
  obtain pr w2 where p: "cuvidParseVideoData E w0 (parser (nvp w0)) ibuf ibuf_sz = (pr, w2)"
    by (cases "cuvidParseVideoData E w0 (parser (nvp w0)) ibuf ibuf_sz")
  from assms ip p w0(2)
  show "out = Aborted \<or> out = Returned NVPIPE_EINVAL \<or> out = Returned NVPIPE_EDECODE"
    by (auto simp: nvp_cuvid_decode_submit_def split: if_splits option.splits)
  from w0(1) obtain tr0 where tr0: "calls w0 = calls w @ tr0" "quiet tr0"
    by (auto dest: setup_events_quiet)
  show "\<exists>tr. calls w1 = calls w @ tr \<and>
           (quiet tr \<or>
            (\<exists>tr' h k. tr = tr' @ [Ev (CuvidParseVideoData h ibuf ibuf_sz) k] \<and> quiet tr'
                 \<and> k \<noteq> CUDA_SUCCESS \<and> out = Returned NVPIPE_EDECODE))"
  proof (cases pr)
    case None
    with cuvidParseVideoData_None p obtain tr2 where
      "calls w2 = calls w0 @ tr2" "quiet tr2" by (blast dest: setup_events_quiet)
    with assms ip p None tr0 show ?thesis
      by (auto simp: nvp_cuvid_decode_submit_def split: if_splits)
  next
    case (Some rc)
    with cuvidParseVideoData_Some(1) p obtain tr2 where
      "calls w2 = calls w0 @ tr2 @ [Ev (CuvidParseVideoData (parser (nvp w0)) ibuf ibuf_sz) rc]"
      "quiet tr2" by (blast dest: setup_events_quiet)
    with assms ip p Some tr0 show ?thesis
      by (auto simp: nvp_cuvid_decode_submit_def split: if_splits)
  qed
qed

lemma dec_initialize_sizes:
  assumes "dec_initialize E w a b c d = (r, w')"
    and "a \<noteq> 0" "b \<noteq> 0" "c \<noteq> 0" "d \<noteq> 0" "decoder (nvp w) = 0"
  shows "r \<noteq> None \<and> d_wi (nvp w') = a \<and> d_hi (nvp w') = b
           \<and> (r = Some True \<longrightarrow> d_wdst (nvp w') = c \<and> d_hdst (nvp w') = d \<and> initialized (nvp w'))
           \<and> (r = Some False \<longrightarrow> d_wdst (nvp w') = d_wdst (nvp w) \<and> d_hdst (nvp w') = d_hdst (nvp w)
                  \<and> initialized (nvp w') = initialized (nvp w))"
  using assms
  by (auto simp: dec_initialize_def engine_call_defs Let_def word_gt_0 split: if_splits prod.splits)

lemma resize_destroy_props:
  "decoder (nvp (resize_destroy E w)) = 0"
  "\<exists>tr. calls (resize_destroy E w) = calls w @ tr \<and> setup_events tr"
  "nvp (resize_destroy E w) = (nvp w)\<lparr>decoder := 0\<rparr>"
  by (auto simp: resize_destroy_def engine_call_defs Let_def)

lemma resize_calls:
  assumes "resize E w a b c d = (r, w')"
  shows "\<exists>tr. calls w' = calls w @ tr \<and> setup_events tr"
    and "empty (nvp w') = empty (nvp w) \<and> d_wsrc (nvp w') = d_wsrc (nvp w)
       \<and> d_hsrc (nvp w') = d_hsrc (nvp w) \<and> parser (nvp w') = parser (nvp w)
       \<and> reorg (nvp w') = reorg (nvp w) \<and> impl_type (nvp w') = impl_type (nvp w)"
proof -
  obtain r0 w3 where di: "dec_initialize E (resize_destroy E w) a b c d = (r0, w3)"
    by (cases "dec_initialize E (resize_destroy E w) a b c d")
  with assms have "w' = w3"
    by (auto simp: resize_def split: option.splits)
  with dec_initialize_calls [OF di] dec_initialize_frame [OF di] resize_destroy_props [of E w]
  show "\<exists>tr. calls w' = calls w @ tr \<and> setup_events tr"
    and "empty (nvp w') = empty (nvp w) \<and> d_wsrc (nvp w') = d_wsrc (nvp w)
       \<and> d_hsrc (nvp w') = d_hsrc (nvp w) \<and> parser (nvp w') = parser (nvp w)
       \<and> reorg (nvp w') = reorg (nvp w) \<and> impl_type (nvp w') = impl_type (nvp w)"
    by auto
qed

lemma resize_returns:
  assumes "resize E w a b c d = (r, w')"
    and "a \<noteq> 0" "b \<noteq> 0" "c \<noteq> 0" "d \<noteq> 0"
  shows "r = Some () \<and> d_wi (nvp w') = a \<and> d_hi (nvp w') = b"
proof -
  obtain r0 w3 where di: "dec_initialize E (resize_destroy E w) a b c d = (r0, w3)"
    by (cases "dec_initialize E (resize_destroy E w) a b c d")
  from dec_initialize_sizes [OF di assms(2-5) resize_destroy_props(1)] di assms(1)
  show ?thesis
    by (auto simp: resize_def)
qed

lemma decode_last:
  assumes "nvp_cuvid_decode E w ibuf ibuf_sz obuf width height = Some y"
  shows "\<exists>w0 tr. calls w0 = calls w @ tr \<and> quiet tr
            \<and> decode_ends E w0 ibuf ibuf_sz obuf width height y"
  using assms
proof (induct rule: nvp_cuvid_decode.raw_induct [rotated 1, consumes 1, case_names step])
  case (step dec E w ibuf ibuf_sz obuf width height y)
  note IH = step(1) and body = step(2)
  obtain r w1 where sub: "nvp_cuvid_decode_submit E w ibuf ibuf_sz width height = (r, w1)"
    by (cases "nvp_cuvid_decode_submit E w ibuf ibuf_sz width height")
  show ?case
  proof (cases r)
    case (Some out)
    with sub body have "decode_ends E w ibuf ibuf_sz obuf width height y"
      by (simp add: decode_ends_def)
    then show ?thesis by (intro exI [of _ w] exI [of _ "[]"]) simp
  next
    case None
    from submit_None(1) [OF sub [unfolded None]] obtain tr1 where
      tr1: "calls w1 = calls w @ tr1" "quiet tr1"
      by (auto dest: setup_events_quiet)
    show ?thesis
    proof (cases "d_wsrc (nvp w1) = 0 \<or> d_hsrc (nvp w1) = 0")
      case True
      show ?thesis
      proof (cases "empty (nvp w1)")
        case True
        with sub None \<open>d_wsrc (nvp w1) = 0 \<or> d_hsrc (nvp w1) = 0\<close> body
        have "decode_ends E w ibuf ibuf_sz obuf width height y"
          by (auto simp: decode_ends_def)
        then show ?thesis by (intro exI [of _ w] exI [of _ "[]"]) simp
      next
        case False
        with sub None True body
        have "dec E (w1\<lparr>nvp := (nvp w1)\<lparr>empty := True\<rparr>\<rparr>) ibuf ibuf_sz obuf width height = Some y"
          by auto
        from IH [OF this] obtain w0 tr where
          "calls w0 = calls w1 @ tr" "quiet tr" "decode_ends E w0 ibuf ibuf_sz obuf width height y"
          by auto
        with tr1 have "calls w0 = calls w @ (tr1 @ tr)" "quiet (tr1 @ tr)"
          by simp_all
        with \<open>decode_ends E w0 ibuf ibuf_sz obuf width height y\<close> show ?thesis by blast
      qed
    next
      case False
      define w2 where "w2 = w1\<lparr>nvp := (nvp w1)\<lparr>empty := False\<rparr>\<rparr>"
      show ?thesis
      proof (cases "d_wsrc (nvp w2) \<noteq> d_wi (nvp w2) \<or> d_hsrc (nvp w2) \<noteq> d_hi (nvp w2) \<or>
                 d_wdst (nvp w2) \<noteq> width \<or> d_hdst (nvp w2) \<noteq> height")
        case mismatch: True
        obtain rr w3 where rs: "resize E w2 (d_wsrc (nvp w2)) (d_hsrc (nvp w2)) width height = (rr, w3)"
          by (cases "resize E w2 (d_wsrc (nvp w2)) (d_hsrc (nvp w2)) width height")
        from resize_calls(1) [OF rs] obtain tr2 where
          tr2: "calls w3 = calls w2 @ tr2" "quiet tr2" by (auto dest: setup_events_quiet)
        show ?thesis
        proof (cases rr)
          case None
          with sub \<open>r = None\<close> False mismatch rs body
          have "decode_ends E w ibuf ibuf_sz obuf width height y"
            by (auto simp: decode_ends_def w2_def Let_def)
          then show ?thesis by (intro exI [of _ w] exI [of _ "[]"]) simp
        next
          case (Some u)
          with sub \<open>r = None\<close> False mismatch rs body
          have "dec E w3 ibuf ibuf_sz obuf width height = Some y"
            by (auto simp: w2_def Let_def)
          from IH [OF this] obtain w0 tr where
            "calls w0 = calls w3 @ tr" "quiet tr" "decode_ends E w0 ibuf ibuf_sz obuf width height y"
            by blast
          with tr1 tr2 have "calls w0 = calls w @ (tr1 @ tr2 @ tr)" "quiet (tr1 @ tr2 @ tr)"
            by (simp_all add: w2_def)
          with \<open>decode_ends E w0 ibuf ibuf_sz obuf width height y\<close> show ?thesis by blast
        qed
      next
        case nomismatch: False
        with sub None False body
        have "decode_ends E w ibuf ibuf_sz obuf width height y"
          by (auto simp: decode_ends_def w2_def Let_def)
        then show ?thesis by (intro exI [of _ w] exI [of _ "[]"]) simp
      qed
    qed
  qed
qed

lemma convert_events_simps [simp]:
  "convert_events []"
  "convert_events (e # tr) = (convert_call (call_of e) \<and> convert_events tr)"
  by (simp_all add: convert_events_def)

lemma output_returns:
  assumes "nvp_cuvid_decode_output E w obuf width height = (Returned rc, w')"
  shows "(\<exists>h d p k. k \<noteq> CUDA_SUCCESS \<and> calls w' = calls w @ [Ev (CuvidMapVideoFrame h d p) k]
            \<and> rc = CUresult_value k)
       \<or> (\<exists>h d p rest. calls w' = calls w @ Ev (CuvidMapVideoFrame h d p) CUDA_SUCCESS # rest
            \<and> rest \<noteq> [] \<and> call_of (last rest) = CuvidUnmapVideoFrame h d
            \<and> convert_events (butlast rest) \<and> rc = first_error (butlast rest)
            \<and> (\<forall>e\<in>set (butlast rest). rc_of e \<noteq> CUDA_SUCCESS \<longrightarrow>
                  output_call (call_of e) \<and> rc = CUresult_value (rc_of e)))"
  using assms
  by (auto simp: nvp_cuvid_decode_output_def engine_call_defs Let_def first_error_def
           split: if_splits prod.splits)

lemma output_frame:
  assumes "nvp_cuvid_decode_output E w obuf width height = (r, w')"
  shows "nvp w' = nvp w \<or> (reorg (nvp w) = 0 \<and> (\<exists>r. nvp w' = (nvp w)\<lparr>reorg := r\<rparr>))"
  using assms
  by (auto simp: nvp_cuvid_decode_output_def engine_call_defs Let_def
           split: if_splits prod.splits)

lemma split_unique:
  assumes "xs @ a # ys = pre @ m # post"
    and "\<forall>e\<in>set xs. \<not> P e" "\<forall>e\<in>set ys. \<not> P e" "P m"
  shows "xs = pre \<and> a = m \<and> ys = post"
  using assms
proof (induction xs arbitrary: pre)
  case Nil
  then show ?case by (cases pre) auto
next
  case (Cons x xs)
  then show ?case by (cases pre) auto
qed

lemma decode_ends_cases:
  assumes "decode_ends E w0 ibuf ibuf_sz obuf width height (Returned rc, w')"
  shows "(\<exists>tr. calls w' = calls w0 @ tr \<and> quiet tr
            \<and> (rc = NVPIPE_EINVAL \<or> rc = NVPIPE_EDECODE))
       \<or> (\<exists>tr h k. calls w' = calls w0 @ tr @ [Ev (CuvidParseVideoData h ibuf ibuf_sz) k]
            \<and> quiet tr \<and> k \<noteq> CUDA_SUCCESS \<and> rc = NVPIPE_EDECODE)
       \<or> (\<exists>w1 tr. nvp_cuvid_decode_submit E w0 ibuf ibuf_sz width height = (None, w1)
            \<and> calls w1 = calls w0 @ tr \<and> quiet tr
            \<and> d_wsrc (nvp w1) \<noteq> 0 \<and> d_hsrc (nvp w1) \<noteq> 0
            \<and> d_wsrc (nvp w1) = d_wi (nvp w1) \<and> d_hsrc (nvp w1) = d_hi (nvp w1)
            \<and> d_wdst (nvp w1) = width \<and> d_hdst (nvp w1) = height
            \<and> nvp_cuvid_decode_output E (w1\<lparr>nvp := (nvp w1)\<lparr>empty := False\<rparr>\<rparr>) obuf width height
                = (Returned rc, w'))"
proof -
  obtain r w1 where sub: "nvp_cuvid_decode_submit E w0 ibuf ibuf_sz width height = (r, w1)"
    by (cases "nvp_cuvid_decode_submit E w0 ibuf ibuf_sz width height")
  show ?thesis
  proof (cases r)
    case (Some out)
    with sub assms have "out = Returned rc" "w1 = w'" by (simp_all add: decode_ends_def)
    with submit_Some [OF sub [unfolded Some]] show ?thesis by auto
  next
    case None
    from submit_None(1) [OF sub [unfolded None]] obtain tr h where
      tr: "calls w1 = calls w0 @ tr @ [Ev (CuvidParseVideoData h ibuf ibuf_sz) CUDA_SUCCESS]"
          "setup_events tr" by blast
    then have q: "quiet (tr @ [Ev (CuvidParseVideoData h ibuf ibuf_sz) CUDA_SUCCESS])"
      by (auto dest: setup_events_quiet)
    show ?thesis
    proof (cases "d_wsrc (nvp w1) = 0 \<or> d_hsrc (nvp w1) = 0")
      case True
      with sub None assms have "rc = NVPIPE_EINVAL" "calls w' = calls w1"
        by (auto simp: decode_ends_def)
      with tr q show ?thesis by auto
    next
      case False
      with sub None assms have
        "d_wsrc (nvp w1) = d_wi (nvp w1) \<and> d_hsrc (nvp w1) = d_hi (nvp w1)
            \<and> d_wdst (nvp w1) = width \<and> d_hdst (nvp w1) = height
            \<and> nvp_cuvid_decode_output E (w1\<lparr>nvp := (nvp w1)\<lparr>empty := False\<rparr>\<rparr>) obuf width height
                = (Returned rc, w')"
        by (auto simp: decode_ends_def Let_def split: if_splits prod.splits option.splits)
      with False sub None tr(1) q show ?thesis by blast
    qed
  qed
qed

text \<open>What a returning call has appended to the history.\<close>

lemma decode_returns_shape:
  assumes "nvp_cuvid_decode E w ibuf ibuf_sz obuf width height = Some (Returned rc, w')"
  shows "(\<exists>tr. calls w' = calls w @ tr \<and> quiet tr
            \<and> (rc = NVPIPE_EINVAL \<or> rc = NVPIPE_EDECODE))
       \<or> (\<exists>tr h k. calls w' = calls w @ tr @ [Ev (CuvidParseVideoData h ibuf ibuf_sz) k]
            \<and> quiet tr \<and> k \<noteq> CUDA_SUCCESS \<and> rc = NVPIPE_EDECODE)
       \<or> (\<exists>tr h d p k. calls w' = calls w @ tr @ [Ev (CuvidMapVideoFrame h d p) k] \<and> quiet tr
            \<and> k \<noteq> CUDA_SUCCESS \<and> rc = CUresult_value k)
       \<or> (\<exists>tr h d p mid urc.
              calls w' = calls w @ tr @ Ev (CuvidMapVideoFrame h d p) CUDA_SUCCESS # mid
                           @ [Ev (CuvidUnmapVideoFrame h d) urc]
            \<and> quiet tr \<and> convert_events mid \<and> rc = first_error mid
            \<and> (\<forall>e\<in>set mid. rc_of e \<noteq> CUDA_SUCCESS \<longrightarrow>
                  output_call (call_of e) \<and> rc = CUresult_value (rc_of e))
            \<and> d_wi (nvp w') = d_wsrc (nvp w') \<and> d_hi (nvp w') = d_hsrc (nvp w')
            \<and> d_wdst (nvp w') = width \<and> d_hdst (nvp w') = height)"
proof -
  from decode_last [OF assms] obtain w0 tr0 where
    w0: "calls w0 = calls w @ tr0" "quiet tr0"
        "decode_ends E w0 ibuf ibuf_sz obuf width height (Returned rc, w')"
    by blast
  from decode_ends_cases [OF w0(3)] consider
    (early) tr where "calls w' = calls w0 @ tr" "quiet tr" "rc = NVPIPE_EINVAL \<or> rc = NVPIPE_EDECODE"
  | (parse_failed) tr h k where "calls w' = calls w0 @ tr @ [Ev (CuvidParseVideoData h ibuf ibuf_sz) k]"
      "quiet tr" "k \<noteq> CUDA_SUCCESS" "rc = NVPIPE_EDECODE"
  | (mapped) w1 tr where "calls w1 = calls w0 @ tr" "quiet tr"
      "d_wsrc (nvp w1) = d_wi (nvp w1)" "d_hsrc (nvp w1) = d_hi (nvp w1)"
      "d_wdst (nvp w1) = width" "d_hdst (nvp w1) = height"
      "nvp_cuvid_decode_output E (w1\<lparr>nvp := (nvp w1)\<lparr>empty := False\<rparr>\<rparr>) obuf width height
                = (Returned rc, w')"
    by blast
  then show ?thesis
  proof cases
    case early
    with w0(1,2) have "calls w' = calls w @ (tr0 @ tr)" "quiet (tr0 @ tr)" by simp_all
    with early(3) show ?thesis by blast
  next
    case parse_failed
    with w0(1,2) have "calls w' = calls w @ (tr0 @ tr) @ [Ev (CuvidParseVideoData h ibuf ibuf_sz) k]"
      "quiet (tr0 @ tr)" by simp_all
    with parse_failed(3,4) show ?thesis by blast
  next
    case mapped
    define w2 where "w2 = w1\<lparr>nvp := (nvp w1)\<lparr>empty := False\<rparr>\<rparr>"
    have c2: "calls w2 = calls w @ (tr0 @ tr)" "quiet (tr0 @ tr)"
      using mapped(1,2) w0(1,2) by (simp_all add: w2_def)
    have s2: "d_wsrc (nvp w2) = d_wi (nvp w2)" "d_hsrc (nvp w2) = d_hi (nvp w2)"
      "d_wdst (nvp w2) = width" "d_hdst (nvp w2) = height"
      using mapped(3-6) by (simp_all add: w2_def)
    from mapped(7) have out: "nvp_cuvid_decode_output E w2 obuf width height = (Returned rc, w')"
      by (simp add: w2_def)
    from output_frame [OF out] s2
    have s': "d_wi (nvp w') = d_wsrc (nvp w') \<and> d_hi (nvp w') = d_hsrc (nvp w')
            \<and> d_wdst (nvp w') = width \<and> d_hdst (nvp w') = height"
      by auto
    from output_returns [OF out] consider
      (map_failed) h d p k where "k \<noteq> CUDA_SUCCESS"
        "calls w' = calls w2 @ [Ev (CuvidMapVideoFrame h d p) k]" "rc = CUresult_value k"
    | (unmapped) h d p rest where
        "calls w' = calls w2 @ Ev (CuvidMapVideoFrame h d p) CUDA_SUCCESS # rest"
        "rest \<noteq> []" "call_of (last rest) = CuvidUnmapVideoFrame h d"
        "convert_events (butlast rest)" "rc = first_error (butlast rest)"
        "\<forall>e\<in>set (butlast rest). rc_of e \<noteq> CUDA_SUCCESS \<longrightarrow>
            output_call (call_of e) \<and> rc = CUresult_value (rc_of e)"
      by blast
    then show ?thesis
    proof cases
      case map_failed
      with c2 have "calls w' = calls w @ (tr0 @ tr) @ [Ev (CuvidMapVideoFrame h d p) k]"
        by simp
      with c2(2) map_failed(1,3) show ?thesis by blast
    next
      case unmapped
      from unmapped(3) obtain urc where "last rest = Ev (CuvidUnmapVideoFrame h d) urc"
        by (cases "last rest") auto
      with append_butlast_last_id [OF unmapped(2)]
      have "rest = butlast rest @ [Ev (CuvidUnmapVideoFrame h d) urc]"
        by simp
      with unmapped(1) c2(1)
      have "calls w' = calls w @ (tr0 @ tr) @ Ev (CuvidMapVideoFrame h d p) CUDA_SUCCESS # butlast rest
                           @ [Ev (CuvidUnmapVideoFrame h d) urc]"
        by simp
      with c2(2) unmapped(4-6) s' show ?thesis by blast
    qed
  qed
qed


lemma parse_count_simps [simp]:
  "parse_count [] = 0"
  "parse_count (e # tr) = (if is_parse (call_of e) then Suc (parse_count tr) else parse_count tr)"
  "parse_count (tr @ tr') = parse_count tr + parse_count tr'"
  by (simp_all add: parse_count_def)

lemma setup_events_parse_count: "setup_events tr \<Longrightarrow> parse_count tr = 0"
  by (induction tr) (auto dest: setup_call_kinds)

lemma decode_unfold_None:
  assumes "nvp_cuvid_decode_submit E w ibuf ibuf_sz width height = (None, w1)"
  shows "nvp_cuvid_decode E w ibuf ibuf_sz obuf width height =
          (if d_wsrc (nvp w1) = 0 \<or> d_hsrc (nvp w1) = 0 then
            if empty (nvp w1)
            then Some (Returned NVPIPE_EINVAL, log_msg ERR ''Input is just stream metadata!'' w1)
            else nvp_cuvid_decode E (w1\<lparr>nvp := (nvp w1)\<lparr>empty := True\<rparr>\<rparr>) ibuf ibuf_sz obuf width height
          else
            let w2 = w1\<lparr>nvp := (nvp w1)\<lparr>empty := False\<rparr>\<rparr>
            in
              if d_wsrc (nvp w2) \<noteq> d_wi (nvp w2) \<or> d_hsrc (nvp w2) \<noteq> d_hi (nvp w2) \<or>
                 d_wdst (nvp w2) \<noteq> width \<or> d_hdst (nvp w2) \<noteq> height
              then
                (case resize E w2 (d_wsrc (nvp w2)) (d_hsrc (nvp w2)) width height of
                   (None, w3) \<Rightarrow> Some (Aborted, w3)
                 | (Some _, w3) \<Rightarrow> nvp_cuvid_decode E w3 ibuf ibuf_sz obuf width height)
              else Some (nvp_cuvid_decode_output E w2 obuf width height))"
  by (subst nvp_cuvid_decode.simps) (simp add: assms)

lemma dec_initialize_same_size:
  assumes "dec_initialize E w iwidth iheight dstwidth dstheight = (r, w')"
    and "iwidth \<noteq> 0" "iheight \<noteq> 0" "dstwidth \<noteq> 0" "dstheight \<noteq> 0" "decoder (nvp w) = 0"
    and "on_cuvidCreateDecoder E (calls w) (create_info iwidth iheight dstwidth dstheight)
           = (CUDA_SUCCESS, h)"
    and "dstwidth = d_wdst (nvp w)" "dstheight = d_hdst (nvp w)"
  shows "r = Some True
       \<and> calls w' = calls w @ [Ev (CuvidCreateDecoder (create_info iwidth iheight dstwidth dstheight) h)
                                     CUDA_SUCCESS]
       \<and> rgb (nvp w') = rgb (nvp w)
       \<and> d_wdst (nvp w') = d_wdst (nvp w) \<and> d_hdst (nvp w') = d_hdst (nvp w)"
  using assms
  by (auto simp: dec_initialize_def engine_call_defs Let_def word_gt_0 split: if_splits prod.splits)

lemma dec_initialize_new_size:
  assumes di: "dec_initialize E w iwidth iheight dstwidth dstheight = (r, w')"
    and asserts: "iwidth \<noteq> 0" "iheight \<noteq> 0" "dstwidth \<noteq> 0" "dstheight \<noteq> 0" "decoder (nvp w) = 0"
    and created: "on_cuvidCreateDecoder E (calls w) (create_info iwidth iheight dstwidth dstheight)
           = (CUDA_SUCCESS, h)"
    and differs: "dstwidth \<noteq> d_wdst (nvp w) \<or> dstheight \<noteq> d_hdst (nvp w)"
  shows "\<exists>frc arc p.
               calls w' = calls w
                 @ Ev (CuvidCreateDecoder (create_info iwidth iheight dstwidth dstheight) h) CUDA_SUCCESS
                 # (if rgb (nvp w) \<noteq> 0 then [Ev (CuMemFree (rgb (nvp w))) frc] else [])
                 @ (if rgb (nvp w) \<noteq> 0 \<and> frc \<noteq> CUDA_SUCCESS then []
                    else [Ev (CuMemAlloc (dstwidth * dstheight * 3) p) arc])
             \<and> (if rgb (nvp w) \<noteq> 0 \<and> frc \<noteq> CUDA_SUCCESS then
                   r = Some False \<and> rgb (nvp w') = rgb (nvp w)
                   \<and> d_wdst (nvp w') = d_wdst (nvp w) \<and> d_hdst (nvp w') = d_hdst (nvp w)
                 else if arc \<noteq> CUDA_SUCCESS then
                   r = Some False \<and> rgb (nvp w') = 0
                   \<and> d_wdst (nvp w') = d_wdst (nvp w) \<and> d_hdst (nvp w') = d_hdst (nvp w)
                 else
                   r = Some True \<and> rgb (nvp w') = p
                   \<and> d_wdst (nvp w') = dstwidth \<and> d_hdst (nvp w') = dstheight)"
proof -
  let ?crt = "create_info iwidth iheight dstwidth dstheight"
  define h1 where "h1 = calls w @ [Ev (CuvidCreateDecoder ?crt h) CUDA_SUCCESS]"
  define frc where "frc = on_cuMemFree E h1 (rgb (nvp w))"
  define h2 where "h2 = (if rgb (nvp w) \<noteq> 0 then h1 @ [Ev (CuMemFree (rgb (nvp w))) frc] else h1)"
  define arc where "arc = fst (on_cuMemAlloc E h2 (dstwidth * dstheight * 3))"
  define p where "p = snd (on_cuMemAlloc E h2 (dstwidth * dstheight * 3))"
  show ?thesis
  proof (cases "rgb (nvp w) \<noteq> 0 \<and> frc \<noteq> CUDA_SUCCESS")
    case True
    show ?thesis
      apply (rule exI [of _ frc], rule exI [of _ arc], rule exI [of _ p])
      using di asserts created differs True
      apply (simp add: dec_initialize_def engine_call_defs Let_def word_gt_0 h1_def frc_def
          split: prod.splits)
      apply auto
      done
  next
    case False
    show ?thesis
    proof (cases "arc \<noteq> CUDA_SUCCESS")
      case True
      show ?thesis
        apply (rule exI [of _ frc], rule exI [of _ arc], rule exI [of _ p])
        using False True di asserts created differs
        apply (cases "rgb (nvp w) = 0")
        apply (auto simp: dec_initialize_def engine_call_defs Let_def word_gt_0 h1_def h2_def frc_def
            arc_def p_def split: prod.splits)
        done
    next
      case arc_ok: False
      show ?thesis
        apply (rule exI [of _ frc], rule exI [of _ arc], rule exI [of _ p])
        using False arc_ok di asserts created differs
        apply (cases "rgb (nvp w) = 0")
        apply (auto simp: dec_initialize_def engine_call_defs Let_def word_gt_0 h1_def h2_def frc_def
            arc_def p_def split: prod.splits)
        done
    qed
  qed
qed

lemma dec_initialize_True_created:
  assumes "dec_initialize E w iwidth iheight dstwidth dstheight = (Some True, w')"
  shows "fst (on_cuvidCreateDecoder E (calls w) (create_info iwidth iheight dstwidth dstheight))
           = CUDA_SUCCESS"
  using assms
  by (auto simp: dec_initialize_def cuvidCreateDecoder_def Let_def split: if_splits prod.splits)

lemma dec_initialize_True_alloc:
  assumes di: "dec_initialize E w iwidth iheight dstwidth dstheight = (Some True, w')"
    and asserts: "iwidth \<noteq> 0" "iheight \<noteq> 0" "dstwidth \<noteq> 0" "dstheight \<noteq> 0" "decoder (nvp w) = 0"
    and differs: "dstwidth \<noteq> d_wdst (nvp w) \<or> dstheight \<noteq> d_hdst (nvp w)"
  shows "\<exists>tr p. calls w' = calls w @ tr @ [Ev (CuMemAlloc (dstwidth * dstheight * 3) p) CUDA_SUCCESS]
           \<and> rgb (nvp w') = p"
proof -
  obtain rc h where c: "on_cuvidCreateDecoder E (calls w) (create_info iwidth iheight dstwidth dstheight)
           = (rc, h)"
    by (cases "on_cuvidCreateDecoder E (calls w) (create_info iwidth iheight dstwidth dstheight)")
  with dec_initialize_True_created [OF di] have c': "on_cuvidCreateDecoder E (calls w)
      (create_info iwidth iheight dstwidth dstheight) = (CUDA_SUCCESS, h)"
    by simp
  from dec_initialize_new_size [OF di asserts c' differs] obtain frc arc p where
    f: "calls w' = calls w
                 @ Ev (CuvidCreateDecoder (create_info iwidth iheight dstwidth dstheight) h) CUDA_SUCCESS
                 # (if rgb (nvp w) \<noteq> 0 then [Ev (CuMemFree (rgb (nvp w))) frc] else [])
                 @ (if rgb (nvp w) \<noteq> 0 \<and> frc \<noteq> CUDA_SUCCESS then []
                    else [Ev (CuMemAlloc (dstwidth * dstheight * 3) p) arc])"
      "if rgb (nvp w) \<noteq> 0 \<and> frc \<noteq> CUDA_SUCCESS then
                   Some True = Some False \<and> rgb (nvp w') = rgb (nvp w)
                   \<and> d_wdst (nvp w') = d_wdst (nvp w) \<and> d_hdst (nvp w') = d_hdst (nvp w)
                 else if arc \<noteq> CUDA_SUCCESS then
                   Some True = Some False \<and> rgb (nvp w') = 0
                   \<and> d_wdst (nvp w') = d_wdst (nvp w) \<and> d_hdst (nvp w') = d_hdst (nvp w)
                 else
                   Some True = Some True \<and> rgb (nvp w') = p
                   \<and> d_wdst (nvp w') = dstwidth \<and> d_hdst (nvp w') = dstheight"
    by blast
  from f(2) have ok: "\<not> (rgb (nvp w) \<noteq> 0 \<and> frc \<noteq> CUDA_SUCCESS)" "arc = CUDA_SUCCESS" "rgb (nvp w') = p"
    by (auto split: if_splits)
  let ?tr = "Ev (CuvidCreateDecoder (create_info iwidth iheight dstwidth dstheight) h) CUDA_SUCCESS
                 # (if rgb (nvp w) \<noteq> 0 then [Ev (CuMemFree (rgb (nvp w))) frc] else [])"
  from f(1) ok have "calls w' = calls w @ ?tr @ [Ev (CuMemAlloc (dstwidth * dstheight * 3) p) CUDA_SUCCESS]"
    by (simp split del: if_split)
  with ok(3) show ?thesis
    by (rule_tac x = ?tr in exI, rule_tac x = p in exI) (rule conjI)
qed

lemma resize_output_size_only:
  assumes sub: "nvp_cuvid_decode_submit E w0 ibuf ibuf_sz width height = (None, w1)"
    and known: "d_wsrc (nvp w1) \<noteq> 0" "d_hsrc (nvp w1) \<noteq> 0"
    and same: "d_wsrc (nvp w1) = d_wi (nvp w1)" "d_hsrc (nvp w1) = d_hi (nvp w1)"
    and differs: "d_wdst (nvp w1) \<noteq> width \<or> d_hdst (nvp w1) \<noteq> height"
  shows "\<exists>ok w3.
           dec_initialize E (resize_destroy E (w1\<lparr>nvp := (nvp w1)\<lparr>empty := False\<rparr>\<rparr>))
               (d_wi (nvp w1)) (d_hi (nvp w1)) width height = (Some ok, w3)
         \<and> nvp_cuvid_decode E w0 ibuf ibuf_sz obuf width height
             = nvp_cuvid_decode E w3 ibuf ibuf_sz obuf width height
         \<and> d_wi (nvp w3) = d_wi (nvp w1) \<and> d_hi (nvp w3) = d_hi (nvp w1)
         \<and> (ok \<longrightarrow> d_wdst (nvp w3) = width \<and> d_hdst (nvp w3) = height
               \<and> (\<exists>tr p. calls w3 = calls w1 @ tr @ [Ev (CuMemAlloc (width * height * 3) p) CUDA_SUCCESS]
                      \<and> rgb (nvp w3) = p))
         \<and> (\<not> ok \<longrightarrow> d_wdst (nvp w3) = d_wdst (nvp w1) \<and> d_hdst (nvp w3) = d_hdst (nvp w1))"
proof -
  define w2 where "w2 = w1\<lparr>nvp := (nvp w1)\<lparr>empty := False\<rparr>\<rparr>"
  define wd where "wd = resize_destroy E w2"
  from submit_None(3) [OF sub] have args: "width \<noteq> 0" "height \<noteq> 0" by simp_all
  obtain r w3 where di: "dec_initialize E wd (d_wi (nvp w1)) (d_hi (nvp w1)) width height = (r, w3)"
    by (cases "dec_initialize E wd (d_wi (nvp w1)) (d_hi (nvp w1)) width height")
  have wd: "decoder (nvp wd) = 0" "d_wdst (nvp wd) = d_wdst (nvp w1)" "d_hdst (nvp wd) = d_hdst (nvp w1)"
    using resize_destroy_props(1,3) [of E w2] by (simp_all add: wd_def w2_def)
  from resize_destroy_props(2) [of E w2] obtain trd where
    trd: "calls wd = calls w1 @ trd" by (auto simp: wd_def w2_def)
  have k: "d_wi (nvp w1) \<noteq> 0" "d_hi (nvp w1) \<noteq> 0" using known same by simp_all
  note sz = dec_initialize_sizes [OF di k args wd(1)]
  then obtain ok where r: "r = Some ok" by auto
  have rs: "resize E w2 (d_wsrc (nvp w2)) (d_hsrc (nvp w2)) width height = (Some (), w3)"
    using di r same by (simp add: resize_def wd_def w2_def)
  have dec: "nvp_cuvid_decode E w0 ibuf ibuf_sz obuf width height
             = nvp_cuvid_decode E w3 ibuf ibuf_sz obuf width height"
    using decode_unfold_None [OF sub, of obuf] known same differs rs
    by (simp add: Let_def w2_def)
  have alloc: "\<exists>tr p. calls w3 = calls w1 @ tr @ [Ev (CuMemAlloc (width * height * 3) p) CUDA_SUCCESS]
                      \<and> rgb (nvp w3) = p" if "ok"
  proof -
    from that di r have di': "dec_initialize E wd (d_wi (nvp w1)) (d_hi (nvp w1)) width height = (Some True, w3)"
      by simp
    from differs wd have "width \<noteq> d_wdst (nvp wd) \<or> height \<noteq> d_hdst (nvp wd)" by auto
    from dec_initialize_True_alloc [OF di' k args wd(1) this] obtain tr p where
      t: "calls w3 = calls wd @ tr @ [Ev (CuMemAlloc (width * height * 3) p) CUDA_SUCCESS] \<and> rgb (nvp w3) = p"
      by blast
    with trd have "calls w3 = calls w1 @ (trd @ tr) @ [Ev (CuMemAlloc (width * height * 3) p) CUDA_SUCCESS]
        \<and> rgb (nvp w3) = p"
      by simp
    then show ?thesis by blast
  qed
  from di r have "dec_initialize E (resize_destroy E (w1\<lparr>nvp := (nvp w1)\<lparr>empty := False\<rparr>\<rparr>))
               (d_wi (nvp w1)) (d_hi (nvp w1)) width height = (Some ok, w3)"
    by (simp add: wd_def w2_def)
  moreover from sz r wd have "d_wi (nvp w3) = d_wi (nvp w1) \<and> d_hi (nvp w3) = d_hi (nvp w1)"
    "ok \<longrightarrow> d_wdst (nvp w3) = width \<and> d_hdst (nvp w3) = height"
    "\<not> ok \<longrightarrow> d_wdst (nvp w3) = d_wdst (nvp w1) \<and> d_hdst (nvp w3) = d_hdst (nvp w1)"
    by auto
  ultimately show ?thesis using dec alloc by blast
qed

lemma dec_sequence_initialized:
  assumes "dec_sequence E w fmt = (r, w')" "initialized (nvp w)"
    and "bit_depth_luma_minus8 fmt \<noteq> 0 \<or>
       (chroma_format fmt = cudaVideoChromaFormat_420 \<and> codec fmt = cudaVideoCodec_H264
        \<and> progressive_sequence fmt = 1)"
  shows "r \<noteq> None \<and> nvp w' = nvp w"
  using assms
  by (auto simp: dec_sequence_def Let_def split: if_splits)

lemma dec_ode_sizes:
  assumes "dec_ode E w pic = (r, w')"
  shows "nvp w' = nvp w \<or>
         nvp w' = (nvp w)\<lparr>d_wsrc := scast (PicWidthInMbs pic * 16),
                           d_hsrc := scast (FrameHeightInMbs pic * 16)\<rparr>"
  using assms
  by (auto simp: dec_ode_def engine_call_defs Let_def split: if_splits prod.splits)

lemma run_script_calm:
  "calm k \<Longrightarrow> initialized (nvp w) \<Longrightarrow> d_wsrc (nvp w) \<noteq> 0 \<Longrightarrow> d_hsrc (nvp w) \<noteq> 0 \<Longrightarrow>
   run_script E w k = (r, w') \<Longrightarrow>
     r = Some CUDA_SUCCESS \<and> initialized (nvp w') \<and> d_wsrc (nvp w') \<noteq> 0 \<and> d_hsrc (nvp w') \<noteq> 0
     \<and> d_wdst (nvp w') = d_wdst (nvp w) \<and> d_hdst (nvp w') = d_hdst (nvp w)"
proof (induction k arbitrary: w)
  case (Parse_done rc)
  then show ?case by simp
next
  case (Sequence_cb fmt k0 k1)
  obtain r1 w1 where s: "dec_sequence E w fmt = (r1, w1)" by (cases "dec_sequence E w fmt")
  from Sequence_cb.prems(1) have c: "bit_depth_luma_minus8 fmt \<noteq> 0 \<or>
       (chroma_format fmt = cudaVideoChromaFormat_420 \<and> codec fmt = cudaVideoCodec_H264
        \<and> progressive_sequence fmt = 1)" "calm k0" "calm k1" by simp_all
  from dec_sequence_initialized [OF s Sequence_cb.prems(2) c(1)] obtain v where
    v: "r1 = Some v" "nvp w1 = nvp w" by auto
  with s Sequence_cb.prems(5)
  have rs: "run_script E w1 (if v = 0 then k0 else k1) = (r, w')" by (simp split: if_splits)
  have w1: "initialized (nvp w1)" "d_wsrc (nvp w1) \<noteq> 0" "d_hsrc (nvp w1) \<noteq> 0"
    "d_wdst (nvp w1) = d_wdst (nvp w)" "d_hdst (nvp w1) = d_hdst (nvp w)"
    using Sequence_cb.prems(2-4) v(2) by simp_all
  show ?case
  proof (cases "v = 0")
    case True
    with rs have "run_script E w1 k0 = (r, w')" by simp
    from Sequence_cb.IH(1) [OF c(2) w1(1-3) this] w1(4,5) show ?thesis by simp
  next
    case False
    with rs have "run_script E w1 k1 = (r, w')" by simp
    from Sequence_cb.IH(2) [OF c(3) w1(1-3) this] w1(4,5) show ?thesis by simp
  qed
next
  case (Decode_cb pic k0 k1)
  obtain v w1 where s: "dec_ode E w pic = (v, w1)" by (cases "dec_ode E w pic")
  from Decode_cb.prems(1) have c: "(scast (PicWidthInMbs pic * 16) :: size_t) \<noteq> 0"
    "(scast (FrameHeightInMbs pic * 16) :: size_t) \<noteq> 0" "calm k0" "calm k1" by simp_all
  from dec_ode_sizes [OF s] c(1,2) Decode_cb.prems(2-4)
  have w1: "initialized (nvp w1)" "d_wsrc (nvp w1) \<noteq> 0" "d_hsrc (nvp w1) \<noteq> 0"
    "d_wdst (nvp w1) = d_wdst (nvp w)" "d_hdst (nvp w1) = d_hdst (nvp w)"
    by auto
  from s Decode_cb.prems(5)
  have rs: "run_script E w1 (if v = 0 then k0 else k1) = (r, w')" by (simp split: if_splits)
  show ?case
  proof (cases "v = 0")
    case True
    with rs have "run_script E w1 k0 = (r, w')" by simp
    from Decode_cb.IH(1) [OF c(3) w1(1-3) this] w1(4,5) show ?thesis by simp
  next
    case False
    with rs have "run_script E w1 k1 = (r, w')" by simp
    from Decode_cb.IH(2) [OF c(4) w1(1-3) this] w1(4,5) show ?thesis by simp
  qed
qed

lemma submit_calm:
  assumes st: "impl_type (nvp w) = DECODER" "parser (nvp w) \<noteq> 0" "initialized (nvp w)"
      "d_wsrc (nvp w) \<noteq> 0" "d_hsrc (nvp w) \<noteq> 0"
    and args: "ibuf_sz \<noteq> 0" "width \<noteq> 0" "height \<noteq> 0" "even height"
    and calm: "calm (on_cuvidParseVideoData E (calls w) (parser (nvp w)) ibuf ibuf_sz)"
  shows "\<exists>w1. nvp_cuvid_decode_submit E w ibuf ibuf_sz width height = (None, w1)
           \<and> initialized (nvp w1) \<and> d_wsrc (nvp w1) \<noteq> 0 \<and> d_hsrc (nvp w1) \<noteq> 0
           \<and> d_wdst (nvp w1) = d_wdst (nvp w) \<and> d_hdst (nvp w1) = d_hdst (nvp w)
           \<and> impl_type (nvp w1) = DECODER \<and> parser (nvp w1) = parser (nvp w)"
proof -
  let ?k = "on_cuvidParseVideoData E (calls w) (parser (nvp w)) ibuf ibuf_sz"
  obtain r w' where rs: "run_script E w ?k = (r, w')" by (cases "run_script E w ?k")
  from run_script_calm [OF calm st(3-5) rs] have
    r: "r = Some CUDA_SUCCESS" "initialized (nvp w')" "d_wsrc (nvp w') \<noteq> 0" "d_hsrc (nvp w') \<noteq> 0"
       "d_wdst (nvp w') = d_wdst (nvp w)" "d_hdst (nvp w') = d_hdst (nvp w)"
    by simp_all
  from run_script_frame [OF rs] st(1) have
    f: "impl_type (nvp w') = DECODER" "parser (nvp w') = parser (nvp w)" by simp_all
  from args(4) have "height AND 1 \<noteq> 1" by (simp add: and_one_eq even_iff_mod_2_eq_zero)
  with st(1,2) args(1-3) rs r(1) have
    "nvp_cuvid_decode_submit E w ibuf ibuf_sz width height
       = (None, record_call (CuvidParseVideoData (parser (nvp w)) ibuf ibuf_sz) CUDA_SUCCESS w')"
    by (simp add: nvp_cuvid_decode_submit_def cuvidParseVideoData_def)
  with r f show ?thesis by simp
qed

lemma dec_initialize_not_created:
  assumes "dec_initialize E w a b c d = (r, w')"
    and "a \<noteq> 0" "b \<noteq> 0" "c \<noteq> 0" "d \<noteq> 0" "decoder (nvp w) = 0"
    and "fst (on_cuvidCreateDecoder E (calls w) (create_info a b c d)) \<noteq> CUDA_SUCCESS"
  shows "r = Some False"
  using assms
  by (auto simp: dec_initialize_def cuvidCreateDecoder_def Let_def word_gt_0
           split: if_splits prod.splits)

lemma idle_events_simps [simp]:
  "idle_events []"
  "idle_events (e # tr) = (idle_call (call_of e) \<and> idle_events tr)"
  "idle_events (tr @ tr') = (idle_events tr \<and> idle_events tr')"
  by (simp_all add: idle_events_def)









text \<open>The calls of \<open>resize\<close>, and the sizes after a call that produced a picture.\<close>

lemma dec_initialize_first_event:
  assumes "dec_initialize E w a b c d = (r, w')"
    and "a \<noteq> 0" "b \<noteq> 0" "c \<noteq> 0" "d \<noteq> 0" "decoder (nvp w) = 0"
  shows "\<exists>h rc post. calls w' = calls w @ Ev (CuvidCreateDecoder (create_info a b c d) h) rc # post
           \<and> setup_events post"
proof -
  obtain rc h where "on_cuvidCreateDecoder E (calls w) (create_info a b c d) = (rc, h)"
    by (cases "on_cuvidCreateDecoder E (calls w) (create_info a b c d)")
  with assms
  have "\<exists>post. calls w' = calls w @ Ev (CuvidCreateDecoder (create_info a b c d) h) rc # post
           \<and> setup_events post"
    by (auto simp: dec_initialize_def engine_call_defs Let_def word_gt_0
             split: if_splits prod.splits)
  then show ?thesis by blast
qed

lemma resize_destroy_calls:
  "\<exists>drc. calls (resize_destroy E w) = calls w @
      (if decoder (nvp w) = 0 then [] else [Ev (CuvidDestroyDecoder (decoder (nvp w))) drc])"
  by (auto simp: resize_destroy_def engine_call_defs Let_def)

lemma resize_trace:
  assumes rs: "resize E w a b c d = (r, w')"
    and nz: "a \<noteq> 0" "b \<noteq> 0" "c \<noteq> 0" "d \<noteq> 0"
  shows "\<exists>drc h rc post. calls w' = calls w
            @ (if decoder (nvp w) = 0 then [] else [Ev (CuvidDestroyDecoder (decoder (nvp w))) drc])
            @ Ev (CuvidCreateDecoder (create_info a b c d) h) rc # post
          \<and> setup_events post"
proof -
  obtain r0 w3 where di: "dec_initialize E (resize_destroy E w) a b c d = (r0, w3)"
    by (cases "dec_initialize E (resize_destroy E w) a b c d")
  with rs have w': "w' = w3" by (auto simp: resize_def split: option.splits)
  from dec_initialize_first_event [OF di nz resize_destroy_props(1)] obtain h rc post where
    p: "calls w3 = calls (resize_destroy E w) @ Ev (CuvidCreateDecoder (create_info a b c d) h) rc # post"
      "setup_events post" by blast
  from resize_destroy_calls [of E w] obtain drc where
    d: "calls (resize_destroy E w) = calls w @
      (if decoder (nvp w) = 0 then [] else [Ev (CuvidDestroyDecoder (decoder (nvp w))) drc])" ..
  from p(1) d w' have "calls w' = calls w
            @ (if decoder (nvp w) = 0 then [] else [Ev (CuvidDestroyDecoder (decoder (nvp w))) drc])
            @ Ev (CuvidCreateDecoder (create_info a b c d) h) rc # post"
    by (simp split del: if_split)
  with p(2) show ?thesis
    by (intro exI [of _ drc] exI [of _ h] exI [of _ rc] exI [of _ post] conjI)
qed

lemma decode_success_sizes:
  assumes "nvp_cuvid_decode E w ibuf ibuf_sz obuf width height = Some (Returned NVPIPE_SUCCESS, w')"
  shows "d_wi (nvp w') = d_wsrc (nvp w') \<and> d_hi (nvp w') = d_hsrc (nvp w')
       \<and> d_wdst (nvp w') = width \<and> d_hdst (nvp w') = height"
  using decode_returns_shape [OF assms] by auto

text \<open>A run of \<open>dec_initialize\<close> in which the engine creates no decoder.\<close>

lemma dec_initialize_create_fails:
  assumes "dec_initialize E w iwidth iheight dstwidth dstheight = (r, w')"
    and "iwidth \<noteq> 0" "iheight \<noteq> 0" "dstwidth \<noteq> 0" "dstheight \<noteq> 0" "decoder (nvp w) = 0"
    and "on_cuvidCreateDecoder E (calls w) (create_info iwidth iheight dstwidth dstheight)
           = (rc, h)"
    and "rc \<noteq> CUDA_SUCCESS"
  shows "r = Some False
       \<and> calls w' = calls w @ [Ev (CuvidCreateDecoder (create_info iwidth iheight dstwidth dstheight) h) rc]
       \<and> rgb (nvp w') = rgb (nvp w)
       \<and> d_wdst (nvp w') = d_wdst (nvp w) \<and> d_hdst (nvp w') = d_hdst (nvp w)"
  using assms
  by (auto simp: dec_initialize_def engine_call_defs Let_def word_gt_0)

text \<open>The output stage, call by call, when the picture is mapped and a converter exists.\<close>

lemma output_trace:
  assumes out: "nvp_cuvid_decode_output E w obuf width height = (r, w')"
    and dec: "decoder (nvp w) \<noteq> 0"
    and mapped: "on_cuvidMapVideoFrame E (calls w) (decoder (nvp w)) = (CUDA_SUCCESS, data, pitch)"
    and conv: "reorg (nvp w) \<noteq> 0 \<or>
       on_nv122rgb E (calls w @ [Ev (CuvidMapVideoFrame (decoder (nvp w)) data pitch) CUDA_SUCCESS]) \<noteq> 0"
  shows "\<exists>cv src hrc yrc urc.
      calls w' = calls w
        @ Ev (CuvidMapVideoFrame (decoder (nvp w)) data pitch) CUDA_SUCCESS
        # (if reorg (nvp w) = 0 then [Ev (Nv122rgb cv) CUDA_SUCCESS] else [])
        @ Ev (Reorg_submit cv data width height (rgb (nvp w)) pitch) src
        # (if src \<noteq> CUDA_SUCCESS then []
           else Ev (CuMemcpyDtoHAsync obuf (rgb (nvp w)) (d_wdst (nvp w) * d_hdst (nvp w) * 3) cv) hrc
                # (if hrc \<noteq> CUDA_SUCCESS then [] else [Ev (Reorg_sync cv) yrc]))
        @ [Ev (CuvidUnmapVideoFrame (decoder (nvp w)) data) urc]
    \<and> r = Returned (if src \<noteq> CUDA_SUCCESS then CUresult_value src
                     else if hrc \<noteq> CUDA_SUCCESS then CUresult_value hrc
                     else if yrc \<noteq> CUDA_SUCCESS then CUresult_value yrc
                     else NVPIPE_SUCCESS)
    \<and> logs w' = logs w
        @ (if urc \<noteq> CUDA_SUCCESS then [(WARN, ''Could not unmap frame.'')] else [])
    \<and> cv \<noteq> 0 \<and> (reorg (nvp w) \<noteq> 0 \<longrightarrow> cv = reorg (nvp w))
    \<and> nvp w' = (nvp w)\<lparr>reorg := cv\<rparr>"
proof -
  let ?m = "Ev (CuvidMapVideoFrame (decoder (nvp w)) data pitch) CUDA_SUCCESS"
  let ?n = "d_wdst (nvp w) * d_hdst (nvp w) * 3"
  define cv where "cv = (if reorg (nvp w) = 0 then on_nv122rgb E (calls w @ [?m]) else reorg (nvp w))"
  define wm where "wm = record_call (CuvidMapVideoFrame (decoder (nvp w)) data pitch) CUDA_SUCCESS w"
  define w2 where
    "w2 = (if reorg (nvp wm) = 0 then
             let (r, w') = nv122rgb E wm in w'\<lparr>nvp := (nvp w')\<lparr>reorg := r\<rparr>\<rparr>
           else wm)"
  define src where "src = on_reorg_submit E (calls w2) cv data width height (rgb (nvp w)) pitch"
  define w3 where "w3 = record_call (Reorg_submit cv data width height (rgb (nvp w)) pitch) src w2"
  define hrc where "hrc = on_cuMemcpyDtoHAsync E (calls w3) obuf (rgb (nvp w)) ?n cv"
  define w4 where "w4 = record_call (CuMemcpyDtoHAsync obuf (rgb (nvp w)) ?n cv) hrc w3"
  define yrc where "yrc = on_reorg_sync E (calls w4) cv"
  define w5 where "w5 = record_call (Reorg_sync cv) yrc w4"
  define w7 where
    "w7 = (if src \<noteq> CUDA_SUCCESS then w3 else if hrc \<noteq> CUDA_SUCCESS then w4 else w5)"
  define errcode where
    "errcode = (if src \<noteq> CUDA_SUCCESS then CUresult_value src
                else if hrc \<noteq> CUDA_SUCCESS then CUresult_value hrc
                else if yrc \<noteq> CUDA_SUCCESS then CUresult_value yrc
                else NVPIPE_SUCCESS)"
  define urc where "urc = on_cuvidUnmapVideoFrame E (calls w7) (decoder (nvp w)) data"
  define w8 where "w8 = record_call (CuvidUnmapVideoFrame (decoder (nvp w)) data) urc w7"
  define w9 where
    "w9 = (if urc \<noteq> CUDA_SUCCESS then log_msg WARN ''Could not unmap frame.'' w8 else w8)"
  from conv have cv: "cv \<noteq> 0" "reorg (nvp w) \<noteq> 0 \<longrightarrow> cv = reorg (nvp w)"
    by (auto simp: cv_def)
  have e1: "cuvidMapVideoFrame E w (decoder (nvp w)) = (CUDA_SUCCESS, data, pitch, wm)"
    using mapped by (simp add: cuvidMapVideoFrame_def wm_def Let_def)
  have p2: "nvp w2 = (nvp w)\<lparr>reorg := cv\<rparr>" "logs w2 = logs w"
    "calls w2 = calls w @ ?m # (if reorg (nvp w) = 0 then [Ev (Nv122rgb cv) CUDA_SUCCESS] else [])"
    by (simp_all add: w2_def wm_def cv_def nv122rgb_def Let_def)
  have q2: "reorg (nvp w2) = cv" "rgb (nvp w2) = rgb (nvp w)" "decoder (nvp w2) = decoder (nvp w)"
    "d_wdst (nvp w2) = d_wdst (nvp w)" "d_hdst (nvp w2) = d_hdst (nvp w)"
    by (simp_all add: p2(1))
  have e3: "reorg_submit E w2 cv data width height (rgb (nvp w)) pitch = (src, w3)"
    by (simp add: reorg_submit_def src_def w3_def Let_def)
  have p3: "nvp w3 = nvp w2" "logs w3 = logs w2"
    "calls w3 = calls w2 @ [Ev (Reorg_submit cv data width height (rgb (nvp w)) pitch) src]"
    by (simp_all add: w3_def)
  have e4: "cuMemcpyDtoHAsync E w3 obuf (rgb (nvp w)) ?n cv = (hrc, w4)"
    by (simp add: cuMemcpyDtoHAsync_def hrc_def w4_def Let_def)
  have p4: "nvp w4 = nvp w2" "logs w4 = logs w2"
    "calls w4 = calls w3 @ [Ev (CuMemcpyDtoHAsync obuf (rgb (nvp w)) ?n cv) hrc]"
    by (simp_all add: w4_def p3)
  have e5: "reorg_sync E w4 cv = (yrc, w5)"
    by (simp add: reorg_sync_def yrc_def w5_def Let_def)
  have p5: "nvp w5 = nvp w2" "logs w5 = logs w2" "calls w5 = calls w4 @ [Ev (Reorg_sync cv) yrc]"
    by (simp_all add: w5_def p4)
  have p7: "nvp w7 = nvp w2" "logs w7 = logs w2"
    by (simp_all add: w7_def p3 p4 p5)
  have e8: "cuvidUnmapVideoFrame E w7 (decoder (nvp w)) data = (urc, w8)"
    by (simp add: cuvidUnmapVideoFrame_def urc_def w8_def Let_def)
  have e2: "(if reorg (nvp wm) = 0 then
             let (r, w') = nv122rgb E wm in w'\<lparr>nvp := (nvp w')\<lparr>reorg := r\<rparr>\<rparr>
           else wm) = w2"
    by (simp only: w2_def)
  have conv_part: "(if CUDA_SUCCESS \<noteq> src then (CUresult_value src, w3)
         else
           let nb_rgb = d_wdst (nvp w3) * d_hdst (nvp w3) * 3;
               (hcopy, w4) = cuMemcpyDtoHAsync E w3 obuf (rgb (nvp w3)) nb_rgb (reorg (nvp w3))
           in
             if CUDA_SUCCESS \<noteq> hcopy then (CUresult_value hcopy, w4)
             else
               let (synch, w5) = reorg_sync E w4 (reorg (nvp w4))
               in if CUDA_SUCCESS \<noteq> synch then (CUresult_value synch, w5)
                  else (NVPIPE_SUCCESS, w5)) = (errcode, w7)"
    by (auto simp: Let_def p3 p4 q2 e4 e5 errcode_def w7_def)
  have "nvp_cuvid_decode_output E w obuf width height = (Returned errcode, w9)"
    unfolding nvp_cuvid_decode_output_def
    using dec cv(1)
    by (simp add: e1 e2 q2 e3 conv_part p7 e8 w9_def Let_def split del: if_split)
  with out have r: "r = Returned errcode" and w': "w' = w9" by simp_all
  have c: "calls w' = calls w
        @ Ev (CuvidMapVideoFrame (decoder (nvp w)) data pitch) CUDA_SUCCESS
        # (if reorg (nvp w) = 0 then [Ev (Nv122rgb cv) CUDA_SUCCESS] else [])
        @ Ev (Reorg_submit cv data width height (rgb (nvp w)) pitch) src
        # (if src \<noteq> CUDA_SUCCESS then []
           else Ev (CuMemcpyDtoHAsync obuf (rgb (nvp w)) ?n cv) hrc
                # (if hrc \<noteq> CUDA_SUCCESS then [] else [Ev (Reorg_sync cv) yrc]))
        @ [Ev (CuvidUnmapVideoFrame (decoder (nvp w)) data) urc]"
    by (simp add: w' w9_def w8_def w7_def p5 p4 p3 p2)
  have l: "logs w' = logs w
        @ (if urc \<noteq> CUDA_SUCCESS then [(WARN, ''Could not unmap frame.'')] else [])"
    by (simp add: w' w9_def w8_def p7 p2)
  have n: "nvp w' = (nvp w)\<lparr>reorg := cv\<rparr>"
    by (simp add: w' w9_def w8_def p7 p2)
  show ?thesis
    apply (rule exI [of _ cv], rule exI [of _ src], rule exI [of _ hrc], rule exI [of _ yrc],
        rule exI [of _ urc])
    apply (intro conjI)
         apply (rule c)
        apply (simp add: r errcode_def)
       apply (rule l)
      apply (rule cv(1))
     apply (rule cv(2))
    apply (rule n)
    done
qed

text \<open>
  In what a returning call has appended to the history, a successful mapping is followed
  by conversion steps only and then by the unmapping of the same frame, the last call.
\<close>

lemma returning_call_unmaps:
  assumes "nvp_cuvid_decode E w ibuf ibuf_sz obuf width height = Some (Returned rc, w')"
  shows "\<exists>tr. calls w' = calls w @ tr \<and>
          (\<forall>pre h d p post. tr = pre @ Ev (CuvidMapVideoFrame h d p) CUDA_SUCCESS # post \<longrightarrow>
             (\<exists>mid urc. post = mid @ [Ev (CuvidUnmapVideoFrame h d) urc] \<and> convert_events mid
                 \<and> rc = first_error mid))"
proof -
  let ?map = "\<lambda>e. output_call (call_of e) \<and> \<not> convert_call (call_of e)"
  from decode_returns_shape [OF assms] consider
    (early) tr where "calls w' = calls w @ tr" "quiet tr"
  | (parse_failed) tr h k where "calls w' = calls w @ tr @ [Ev (CuvidParseVideoData h ibuf ibuf_sz) k]"
      "quiet tr"
  | (map_failed) tr h d p k where "calls w' = calls w @ tr @ [Ev (CuvidMapVideoFrame h d p) k]"
      "quiet tr" "k \<noteq> CUDA_SUCCESS"
  | (mapped) tr h d p mid urc where
      "calls w' = calls w @ tr @ Ev (CuvidMapVideoFrame h d p) CUDA_SUCCESS # mid
                           @ [Ev (CuvidUnmapVideoFrame h d) urc]"
      "quiet tr" "convert_events mid" "rc = first_error mid"
    by blast
  then show ?thesis
  proof cases
    case early
    have "tr \<noteq> pre @ Ev (CuvidMapVideoFrame h d p) CUDA_SUCCESS # post" for pre h d p post
      using quiet_member [OF early(2), of "Ev (CuvidMapVideoFrame h d p) CUDA_SUCCESS"] by auto
    with early(1) show ?thesis by blast
  next
    case parse_failed
    have "tr @ [Ev (CuvidParseVideoData h ibuf ibuf_sz) k]
            \<noteq> pre @ Ev (CuvidMapVideoFrame h' d' p') CUDA_SUCCESS # post" for pre h' d' p' post
    proof
      assume "tr @ [Ev (CuvidParseVideoData h ibuf ibuf_sz) k]
                = pre @ Ev (CuvidMapVideoFrame h' d' p') CUDA_SUCCESS # post"
      then have "Ev (CuvidMapVideoFrame h' d' p') CUDA_SUCCESS
                   \<in> set (tr @ [Ev (CuvidParseVideoData h ibuf ibuf_sz) k])"
        by simp
      with quiet_member [OF parse_failed(2), of "Ev (CuvidMapVideoFrame h' d' p') CUDA_SUCCESS"]
      show False by auto
    qed
    with parse_failed(1) show ?thesis by blast
  next
    case map_failed
    have "tr @ [Ev (CuvidMapVideoFrame h d p) k]
            \<noteq> pre @ Ev (CuvidMapVideoFrame h' d' p') CUDA_SUCCESS # post" for pre h' d' p' post
    proof
      assume "tr @ [Ev (CuvidMapVideoFrame h d p) k]
                = pre @ Ev (CuvidMapVideoFrame h' d' p') CUDA_SUCCESS # post"
      then have "Ev (CuvidMapVideoFrame h' d' p') CUDA_SUCCESS
                   \<in> set (tr @ [Ev (CuvidMapVideoFrame h d p) k])"
        by simp
      with quiet_member [OF map_failed(2), of "Ev (CuvidMapVideoFrame h' d' p') CUDA_SUCCESS"]
        map_failed(3)
      show False by auto
    qed
    with map_failed(1) show ?thesis by blast
  next
    case mapped
    have "\<exists>mid' urc'. post = mid' @ [Ev (CuvidUnmapVideoFrame h' d') urc'] \<and> convert_events mid'
                 \<and> rc = first_error mid'"
      if eq: "tr @ Ev (CuvidMapVideoFrame h d p) CUDA_SUCCESS # mid @ [Ev (CuvidUnmapVideoFrame h d) urc]
            = pre @ Ev (CuvidMapVideoFrame h' d' p') CUDA_SUCCESS # post" for pre h' d' p' post
    proof -
      have 1: "\<forall>e\<in>set tr. \<not> ?map e" using quiet_member [OF mapped(2)] by blast
      have 2: "\<forall>e\<in>set (mid @ [Ev (CuvidUnmapVideoFrame h d) urc]). \<not> ?map e"
        using mapped(3) by (auto simp: convert_events_def list_all_iff)
      have 3: "?map (Ev (CuvidMapVideoFrame h' d' p') CUDA_SUCCESS)" by simp
      from split_unique [of tr _ _ pre _ post ?map, OF eq 1 2 3]
      have "h = h'" "d = d'" "post = mid @ [Ev (CuvidUnmapVideoFrame h d) urc]" by auto
      with mapped(3,4) show ?thesis by blast
    qed
    with mapped(1) show ?thesis by blast
  qed
qed

text \<open>
  Only \<open>initialize_parser\<close> creates a parser, and a call in which that fails returns
  \<open>NVPIPE_EDECODE\<close>.
\<close>

lemma no_parser_simps [simp]:
  "no_parser []"
  "no_parser (e # tr) = (\<not> parser_create (call_of e) \<and> no_parser tr)"
  "no_parser (tr @ tr') = (no_parser tr \<and> no_parser tr')"
  by (simp_all add: no_parser_def)

lemma parsers_ok_simps [simp]:
  "parsers_ok []"
  "parsers_ok (e # tr) = ((\<not> parser_create (call_of e) \<or> rc_of e = CUDA_SUCCESS) \<and> parsers_ok tr)"
  "parsers_ok (tr @ tr') = (parsers_ok tr \<and> parsers_ok tr')"
  by (simp_all add: parsers_ok_def)













section \<open>Properties\<close>

subsection \<open>Argument checks\<close>

text \<open>
  C6. A call of \<open>nvp_cuvid_decode\<close> with an empty packet (\<open>ibuf_sz = 0\<close>), with width 0,
  or with a height that is 0 or odd returns \<open>NVPIPE_EINVAL\<close>; it makes no call into the
  engine and leaves the session struct as it was (only an error message is logged).
\<close>

theorem decode_invalid_argument:
  assumes "ibuf_sz = 0 \<or> width = 0 \<or> height = 0 \<or> odd height"
  shows "\<exists>w'. nvp_cuvid_decode E w ibuf ibuf_sz obuf width height = Some (Returned NVPIPE_EINVAL, w')
            \<and> nvp w' = nvp w \<and> calls w' = calls w"
  using assms
  apply (subst nvp_cuvid_decode.simps)
  apply (auto simp: nvp_cuvid_decode_submit_def log_msg_def and_one_eq)
  done

theorem decode_invalid_argument_witness:
  "\<exists>w'. nvp_cuvid_decode steady_engine new_session [1, 2, 3] 3 0 64 63
          = Some (Returned NVPIPE_EINVAL, w')
       \<and> nvp w' = nvp new_session \<and> calls w' = calls new_session"
  using decode_invalid_argument [of 3 64 63 steady_engine new_session "[1, 2, 3]" 0]
  by simp

subsection \<open>The output stage\<close>

text \<open>
  C7, as amended. On the steady-state path of \<open>nvp_cuvid_decode\<close> (the submission
  succeeds, the picture size is known and nothing has to be resized), with a decoder and
  with a converter that exists or can be created: when the engine maps the picture, the
  call returns, and what it does after the mapping is the conversion, then (only if the
  conversion succeeded) the copy to the host, then (only if the copy succeeded) the
  synchronization, and then, in every case, the unmapping of the same decoder and frame,
  which is the last call. The returned code is the engine's own code of the first of
  conversion, copy and synchronization that failed, and success if none of them failed.
  The result of the unmapping never changes the returned code: a failed unmapping adds
  one warning to the log and nothing else, also when no earlier step failed, in which
  case the call returns success. More generally, in what any returning call has appended
  to the history, a successful mapping is followed by conversion steps only and then by
  the unmapping of the same frame, and the returned code is that of the first of these
  conversion steps that failed, or success.
\<close>

theorem mapped_picture_is_unmapped:
  "(nvp_cuvid_decode_submit E w ibuf ibuf_sz width height = (None, w1)
      \<and> d_wsrc (nvp w1) \<noteq> 0 \<and> d_hsrc (nvp w1) \<noteq> 0
      \<and> d_wsrc (nvp w1) = d_wi (nvp w1) \<and> d_hsrc (nvp w1) = d_hi (nvp w1)
      \<and> d_wdst (nvp w1) = width \<and> d_hdst (nvp w1) = height
      \<and> decoder (nvp w1) \<noteq> 0
      \<and> on_cuvidMapVideoFrame E (calls w1) (decoder (nvp w1)) = (CUDA_SUCCESS, data, pitch)
      \<and> (reorg (nvp w1) \<noteq> 0 \<or>
          on_nv122rgb E (calls w1 @ [Ev (CuvidMapVideoFrame (decoder (nvp w1)) data pitch)
                                       CUDA_SUCCESS]) \<noteq> 0) \<longrightarrow>
      (\<exists>rc w' cv src hrc yrc urc.
           nvp_cuvid_decode E w ibuf ibuf_sz obuf width height = Some (Returned rc, w')
         \<and> calls w' = calls w1
             @ Ev (CuvidMapVideoFrame (decoder (nvp w1)) data pitch) CUDA_SUCCESS
             # (if reorg (nvp w1) = 0 then [Ev (Nv122rgb cv) CUDA_SUCCESS] else [])
             @ Ev (Reorg_submit cv data width height (rgb (nvp w1)) pitch) src
             # (if src \<noteq> CUDA_SUCCESS then []
                else Ev (CuMemcpyDtoHAsync obuf (rgb (nvp w1)) (width * height * 3) cv) hrc
                     # (if hrc \<noteq> CUDA_SUCCESS then [] else [Ev (Reorg_sync cv) yrc]))
             @ [Ev (CuvidUnmapVideoFrame (decoder (nvp w1)) data) urc]
         \<and> (reorg (nvp w1) \<noteq> 0 \<longrightarrow> cv = reorg (nvp w1))
         \<and> rc = (if src \<noteq> CUDA_SUCCESS then CUresult_value src
                  else if hrc \<noteq> CUDA_SUCCESS then CUresult_value hrc
                  else if yrc \<noteq> CUDA_SUCCESS then CUresult_value yrc
                  else NVPIPE_SUCCESS)
         \<and> logs w' = logs w1
             @ (if urc \<noteq> CUDA_SUCCESS then [(WARN, ''Could not unmap frame.'')] else [])))
   \<and> (\<forall>rc w'. nvp_cuvid_decode E w ibuf ibuf_sz obuf width height = Some (Returned rc, w') \<longrightarrow>
        (\<exists>tr. calls w' = calls w @ tr \<and>
          (\<forall>pre h d p post. tr = pre @ Ev (CuvidMapVideoFrame h d p) CUDA_SUCCESS # post \<longrightarrow>
             (\<exists>mid urc. post = mid @ [Ev (CuvidUnmapVideoFrame h d) urc] \<and> convert_events mid
                 \<and> rc = first_error mid))))"
proof (intro conjI impI allI; (elim conjE)?)
  fix rc w'
  assume "nvp_cuvid_decode E w ibuf ibuf_sz obuf width height = Some (Returned rc, w')"
  then show "\<exists>tr. calls w' = calls w @ tr \<and>
          (\<forall>pre h d p post. tr = pre @ Ev (CuvidMapVideoFrame h d p) CUDA_SUCCESS # post \<longrightarrow>
             (\<exists>mid urc. post = mid @ [Ev (CuvidUnmapVideoFrame h d) urc] \<and> convert_events mid
                 \<and> rc = first_error mid))"
    by (rule returning_call_unmaps)
next
  assume sub: "nvp_cuvid_decode_submit E w ibuf ibuf_sz width height = (None, w1)"
    and known: "d_wsrc (nvp w1) \<noteq> 0" "d_hsrc (nvp w1) \<noteq> 0"
    and same: "d_wsrc (nvp w1) = d_wi (nvp w1)" "d_hsrc (nvp w1) = d_hi (nvp w1)"
      "d_wdst (nvp w1) = width" "d_hdst (nvp w1) = height"
    and dec: "decoder (nvp w1) \<noteq> 0"
    and mapped: "on_cuvidMapVideoFrame E (calls w1) (decoder (nvp w1)) = (CUDA_SUCCESS, data, pitch)"
    and conv: "reorg (nvp w1) \<noteq> 0 \<or>
          on_nv122rgb E (calls w1 @ [Ev (CuvidMapVideoFrame (decoder (nvp w1)) data pitch)
                                       CUDA_SUCCESS]) \<noteq> 0"
  define w2 where "w2 = w1\<lparr>nvp := (nvp w1)\<lparr>empty := False\<rparr>\<rparr>"
  have w2: "calls w2 = calls w1" "logs w2 = logs w1" "decoder (nvp w2) = decoder (nvp w1)"
    "reorg (nvp w2) = reorg (nvp w1)" "rgb (nvp w2) = rgb (nvp w1)"
    "d_wdst (nvp w2) = width" "d_hdst (nvp w2) = height"
    by (simp_all add: w2_def same)
  from decode_unfold_None [OF sub, of obuf] known same
  have d: "nvp_cuvid_decode E w ibuf ibuf_sz obuf width height
             = Some (nvp_cuvid_decode_output E w2 obuf width height)"
    by (simp add: Let_def w2_def)
  obtain r w' where out: "nvp_cuvid_decode_output E w2 obuf width height = (r, w')"
    by (cases "nvp_cuvid_decode_output E w2 obuf width height")
  have "\<exists>cv src hrc yrc urc.
      calls w' = calls w2
        @ Ev (CuvidMapVideoFrame (decoder (nvp w2)) data pitch) CUDA_SUCCESS
        # (if reorg (nvp w2) = 0 then [Ev (Nv122rgb cv) CUDA_SUCCESS] else [])
        @ Ev (Reorg_submit cv data width height (rgb (nvp w2)) pitch) src
        # (if src \<noteq> CUDA_SUCCESS then []
           else Ev (CuMemcpyDtoHAsync obuf (rgb (nvp w2)) (d_wdst (nvp w2) * d_hdst (nvp w2) * 3) cv) hrc
                # (if hrc \<noteq> CUDA_SUCCESS then [] else [Ev (Reorg_sync cv) yrc]))
        @ [Ev (CuvidUnmapVideoFrame (decoder (nvp w2)) data) urc]
    \<and> r = Returned (if src \<noteq> CUDA_SUCCESS then CUresult_value src
                     else if hrc \<noteq> CUDA_SUCCESS then CUresult_value hrc
                     else if yrc \<noteq> CUDA_SUCCESS then CUresult_value yrc
                     else NVPIPE_SUCCESS)
    \<and> logs w' = logs w2
        @ (if urc \<noteq> CUDA_SUCCESS then [(WARN, ''Could not unmap frame.'')] else [])
    \<and> cv \<noteq> 0 \<and> (reorg (nvp w2) \<noteq> 0 \<longrightarrow> cv = reorg (nvp w2))
    \<and> nvp w' = (nvp w2)\<lparr>reorg := cv\<rparr>"
    using dec mapped conv by (intro output_trace [OF out]) (simp_all add: w2)
  then obtain cv src hrc yrc urc where
    c: "calls w' = calls w1
             @ Ev (CuvidMapVideoFrame (decoder (nvp w1)) data pitch) CUDA_SUCCESS
             # (if reorg (nvp w1) = 0 then [Ev (Nv122rgb cv) CUDA_SUCCESS] else [])
             @ Ev (Reorg_submit cv data width height (rgb (nvp w1)) pitch) src
             # (if src \<noteq> CUDA_SUCCESS then []
                else Ev (CuMemcpyDtoHAsync obuf (rgb (nvp w1)) (width * height * 3) cv) hrc
                     # (if hrc \<noteq> CUDA_SUCCESS then [] else [Ev (Reorg_sync cv) yrc]))
             @ [Ev (CuvidUnmapVideoFrame (decoder (nvp w1)) data) urc]"
    and r: "r = Returned (if src \<noteq> CUDA_SUCCESS then CUresult_value src
                     else if hrc \<noteq> CUDA_SUCCESS then CUresult_value hrc
                     else if yrc \<noteq> CUDA_SUCCESS then CUresult_value yrc
                     else NVPIPE_SUCCESS)"
    and l: "logs w' = logs w1
             @ (if urc \<noteq> CUDA_SUCCESS then [(WARN, ''Could not unmap frame.'')] else [])"
    and cv: "reorg (nvp w1) \<noteq> 0 \<longrightarrow> cv = reorg (nvp w1)"
    unfolding w2 by blast
  let ?rc = "if src \<noteq> CUDA_SUCCESS then CUresult_value src
             else if hrc \<noteq> CUDA_SUCCESS then CUresult_value hrc
             else if yrc \<noteq> CUDA_SUCCESS then CUresult_value yrc
             else NVPIPE_SUCCESS"
  from d out r have d': "nvp_cuvid_decode E w ibuf ibuf_sz obuf width height = Some (Returned ?rc, w')"
    by simp
  show "\<exists>rc w' cv src hrc yrc urc.
           nvp_cuvid_decode E w ibuf ibuf_sz obuf width height = Some (Returned rc, w')
         \<and> calls w' = calls w1
             @ Ev (CuvidMapVideoFrame (decoder (nvp w1)) data pitch) CUDA_SUCCESS
             # (if reorg (nvp w1) = 0 then [Ev (Nv122rgb cv) CUDA_SUCCESS] else [])
             @ Ev (Reorg_submit cv data width height (rgb (nvp w1)) pitch) src
             # (if src \<noteq> CUDA_SUCCESS then []
                else Ev (CuMemcpyDtoHAsync obuf (rgb (nvp w1)) (width * height * 3) cv) hrc
                     # (if hrc \<noteq> CUDA_SUCCESS then [] else [Ev (Reorg_sync cv) yrc]))
             @ [Ev (CuvidUnmapVideoFrame (decoder (nvp w1)) data) urc]
         \<and> (reorg (nvp w1) \<noteq> 0 \<longrightarrow> cv = reorg (nvp w1))
         \<and> rc = (if src \<noteq> CUDA_SUCCESS then CUresult_value src
                  else if hrc \<noteq> CUDA_SUCCESS then CUresult_value hrc
                  else if yrc \<noteq> CUDA_SUCCESS then CUresult_value yrc
                  else NVPIPE_SUCCESS)
         \<and> logs w' = logs w1
             @ (if urc \<noteq> CUDA_SUCCESS then [(WARN, ''Could not unmap frame.'')] else [])"
    apply (rule exI [of _ ?rc], rule exI [of _ w'], rule exI [of _ cv], rule exI [of _ src],
        rule exI [of _ hrc], rule exI [of _ yrc], rule exI [of _ urc])
    apply (intro conjI)
        apply (rule d')
       apply (rule c)
      apply (rule cv)
     apply (rule refl)
    apply (rule l)
    done
qed

theorem mapped_picture_is_unmapped_witness:
  "\<exists>w1 w'.
      nvp_cuvid_decode_submit copy_fails_engine session_64 [4, 5, 6] 3 64 64 = (None, w1)
    \<and> decoder (nvp w1) = 16
    \<and> on_cuvidMapVideoFrame copy_fails_engine (calls w1) 16 = (CUDA_SUCCESS, 4096, 256)
    \<and> nvp_cuvid_decode copy_fails_engine session_64 [4, 5, 6] 3 0 64 64
        = Some (Returned (CUresult_value 700), w')
    \<and> calls w' = calls w1 @
        [Ev (CuvidMapVideoFrame 16 4096 256) CUDA_SUCCESS,
         Ev (Reorg_submit 48 4096 64 64 8192 256) CUDA_SUCCESS,
         Ev (CuMemcpyDtoHAsync 0 8192 (64 * 64 * 3) 48) 700,
         Ev (CuvidUnmapVideoFrame 16 4096) CUDA_SUCCESS]
    \<and> logs w' = logs w1"
proof -
  let ?s = "nvp_cuvid_decode_submit copy_fails_engine session_64 [4, 5, 6] 3 64 64"
  have "fst ?s = None \<and> nvp (snd ?s) =
     \<lparr>impl_type = DECODER, initialized = True, decoder = 16, parser = 32,
      d_wi = 64, d_hi = 64, d_wdst = 64, d_hdst = 64, d_wsrc = 64, d_hsrc = 64,
      rgb = 8192, empty = False, reorg = 48\<rparr>"
    by code_simp
  then obtain w1 where s: "?s = (None, w1)" and n: "nvp w1 =
     \<lparr>impl_type = DECODER, initialized = True, decoder = 16, parser = 32,
      d_wi = 64, d_hi = 64, d_wdst = 64, d_hdst = 64, d_wsrc = 64, d_hsrc = 64,
      rgb = 8192, empty = False, reorg = 48\<rparr>"
    by (cases ?s) auto
  have m: "on_cuvidMapVideoFrame copy_fails_engine (calls w1) 16 = (CUDA_SUCCESS, 4096, 256)"
    by (simp add: copy_fails_engine_def steady_engine_def)
  have k: "map_option (\<lambda>y. drop (length (calls (snd ?s))) (calls (snd y)))
             (nvp_cuvid_decode copy_fails_engine session_64 [4, 5, 6] 3 0 64 64)
           = Some [Ev (CuvidMapVideoFrame 16 4096 256) CUDA_SUCCESS,
                   Ev (Reorg_submit 48 4096 64 64 8192 256) CUDA_SUCCESS,
                   Ev (CuMemcpyDtoHAsync 0 8192 (64 * 64 * 3) 48) 700,
                   Ev (CuvidUnmapVideoFrame 16 4096) CUDA_SUCCESS]"
    by code_simp
  have h: "nvp_cuvid_decode_submit copy_fails_engine session_64 [4, 5, 6] 3 64 64 = (None, w1)
      \<and> d_wsrc (nvp w1) \<noteq> 0 \<and> d_hsrc (nvp w1) \<noteq> 0
      \<and> d_wsrc (nvp w1) = d_wi (nvp w1) \<and> d_hsrc (nvp w1) = d_hi (nvp w1)
      \<and> d_wdst (nvp w1) = 64 \<and> d_hdst (nvp w1) = 64
      \<and> decoder (nvp w1) \<noteq> 0
      \<and> on_cuvidMapVideoFrame copy_fails_engine (calls w1) (decoder (nvp w1))
           = (CUDA_SUCCESS, 4096, 256)
      \<and> (reorg (nvp w1) \<noteq> 0 \<or>
          on_nv122rgb copy_fails_engine
            (calls w1 @ [Ev (CuvidMapVideoFrame (decoder (nvp w1)) 4096 256) CUDA_SUCCESS]) \<noteq> 0)"
    using s m by (simp add: n)
  from mapped_picture_is_unmapped [THEN conjunct1, rule_format,
      of copy_fails_engine session_64 "[4, 5, 6]" 3 64 64 w1 4096 256 0, OF h]
  obtain rc w' cv src hrc yrc urc where
    d: "nvp_cuvid_decode copy_fails_engine session_64 [4, 5, 6] 3 0 64 64 = Some (Returned rc, w')"
    and c0: "calls w' = calls w1
             @ Ev (CuvidMapVideoFrame (decoder (nvp w1)) 4096 256) CUDA_SUCCESS
             # (if reorg (nvp w1) = 0 then [Ev (Nv122rgb cv) CUDA_SUCCESS] else [])
             @ Ev (Reorg_submit cv 4096 64 64 (rgb (nvp w1)) 256) src
             # (if src \<noteq> CUDA_SUCCESS then []
                else Ev (CuMemcpyDtoHAsync 0 (rgb (nvp w1)) (64 * 64 * 3) cv) hrc
                     # (if hrc \<noteq> CUDA_SUCCESS then [] else [Ev (Reorg_sync cv) yrc]))
             @ [Ev (CuvidUnmapVideoFrame (decoder (nvp w1)) 4096) urc]"
    and cv0: "reorg (nvp w1) \<noteq> 0 \<longrightarrow> cv = reorg (nvp w1)"
    and rc: "rc = (if src \<noteq> CUDA_SUCCESS then CUresult_value src
                  else if hrc \<noteq> CUDA_SUCCESS then CUresult_value hrc
                  else if yrc \<noteq> CUDA_SUCCESS then CUresult_value yrc
                  else NVPIPE_SUCCESS)"
    and l: "logs w' = logs w1
             @ (if urc \<noteq> CUDA_SUCCESS then [(WARN, ''Could not unmap frame.'')] else [])"
    by blast
  from cv0 have cv: "cv = 48" by (simp add: n)
  from c0 have c: "calls w' = calls w1
             @ Ev (CuvidMapVideoFrame 16 4096 256) CUDA_SUCCESS
             # Ev (Reorg_submit 48 4096 64 64 8192 256) src
             # (if src \<noteq> CUDA_SUCCESS then []
                else Ev (CuMemcpyDtoHAsync 0 8192 (64 * 64 * 3) 48) hrc
                     # (if hrc \<noteq> CUDA_SUCCESS then [] else [Ev (Reorg_sync 48) yrc]))
             @ [Ev (CuvidUnmapVideoFrame 16 4096) urc]"
    by (simp add: n cv)
  have z: "(700::int) \<noteq> CUDA_SUCCESS" by (simp add: CUDA_SUCCESS_def)
  from k d s c have v: "src = CUDA_SUCCESS \<and> hrc = 700 \<and> urc = CUDA_SUCCESS"
    by (auto split: if_splits)
  with rc z have rc': "rc = CUresult_value 700" by simp
  from c cv v z have c': "calls w' = calls w1 @
        [Ev (CuvidMapVideoFrame 16 4096 256) CUDA_SUCCESS,
         Ev (Reorg_submit 48 4096 64 64 8192 256) CUDA_SUCCESS,
         Ev (CuMemcpyDtoHAsync 0 8192 (64 * 64 * 3) 48) 700,
         Ev (CuvidUnmapVideoFrame 16 4096) CUDA_SUCCESS]"
    by simp
  from l v have l': "logs w' = logs w1" by simp
  show ?thesis
    apply (rule exI [of _ w1], rule exI [of _ w'])
    using s n m d rc' c' l' apply simp
    done
qed

text \<open>
  C7 as stated fails: when unmapping is the only step that fails (with the engine code
  5), the first error that the call encounters is that of the unmapping, but the call
  returns success; the failure is only logged.
\<close>

theorem unmap_failure_not_returned:
  "map_option fst (nvp_cuvid_decode unmap_fails_engine session_64 [4, 5, 6] 3 0 64 64)
     = Some (Returned NVPIPE_SUCCESS)
   \<and> map_option (\<lambda>y. filter (\<lambda>e. rc_of e \<noteq> CUDA_SUCCESS)
                        (drop (length (calls session_64)) (calls (snd y))))
       (nvp_cuvid_decode unmap_fails_engine session_64 [4, 5, 6] 3 0 64 64)
     = Some [Ev (CuvidUnmapVideoFrame 16 4096) 5]
   \<and> map_option (\<lambda>y. drop (length (logs session_64)) (logs (snd y)))
       (nvp_cuvid_decode unmap_fails_engine session_64 [4, 5, 6] 3 0 64 64)
     = Some [(WARN, ''Could not unmap frame.'')]"
  by code_simp




subsection \<open>Latency: a submission that resolves no picture size\<close>

text \<open>
  C2. Consider a call of \<open>nvp_cuvid_decode\<close> whose submission went through (line 308
  is reached, in state \<open>w1\<close>). If the observed stream size is still unknown: with the
  flag \<open>empty\<close> already set the call fails with \<open>NVPIPE_EINVAL\<close> (the spec's
  \<open>EmptyStream\<close>, ``Input is just stream metadata!'') and does not resubmit; with the
  flag not set it sets the flag and resubmits the identical packet, and if that
  resubmission again resolves no size the call fails with the same error after exactly
  two submissions. If the size is known, the flag is cleared: it is clear in the state
  in which the packet is resubmitted after a resize, and in the state in which the
  output stage ends.
\<close>

theorem decode_unknown_size:
  assumes sub: "nvp_cuvid_decode_submit E w ibuf ibuf_sz width height = (None, w1)"
  shows "(d_wsrc (nvp w1) = 0 \<or> d_hsrc (nvp w1) = 0 \<longrightarrow>
            (empty (nvp w) \<longrightarrow>
               nvp_cuvid_decode E w ibuf ibuf_sz obuf width height
                 = Some (Returned NVPIPE_EINVAL, log_msg ERR ''Input is just stream metadata!'' w1))
          \<and> (\<not> empty (nvp w) \<longrightarrow>
               nvp_cuvid_decode E w ibuf ibuf_sz obuf width height
                 = nvp_cuvid_decode E (w1\<lparr>nvp := (nvp w1)\<lparr>empty := True\<rparr>\<rparr>) ibuf ibuf_sz obuf width height
             \<and> (\<forall>w2. nvp_cuvid_decode_submit E (w1\<lparr>nvp := (nvp w1)\<lparr>empty := True\<rparr>\<rparr>)
                         ibuf ibuf_sz width height = (None, w2)
                     \<and> (d_wsrc (nvp w2) = 0 \<or> d_hsrc (nvp w2) = 0) \<longrightarrow>
                   nvp_cuvid_decode E w ibuf ibuf_sz obuf width height
                     = Some (Returned NVPIPE_EINVAL, log_msg ERR ''Input is just stream metadata!'' w2)
                 \<and> (\<exists>tr. calls w2 = calls w @ tr \<and> parse_count tr = 2))))
       \<and> (d_wsrc (nvp w1) \<noteq> 0 \<and> d_hsrc (nvp w1) \<noteq> 0 \<longrightarrow>
            (d_wsrc (nvp w1) \<noteq> d_wi (nvp w1) \<or> d_hsrc (nvp w1) \<noteq> d_hi (nvp w1) \<or>
             d_wdst (nvp w1) \<noteq> width \<or> d_hdst (nvp w1) \<noteq> height \<longrightarrow>
               (\<exists>w3. resize E (w1\<lparr>nvp := (nvp w1)\<lparr>empty := False\<rparr>\<rparr>)
                        (d_wsrc (nvp w1)) (d_hsrc (nvp w1)) width height = (Some (), w3)
                   \<and> \<not> empty (nvp w3)
                   \<and> nvp_cuvid_decode E w ibuf ibuf_sz obuf width height
                       = nvp_cuvid_decode E w3 ibuf ibuf_sz obuf width height))
          \<and> (d_wsrc (nvp w1) = d_wi (nvp w1) \<and> d_hsrc (nvp w1) = d_hi (nvp w1) \<and>
             d_wdst (nvp w1) = width \<and> d_hdst (nvp w1) = height \<longrightarrow>
               (\<exists>out w'. nvp_cuvid_decode E w ibuf ibuf_sz obuf width height = Some (out, w')
                   \<and> \<not> empty (nvp w'))))"
proof -
  note unf = decode_unfold_None [OF sub, of obuf]
  from submit_None(2) [OF sub] have flag: "empty (nvp w1) = empty (nvp w)" by simp
  from submit_None(1) [OF sub] obtain tr1 where
    tr1: "calls w1 = calls w @ tr1" "parse_count tr1 = 1"
    by (auto simp: setup_events_parse_count)
  from submit_None(3) [OF sub] have args: "width \<noteq> 0" "height \<noteq> 0" by simp_all
  have twice: "nvp_cuvid_decode E w ibuf ibuf_sz obuf width height
                     = Some (Returned NVPIPE_EINVAL, log_msg ERR ''Input is just stream metadata!'' w2)
                 \<and> (\<exists>tr. calls w2 = calls w @ tr \<and> parse_count tr = 2)"
    if u: "d_wsrc (nvp w1) = 0 \<or> d_hsrc (nvp w1) = 0" and ne: "\<not> empty (nvp w)"
      and sub2: "nvp_cuvid_decode_submit E (w1\<lparr>nvp := (nvp w1)\<lparr>empty := True\<rparr>\<rparr>)
                         ibuf ibuf_sz width height = (None, w2)"
      and u2: "d_wsrc (nvp w2) = 0 \<or> d_hsrc (nvp w2) = 0" for w2
  proof -
    from submit_None(2) [OF sub2] have "empty (nvp w2)" by simp
    with decode_unfold_None [OF sub2, of obuf] u2 unf u ne flag
    have "nvp_cuvid_decode E w ibuf ibuf_sz obuf width height
            = Some (Returned NVPIPE_EINVAL, log_msg ERR ''Input is just stream metadata!'' w2)"
      by simp
    moreover from submit_None(1) [OF sub2] obtain tr2 where
      "calls w2 = calls w1 @ tr2" "parse_count tr2 = 1"
      by (auto simp: setup_events_parse_count)
    with tr1 have "calls w2 = calls w @ (tr1 @ tr2)" "parse_count (tr1 @ tr2) = 2" by simp_all
    ultimately show ?thesis by blast
  qed
  have resized: "\<exists>w3. resize E (w1\<lparr>nvp := (nvp w1)\<lparr>empty := False\<rparr>\<rparr>)
                        (d_wsrc (nvp w1)) (d_hsrc (nvp w1)) width height = (Some (), w3)
                   \<and> \<not> empty (nvp w3)
                   \<and> nvp_cuvid_decode E w ibuf ibuf_sz obuf width height
                       = nvp_cuvid_decode E w3 ibuf ibuf_sz obuf width height"
    if k: "d_wsrc (nvp w1) \<noteq> 0" "d_hsrc (nvp w1) \<noteq> 0"
      and m: "d_wsrc (nvp w1) \<noteq> d_wi (nvp w1) \<or> d_hsrc (nvp w1) \<noteq> d_hi (nvp w1) \<or>
             d_wdst (nvp w1) \<noteq> width \<or> d_hdst (nvp w1) \<noteq> height"
  proof -
    obtain r w3 where rs: "resize E (w1\<lparr>nvp := (nvp w1)\<lparr>empty := False\<rparr>\<rparr>)
                        (d_wsrc (nvp w1)) (d_hsrc (nvp w1)) width height = (r, w3)"
      by (cases "resize E (w1\<lparr>nvp := (nvp w1)\<lparr>empty := False\<rparr>\<rparr>)
                        (d_wsrc (nvp w1)) (d_hsrc (nvp w1)) width height")
    from resize_returns [OF rs k args] have r: "r = Some ()" by simp
    from resize_calls(2) [OF rs] have "\<not> empty (nvp w3)" by simp
    with rs r unf k m show ?thesis by (simp add: Let_def)
  qed
  have steady: "\<exists>out w'. nvp_cuvid_decode E w ibuf ibuf_sz obuf width height = Some (out, w')
                   \<and> \<not> empty (nvp w')"
    if k: "d_wsrc (nvp w1) \<noteq> 0" "d_hsrc (nvp w1) \<noteq> 0"
      and m: "d_wsrc (nvp w1) = d_wi (nvp w1)" "d_hsrc (nvp w1) = d_hi (nvp w1)"
             "d_wdst (nvp w1) = width" "d_hdst (nvp w1) = height"
  proof -
    obtain out w' where
      o: "nvp_cuvid_decode_output E (w1\<lparr>nvp := (nvp w1)\<lparr>empty := False\<rparr>\<rparr>) obuf width height = (out, w')"
      by (cases "nvp_cuvid_decode_output E (w1\<lparr>nvp := (nvp w1)\<lparr>empty := False\<rparr>\<rparr>) obuf width height")
    from output_frame [OF o] have "\<not> empty (nvp w')" by auto
    with o unf k m show ?thesis by (simp add: Let_def)
  qed
  have once: "nvp_cuvid_decode E w ibuf ibuf_sz obuf width height
                 = Some (Returned NVPIPE_EINVAL, log_msg ERR ''Input is just stream metadata!'' w1)"
    if "d_wsrc (nvp w1) = 0 \<or> d_hsrc (nvp w1) = 0" "empty (nvp w)"
    using unf flag that by simp
  have again: "nvp_cuvid_decode E w ibuf ibuf_sz obuf width height
                 = nvp_cuvid_decode E (w1\<lparr>nvp := (nvp w1)\<lparr>empty := True\<rparr>\<rparr>) ibuf ibuf_sz obuf width height"
    if "d_wsrc (nvp w1) = 0 \<or> d_hsrc (nvp w1) = 0" "\<not> empty (nvp w)"
    using unf flag that by simp
  from once again twice resized steady show ?thesis
    by blast
qed

theorem decode_unknown_size_witness:
  "(\<exists>w1 w2. nvp_cuvid_decode_submit metadata_engine new_session [1, 2, 3] 3 64 64 = (None, w1)
      \<and> d_wsrc (nvp w1) = 0 \<and> \<not> empty (nvp new_session)
      \<and> nvp_cuvid_decode_submit metadata_engine (w1\<lparr>nvp := (nvp w1)\<lparr>empty := True\<rparr>\<rparr>) [1, 2, 3] 3 64 64
            = (None, w2)
      \<and> d_wsrc (nvp w2) = 0
      \<and> nvp_cuvid_decode metadata_engine new_session [1, 2, 3] 3 0 64 64
            = Some (Returned NVPIPE_EINVAL, log_msg ERR ''Input is just stream metadata!'' w2)
      \<and> (\<exists>tr. calls w2 = calls new_session @ tr \<and> parse_count tr = 2))
   \<and> (\<exists>w1 out w'.
        nvp_cuvid_decode_submit steady_engine (new_session\<lparr>nvp := nvp_create_decoder\<lparr>empty := True\<rparr>\<rparr>)
            [1, 2, 3] 3 64 64 = (None, w1)
      \<and> empty (nvp w1) \<and> d_wsrc (nvp w1) = 64 \<and> d_hsrc (nvp w1) = 64
      \<and> nvp_cuvid_decode steady_engine (new_session\<lparr>nvp := nvp_create_decoder\<lparr>empty := True\<rparr>\<rparr>)
            [1, 2, 3] 3 0 64 64 = Some (out, w')
      \<and> \<not> empty (nvp w'))"
proof -
  let ?s1 = "nvp_cuvid_decode_submit metadata_engine new_session [1, 2, 3] 3 64 64"
  have "fst ?s1 = None \<and> d_wsrc (nvp (snd ?s1)) = 0 \<and> \<not> empty (nvp new_session)"
    by code_simp
  then obtain w1 where s1: "?s1 = (None, w1)" "d_wsrc (nvp w1) = 0" "\<not> empty (nvp new_session)"
    by (cases ?s1) auto
  let ?s2 = "nvp_cuvid_decode_submit metadata_engine (snd ?s1\<lparr>nvp := (nvp (snd ?s1))\<lparr>empty := True\<rparr>\<rparr>)
               [1, 2, 3] 3 64 64"
  have "fst ?s2 = None \<and> d_wsrc (nvp (snd ?s2)) = 0"
    by code_simp
  with s1(1) obtain w2 where
    s2: "nvp_cuvid_decode_submit metadata_engine (w1\<lparr>nvp := (nvp w1)\<lparr>empty := True\<rparr>\<rparr>) [1, 2, 3] 3 64 64
            = (None, w2)" "d_wsrc (nvp w2) = 0"
    by (cases ?s2) auto
  let ?f = "new_session\<lparr>nvp := nvp_create_decoder\<lparr>empty := True\<rparr>\<rparr>"
  let ?s3 = "nvp_cuvid_decode_submit steady_engine ?f [1, 2, 3] 3 64 64"
  have "fst ?s3 = None \<and> empty (nvp (snd ?s3)) \<and> d_wsrc (nvp (snd ?s3)) = 64
          \<and> d_hsrc (nvp (snd ?s3)) = 64 \<and> d_wi (nvp (snd ?s3)) = 64 \<and> d_hi (nvp (snd ?s3)) = 64
          \<and> d_wdst (nvp (snd ?s3)) = 64 \<and> d_hdst (nvp (snd ?s3)) = 64"
    by code_simp
  then obtain w3 where s3: "?s3 = (None, w3)" "empty (nvp w3)" "d_wsrc (nvp w3) = 64"
    "d_hsrc (nvp w3) = 64" "d_wi (nvp w3) = 64" "d_hi (nvp w3) = 64"
    "d_wdst (nvp w3) = 64" "d_hdst (nvp w3) = 64"
    by (cases ?s3) auto
  from decode_unknown_size [OF s1(1), of 0] s1(2,3) s2 have
    "nvp_cuvid_decode metadata_engine new_session [1, 2, 3] 3 0 64 64
            = Some (Returned NVPIPE_EINVAL, log_msg ERR ''Input is just stream metadata!'' w2)
      \<and> (\<exists>tr. calls w2 = calls new_session @ tr \<and> parse_count tr = 2)"
    by blast
  moreover from decode_unknown_size [OF s3(1), of 0] s3(2-) have
    "\<exists>out w'. nvp_cuvid_decode steady_engine ?f [1, 2, 3] 3 0 64 64 = Some (out, w')
      \<and> \<not> empty (nvp w')"
    by simp
  ultimately show ?thesis using s1 s2 s3 by blast
qed

subsection \<open>The RGB buffer and the output size\<close>

text \<open>
  C4, as amended. In a run of \<open>dec_initialize\<close> in which the engine creates no decoder,
  the RGB buffer is neither freed nor allocated and the recorded output size stays as
  it was. In a run in which the decoder is created: if the requested output size equals
  the recorded one, the buffer is neither freed nor allocated; if it differs, the
  present buffer (if there is one) is freed; when that fails, nothing is allocated and
  buffer and recorded output size stay as they were; otherwise a buffer of
  \<open>dstwidth * dstheight * 3\<close> bytes is requested, and when the engine allocates it, it
  becomes the buffer of the session and the requested output size is recorded (when the
  engine does not, the session is left without a buffer). When only the requested output
  size has changed between two calls of \<open>nvp_cuvid_decode\<close> (the observed stream size
  equals the recorded input size), the decoder is recreated with the same recorded input
  size and the packet is resubmitted; if the reinitialization succeeds, the buffer has
  been reallocated with \<open>width * height * 3\<close> bytes and the new output size is recorded.
\<close>

theorem buffer_follows_output_size:
  "(dec_initialize E w iwidth iheight dstwidth dstheight = (r, w')
      \<and> iwidth \<noteq> 0 \<and> iheight \<noteq> 0 \<and> dstwidth \<noteq> 0 \<and> dstheight \<noteq> 0 \<and> decoder (nvp w) = 0
      \<and> on_cuvidCreateDecoder E (calls w) (create_info iwidth iheight dstwidth dstheight)
           = (crc, h)
      \<and> crc \<noteq> CUDA_SUCCESS \<longrightarrow>
         r = Some False
       \<and> calls w' = calls w @ [Ev (CuvidCreateDecoder (create_info iwidth iheight dstwidth dstheight) h)
                                     crc]
       \<and> rgb (nvp w') = rgb (nvp w)
       \<and> d_wdst (nvp w') = d_wdst (nvp w) \<and> d_hdst (nvp w') = d_hdst (nvp w))
   \<and> (dec_initialize E w iwidth iheight dstwidth dstheight = (r, w')
      \<and> iwidth \<noteq> 0 \<and> iheight \<noteq> 0 \<and> dstwidth \<noteq> 0 \<and> dstheight \<noteq> 0 \<and> decoder (nvp w) = 0
      \<and> on_cuvidCreateDecoder E (calls w) (create_info iwidth iheight dstwidth dstheight)
           = (CUDA_SUCCESS, h) \<longrightarrow>
      (dstwidth = d_wdst (nvp w) \<and> dstheight = d_hdst (nvp w) \<longrightarrow>
         r = Some True
       \<and> calls w' = calls w @ [Ev (CuvidCreateDecoder (create_info iwidth iheight dstwidth dstheight) h)
                                     CUDA_SUCCESS]
       \<and> rgb (nvp w') = rgb (nvp w)
       \<and> d_wdst (nvp w') = d_wdst (nvp w) \<and> d_hdst (nvp w') = d_hdst (nvp w))
    \<and> (dstwidth \<noteq> d_wdst (nvp w) \<or> dstheight \<noteq> d_hdst (nvp w) \<longrightarrow>
         (\<exists>frc arc p.
               calls w' = calls w
                 @ Ev (CuvidCreateDecoder (create_info iwidth iheight dstwidth dstheight) h) CUDA_SUCCESS
                 # (if rgb (nvp w) \<noteq> 0 then [Ev (CuMemFree (rgb (nvp w))) frc] else [])
                 @ (if rgb (nvp w) \<noteq> 0 \<and> frc \<noteq> CUDA_SUCCESS then []
                    else [Ev (CuMemAlloc (dstwidth * dstheight * 3) p) arc])
             \<and> (if rgb (nvp w) \<noteq> 0 \<and> frc \<noteq> CUDA_SUCCESS then
                   r = Some False \<and> rgb (nvp w') = rgb (nvp w)
                   \<and> d_wdst (nvp w') = d_wdst (nvp w) \<and> d_hdst (nvp w') = d_hdst (nvp w)
                 else if arc \<noteq> CUDA_SUCCESS then
                   r = Some False \<and> rgb (nvp w') = 0
                 else
                   r = Some True \<and> rgb (nvp w') = p
                   \<and> d_wdst (nvp w') = dstwidth \<and> d_hdst (nvp w') = dstheight))))
   \<and> (nvp_cuvid_decode_submit E w0 ibuf ibuf_sz width height = (None, w1)
      \<and> d_wsrc (nvp w1) \<noteq> 0 \<and> d_hsrc (nvp w1) \<noteq> 0
      \<and> d_wsrc (nvp w1) = d_wi (nvp w1) \<and> d_hsrc (nvp w1) = d_hi (nvp w1)
      \<and> (d_wdst (nvp w1) \<noteq> width \<or> d_hdst (nvp w1) \<noteq> height) \<longrightarrow>
      (\<exists>ok w3.
           dec_initialize E (resize_destroy E (w1\<lparr>nvp := (nvp w1)\<lparr>empty := False\<rparr>\<rparr>))
               (d_wi (nvp w1)) (d_hi (nvp w1)) width height = (Some ok, w3)
         \<and> nvp_cuvid_decode E w0 ibuf ibuf_sz obuf width height
             = nvp_cuvid_decode E w3 ibuf ibuf_sz obuf width height
         \<and> d_wi (nvp w3) = d_wi (nvp w1) \<and> d_hi (nvp w3) = d_hi (nvp w1)
         \<and> (ok \<longrightarrow> d_wdst (nvp w3) = width \<and> d_hdst (nvp w3) = height
               \<and> (\<exists>tr p. calls w3 = calls w1 @ tr @ [Ev (CuMemAlloc (width * height * 3) p) CUDA_SUCCESS]
                      \<and> rgb (nvp w3) = p))))"
proof (intro conjI impI; (elim conjE)?)
  assume "dec_initialize E w iwidth iheight dstwidth dstheight = (r, w')"
    "iwidth \<noteq> 0" "iheight \<noteq> 0" "dstwidth \<noteq> 0" "dstheight \<noteq> 0" "decoder (nvp w) = 0"
    "on_cuvidCreateDecoder E (calls w) (create_info iwidth iheight dstwidth dstheight)
           = (crc, h)"
    "crc \<noteq> CUDA_SUCCESS"
  from dec_initialize_create_fails [OF this]
  show "r = Some False"
    "calls w' = calls w @ [Ev (CuvidCreateDecoder (create_info iwidth iheight dstwidth dstheight) h)
                                     crc]"
    "rgb (nvp w') = rgb (nvp w)" "d_wdst (nvp w') = d_wdst (nvp w)" "d_hdst (nvp w') = d_hdst (nvp w)"
    by simp_all
next
  assume "dec_initialize E w iwidth iheight dstwidth dstheight = (r, w')"
    "iwidth \<noteq> 0" "iheight \<noteq> 0" "dstwidth \<noteq> 0" "dstheight \<noteq> 0" "decoder (nvp w) = 0"
    "on_cuvidCreateDecoder E (calls w) (create_info iwidth iheight dstwidth dstheight)
           = (CUDA_SUCCESS, h)"
    "dstwidth = d_wdst (nvp w)" "dstheight = d_hdst (nvp w)"
  from dec_initialize_same_size [OF this]
  show "r = Some True"
    "calls w' = calls w @ [Ev (CuvidCreateDecoder (create_info iwidth iheight dstwidth dstheight) h)
                                     CUDA_SUCCESS]"
    "rgb (nvp w') = rgb (nvp w)" "d_wdst (nvp w') = d_wdst (nvp w)" "d_hdst (nvp w') = d_hdst (nvp w)"
    by simp_all
next
  assume "dec_initialize E w iwidth iheight dstwidth dstheight = (r, w')"
    "iwidth \<noteq> 0" "iheight \<noteq> 0" "dstwidth \<noteq> 0" "dstheight \<noteq> 0" "decoder (nvp w) = 0"
    "on_cuvidCreateDecoder E (calls w) (create_info iwidth iheight dstwidth dstheight)
           = (CUDA_SUCCESS, h)"
    "dstwidth \<noteq> d_wdst (nvp w) \<or> dstheight \<noteq> d_hdst (nvp w)"
  from dec_initialize_new_size [OF this] obtain frc arc p where
    t: "calls w' = calls w
                 @ Ev (CuvidCreateDecoder (create_info iwidth iheight dstwidth dstheight) h) CUDA_SUCCESS
                 # (if rgb (nvp w) \<noteq> 0 then [Ev (CuMemFree (rgb (nvp w))) frc] else [])
                 @ (if rgb (nvp w) \<noteq> 0 \<and> frc \<noteq> CUDA_SUCCESS then []
                    else [Ev (CuMemAlloc (dstwidth * dstheight * 3) p) arc])"
    and s: "if rgb (nvp w) \<noteq> 0 \<and> frc \<noteq> CUDA_SUCCESS then
                   r = Some False \<and> rgb (nvp w') = rgb (nvp w)
                   \<and> d_wdst (nvp w') = d_wdst (nvp w) \<and> d_hdst (nvp w') = d_hdst (nvp w)
                 else if arc \<noteq> CUDA_SUCCESS then
                   r = Some False \<and> rgb (nvp w') = 0
                   \<and> d_wdst (nvp w') = d_wdst (nvp w) \<and> d_hdst (nvp w') = d_hdst (nvp w)
                 else
                   r = Some True \<and> rgb (nvp w') = p
                   \<and> d_wdst (nvp w') = dstwidth \<and> d_hdst (nvp w') = dstheight"
    by blast
  from s have s': "if rgb (nvp w) \<noteq> 0 \<and> frc \<noteq> CUDA_SUCCESS then
                   r = Some False \<and> rgb (nvp w') = rgb (nvp w)
                   \<and> d_wdst (nvp w') = d_wdst (nvp w) \<and> d_hdst (nvp w') = d_hdst (nvp w)
                 else if arc \<noteq> CUDA_SUCCESS then
                   r = Some False \<and> rgb (nvp w') = 0
                 else
                   r = Some True \<and> rgb (nvp w') = p
                   \<and> d_wdst (nvp w') = dstwidth \<and> d_hdst (nvp w') = dstheight"
    by (simp split: if_splits)
  show "\<exists>frc arc p.
               calls w' = calls w
                 @ Ev (CuvidCreateDecoder (create_info iwidth iheight dstwidth dstheight) h) CUDA_SUCCESS
                 # (if rgb (nvp w) \<noteq> 0 then [Ev (CuMemFree (rgb (nvp w))) frc] else [])
                 @ (if rgb (nvp w) \<noteq> 0 \<and> frc \<noteq> CUDA_SUCCESS then []
                    else [Ev (CuMemAlloc (dstwidth * dstheight * 3) p) arc])
             \<and> (if rgb (nvp w) \<noteq> 0 \<and> frc \<noteq> CUDA_SUCCESS then
                   r = Some False \<and> rgb (nvp w') = rgb (nvp w)
                   \<and> d_wdst (nvp w') = d_wdst (nvp w) \<and> d_hdst (nvp w') = d_hdst (nvp w)
                 else if arc \<noteq> CUDA_SUCCESS then
                   r = Some False \<and> rgb (nvp w') = 0
                 else
                   r = Some True \<and> rgb (nvp w') = p
                   \<and> d_wdst (nvp w') = dstwidth \<and> d_hdst (nvp w') = dstheight)"
    by (rule exI [of _ frc], rule exI [of _ arc], rule exI [of _ p]) (rule conjI [OF t s'])
next
  assume "nvp_cuvid_decode_submit E w0 ibuf ibuf_sz width height = (None, w1)"
    "d_wsrc (nvp w1) \<noteq> 0" "d_hsrc (nvp w1) \<noteq> 0"
    "d_wsrc (nvp w1) = d_wi (nvp w1)" "d_hsrc (nvp w1) = d_hi (nvp w1)"
    "d_wdst (nvp w1) \<noteq> width \<or> d_hdst (nvp w1) \<noteq> height"
  from resize_output_size_only [OF this, of obuf]
  show "\<exists>ok w3.
           dec_initialize E (resize_destroy E (w1\<lparr>nvp := (nvp w1)\<lparr>empty := False\<rparr>\<rparr>))
               (d_wi (nvp w1)) (d_hi (nvp w1)) width height = (Some ok, w3)
         \<and> nvp_cuvid_decode E w0 ibuf ibuf_sz obuf width height
             = nvp_cuvid_decode E w3 ibuf ibuf_sz obuf width height
         \<and> d_wi (nvp w3) = d_wi (nvp w1) \<and> d_hi (nvp w3) = d_hi (nvp w1)
         \<and> (ok \<longrightarrow> d_wdst (nvp w3) = width \<and> d_hdst (nvp w3) = height
               \<and> (\<exists>tr p. calls w3 = calls w1 @ tr @ [Ev (CuMemAlloc (width * height * 3) p) CUDA_SUCCESS]
                      \<and> rgb (nvp w3) = p))"
    by blast
qed

theorem buffer_follows_output_size_witness:
  "\<exists>w1 w3.
      nvp_cuvid_decode_submit steady_engine session_64 [1, 2, 3] 3 32 32 = (None, w1)
    \<and> d_wsrc (nvp w1) = 64 \<and> d_hsrc (nvp w1) = 64 \<and> d_wi (nvp w1) = 64 \<and> d_hi (nvp w1) = 64
    \<and> d_wdst (nvp w1) = 64 \<and> d_hdst (nvp w1) = 64
    \<and> dec_initialize steady_engine (resize_destroy steady_engine (w1\<lparr>nvp := (nvp w1)\<lparr>empty := False\<rparr>\<rparr>))
          64 64 32 32 = (Some True, w3)
    \<and> nvp_cuvid_decode steady_engine session_64 [1, 2, 3] 3 0 32 32
          = nvp_cuvid_decode steady_engine w3 [1, 2, 3] 3 0 32 32
    \<and> d_wi (nvp w3) = 64 \<and> d_hi (nvp w3) = 64 \<and> d_wdst (nvp w3) = 32 \<and> d_hdst (nvp w3) = 32
    \<and> (\<exists>tr p. calls w3 = calls w1 @ tr @ [Ev (CuMemAlloc (32 * 32 * 3) p) CUDA_SUCCESS]
           \<and> rgb (nvp w3) = p)"
proof -
  let ?s = "nvp_cuvid_decode_submit steady_engine session_64 [1, 2, 3] 3 32 32"
  have "fst ?s = None \<and> d_wsrc (nvp (snd ?s)) = 64 \<and> d_hsrc (nvp (snd ?s)) = 64
      \<and> d_wi (nvp (snd ?s)) = 64 \<and> d_hi (nvp (snd ?s)) = 64
      \<and> d_wdst (nvp (snd ?s)) = 64 \<and> d_hdst (nvp (snd ?s)) = 64"
    by code_simp
  then obtain w1 where s: "?s = (None, w1)" "d_wsrc (nvp w1) = 64" "d_hsrc (nvp w1) = 64"
    "d_wi (nvp w1) = 64" "d_hi (nvp w1) = 64" "d_wdst (nvp w1) = 64" "d_hdst (nvp w1) = 64"
    by (cases ?s) auto
  let ?d = "dec_initialize steady_engine
              (resize_destroy steady_engine (snd ?s\<lparr>nvp := (nvp (snd ?s))\<lparr>empty := False\<rparr>\<rparr>)) 64 64 32 32"
  have "fst ?d = Some True" by code_simp
  with s(1) obtain w3' where d: "dec_initialize steady_engine
      (resize_destroy steady_engine (w1\<lparr>nvp := (nvp w1)\<lparr>empty := False\<rparr>\<rparr>)) 64 64 32 32 = (Some True, w3')"
    by (cases ?d) auto
  from buffer_follows_output_size [THEN conjunct2, THEN conjunct2, rule_format,
      of steady_engine session_64 "[1, 2, 3]" 3 32 32 w1 0] s
  obtain ok w3 where r:
    "dec_initialize steady_engine (resize_destroy steady_engine (w1\<lparr>nvp := (nvp w1)\<lparr>empty := False\<rparr>\<rparr>))
          64 64 32 32 = (Some ok, w3)"
    "nvp_cuvid_decode steady_engine session_64 [1, 2, 3] 3 0 32 32
          = nvp_cuvid_decode steady_engine w3 [1, 2, 3] 3 0 32 32"
    "d_wi (nvp w3) = 64 \<and> d_hi (nvp w3) = 64"
    "ok \<longrightarrow> d_wdst (nvp w3) = 32 \<and> d_hdst (nvp w3) = 32
               \<and> (\<exists>tr p. calls w3 = calls w1 @ tr @ [Ev (CuMemAlloc (32 * 32 * 3) p) CUDA_SUCCESS]
                      \<and> rgb (nvp w3) = p)"
    by auto
  from r(1) d have "ok" "w3' = w3" by simp_all
  with r s d show ?thesis by blast
qed

text \<open>
  C4 as stated fails: when the engine cannot create the decoder, the requested output
  size (8192 by 8192) differs from the recorded one (64 by 64), but \<open>dec_initialize\<close>
  returns before the buffer is touched: nothing is freed or allocated.
\<close>

theorem buffer_kept_when_creation_fails:
  "(8192, 8192) \<noteq> (d_wdst (nvp session_64), d_hdst (nvp session_64))
   \<and> fst (resize limited_engine session_64 64 64 8192 8192) = Some ()
   \<and> drop (length (calls session_64)) (calls (snd (resize limited_engine session_64 64 64 8192 8192)))
        = [Ev (CuvidDestroyDecoder 16) CUDA_SUCCESS,
           Ev (CuvidCreateDecoder (create_info 64 64 8192 8192) 0) 1]
   \<and> rgb (nvp (snd (resize limited_engine session_64 64 64 8192 8192))) = rgb (nvp session_64)"
  by code_simp

subsection \<open>Destroying the session\<close>

text \<open>
  C9, as amended. \<open>nvp_cuvid_destroy\<close> on a decoder session always returns: it releases
  the decoder (if there is one), the parser (if there is one), the RGB buffer
  (unconditionally) and the converter (if there is one), in that order, and then frees
  the struct. Each of the first three releases that the engine reports as failed adds
  exactly one warning to the log, its own, and changes nothing else; the release of the
  converter reports no result. Of the four handles only the converter's is set to NULL;
  the decoder, parser and buffer fields keep their values until the struct is freed.
\<close>

theorem destroy_releases_in_order:
  assumes "impl_type (nvp w) = DECODER"
  shows "\<exists>w' drc prc frc. nvp_cuvid_destroy E w = (Some (), w')
     \<and> nvp w' = (nvp w)\<lparr>reorg := 0\<rparr>
     \<and> calls w' = calls w
          @ (if decoder (nvp w) \<noteq> 0 then [Ev (CuvidDestroyDecoder (decoder (nvp w))) drc] else [])
          @ (if parser (nvp w) \<noteq> 0 then [Ev (CuvidDestroyVideoParser (parser (nvp w))) prc] else [])
          @ [Ev (CuMemFree (rgb (nvp w))) frc]
          @ (if reorg (nvp w) \<noteq> 0 then [Ev (Reorg_destroy (reorg (nvp w))) CUDA_SUCCESS] else [])
          @ [Ev Free_nvp CUDA_SUCCESS]
     \<and> logs w' = logs w
          @ (if decoder (nvp w) \<noteq> 0 \<and> drc \<noteq> CUDA_SUCCESS
             then [(WARN, ''Error destroying decoder'')] else [])
          @ (if parser (nvp w) \<noteq> 0 \<and> prc \<noteq> CUDA_SUCCESS
             then [(WARN, ''Error destroying parser.'')] else [])
          @ (if frc \<noteq> CUDA_SUCCESS
             then [(WARN, ''Error freeing decode temporary buffer.'')] else [])"
proof -
  define drc where "drc = on_cuvidDestroyDecoder E (calls w) (decoder (nvp w))"
  define w1 where "w1 = (if decoder (nvp w) \<noteq> 0 then
                    let (rc, w') = cuvidDestroyDecoder E w (decoder (nvp w))
                    in if rc \<noteq> CUDA_SUCCESS then log_msg WARN ''Error destroying decoder'' w' else w'
                  else w)"
  define prc where "prc = on_cuvidDestroyVideoParser E (calls w1) (parser (nvp w1))"
  define w2 where "w2 = (if parser (nvp w1) \<noteq> 0 then
                    let (rc, w') = cuvidDestroyVideoParser E w1 (parser (nvp w1))
                    in if rc \<noteq> CUDA_SUCCESS then log_msg WARN ''Error destroying parser.'' w' else w'
                  else w1)"
  define frc where "frc = on_cuMemFree E (calls w2) (rgb (nvp w2))"
  define w3 where "w3 = (let (rc, w') = cuMemFree E w2 (rgb (nvp w2))
                  in if rc \<noteq> CUDA_SUCCESS
                     then log_msg WARN ''Error freeing decode temporary buffer.'' w' else w')"
  define w4 where "w4 = (if reorg (nvp w3) \<noteq> 0 then
                    (record_call (Reorg_destroy (reorg (nvp w3))) CUDA_SUCCESS w3)
                      \<lparr>nvp := (nvp w3)\<lparr>reorg := 0\<rparr>\<rparr>
                  else w3)"
  let ?w' = "record_call Free_nvp CUDA_SUCCESS w4"
  have res: "nvp_cuvid_destroy E w = (Some (), ?w')"
    unfolding nvp_cuvid_destroy_def w4_def w3_def w2_def w1_def Let_def
    using assms by (simp split del: if_split)
  have 1: "nvp w1 = nvp w"
    "calls w1 = calls w
       @ (if decoder (nvp w) \<noteq> 0 then [Ev (CuvidDestroyDecoder (decoder (nvp w))) drc] else [])"
    "logs w1 = logs w
       @ (if decoder (nvp w) \<noteq> 0 \<and> drc \<noteq> CUDA_SUCCESS
          then [(WARN, ''Error destroying decoder'')] else [])"
    by (simp_all add: w1_def drc_def engine_call_defs Let_def)
  have 2: "nvp w2 = nvp w1"
    "calls w2 = calls w1
       @ (if parser (nvp w1) \<noteq> 0 then [Ev (CuvidDestroyVideoParser (parser (nvp w1))) prc] else [])"
    "logs w2 = logs w1
       @ (if parser (nvp w1) \<noteq> 0 \<and> prc \<noteq> CUDA_SUCCESS
          then [(WARN, ''Error destroying parser.'')] else [])"
    by (simp_all add: w2_def prc_def engine_call_defs Let_def)
  have 3: "nvp w3 = nvp w2"
    "calls w3 = calls w2 @ [Ev (CuMemFree (rgb (nvp w2))) frc]"
    "logs w3 = logs w2
       @ (if frc \<noteq> CUDA_SUCCESS
          then [(WARN, ''Error freeing decode temporary buffer.'')] else [])"
    by (simp_all add: w3_def frc_def engine_call_defs Let_def)
  have 4: "nvp w4 = (nvp w3)\<lparr>reorg := 0\<rparr>"
    "calls w4 = calls w3
       @ (if reorg (nvp w3) \<noteq> 0 then [Ev (Reorg_destroy (reorg (nvp w3))) CUDA_SUCCESS] else [])"
    "logs w4 = logs w3"
    by (auto simp: w4_def)
  have a: "nvp ?w' = (nvp w)\<lparr>reorg := 0\<rparr>"
    using 1(1) 2(1) 3(1) 4(1) by simp
  have b: "calls ?w' = calls w
          @ (if decoder (nvp w) \<noteq> 0 then [Ev (CuvidDestroyDecoder (decoder (nvp w))) drc] else [])
          @ (if parser (nvp w) \<noteq> 0 then [Ev (CuvidDestroyVideoParser (parser (nvp w))) prc] else [])
          @ [Ev (CuMemFree (rgb (nvp w))) frc]
          @ (if reorg (nvp w) \<noteq> 0 then [Ev (Reorg_destroy (reorg (nvp w))) CUDA_SUCCESS] else [])
          @ [Ev Free_nvp CUDA_SUCCESS]"
    by (simp add: 1 2 3 4 split del: if_split cong: if_cong)
  have c: "logs ?w' = logs w
          @ (if decoder (nvp w) \<noteq> 0 \<and> drc \<noteq> CUDA_SUCCESS
             then [(WARN, ''Error destroying decoder'')] else [])
          @ (if parser (nvp w) \<noteq> 0 \<and> prc \<noteq> CUDA_SUCCESS
             then [(WARN, ''Error destroying parser.'')] else [])
          @ (if frc \<noteq> CUDA_SUCCESS
             then [(WARN, ''Error freeing decode temporary buffer.'')] else [])"
    by (simp add: 1 2 3 4 split del: if_split cong: if_cong)
  show ?thesis
    by (rule exI [of _ ?w'], rule exI [of _ drc], rule exI [of _ prc], rule exI [of _ frc])
       (intro conjI res a b c)
qed

theorem destroy_releases_in_order_witness:
  "impl_type (nvp session_64) = DECODER
   \<and> (\<exists>w'. nvp_cuvid_destroy teardown_fails_engine session_64 = (Some (), w')
     \<and> nvp w' = (nvp session_64)\<lparr>reorg := 0\<rparr>
     \<and> calls w' = calls session_64 @
            [Ev (CuvidDestroyDecoder 16) 1, Ev (CuvidDestroyVideoParser 32) CUDA_SUCCESS,
             Ev (CuMemFree 8192) 1, Ev (Reorg_destroy 48) CUDA_SUCCESS, Ev Free_nvp CUDA_SUCCESS]
     \<and> logs w' = logs session_64 @
            [(WARN, ''Error destroying decoder''),
             (WARN, ''Error freeing decode temporary buffer.'')])"
proof -
  have n: "nvp session_64 =
     \<lparr>impl_type = DECODER, initialized = True, decoder = 16, parser = 32,
      d_wi = 64, d_hi = 64, d_wdst = 64, d_hdst = 64, d_wsrc = 64, d_hsrc = 64,
      rgb = 8192, empty = False, reorg = 48\<rparr>"
    by code_simp
  then have t: "impl_type (nvp session_64) = DECODER" by simp
  let ?d = "nvp_cuvid_destroy teardown_fails_engine session_64"
  have k: "drop (length (calls session_64)) (calls (snd ?d)) =
            [Ev (CuvidDestroyDecoder 16) 1, Ev (CuvidDestroyVideoParser 32) CUDA_SUCCESS,
             Ev (CuMemFree 8192) 1, Ev (Reorg_destroy 48) CUDA_SUCCESS, Ev Free_nvp CUDA_SUCCESS]"
    by code_simp
  from destroy_releases_in_order [OF t, of teardown_fails_engine] obtain w' drc prc frc where
    d: "?d = (Some (), w')" "nvp w' = (nvp session_64)\<lparr>reorg := 0\<rparr>"
    and c: "calls w' = calls session_64
          @ (if decoder (nvp session_64) \<noteq> 0
             then [Ev (CuvidDestroyDecoder (decoder (nvp session_64))) drc] else [])
          @ (if parser (nvp session_64) \<noteq> 0
             then [Ev (CuvidDestroyVideoParser (parser (nvp session_64))) prc] else [])
          @ [Ev (CuMemFree (rgb (nvp session_64))) frc]
          @ (if reorg (nvp session_64) \<noteq> 0
             then [Ev (Reorg_destroy (reorg (nvp session_64))) CUDA_SUCCESS] else [])
          @ [Ev Free_nvp CUDA_SUCCESS]"
    and l: "logs w' = logs session_64
          @ (if decoder (nvp session_64) \<noteq> 0 \<and> drc \<noteq> CUDA_SUCCESS
             then [(WARN, ''Error destroying decoder'')] else [])
          @ (if parser (nvp session_64) \<noteq> 0 \<and> prc \<noteq> CUDA_SUCCESS
             then [(WARN, ''Error destroying parser.'')] else [])
          @ (if frc \<noteq> CUDA_SUCCESS
             then [(WARN, ''Error freeing decode temporary buffer.'')] else [])"
    by blast
  from c n have c': "calls w' = calls session_64 @
      [Ev (CuvidDestroyDecoder 16) drc, Ev (CuvidDestroyVideoParser 32) prc,
       Ev (CuMemFree 8192) frc, Ev (Reorg_destroy 48) CUDA_SUCCESS, Ev Free_nvp CUDA_SUCCESS]"
    by simp
  from k d(1) c' have v: "drc = 1" "prc = CUDA_SUCCESS" "frc = 1" by simp_all
  have z: "(1::int) \<noteq> CUDA_SUCCESS" by (simp add: CUDA_SUCCESS_def)
  from l n v z have "logs w' = logs session_64 @
            [(WARN, ''Error destroying decoder''),
             (WARN, ''Error freeing decode temporary buffer.'')]"
    by simp
  with t d c' v show ?thesis by simp
qed

text \<open>
  C9 as stated fails: after the decoder 16, the parser 32 and the buffer 8192 of a live
  session have been released, their fields still hold 16, 32 and 8192; only the
  converter's field is 0.
\<close>

theorem handles_left_after_destroy:
  "fst (nvp_cuvid_destroy steady_engine session_64) = Some ()
   \<and> Ev (CuvidDestroyDecoder 16) CUDA_SUCCESS \<in> set (calls (snd (nvp_cuvid_destroy steady_engine session_64)))
   \<and> decoder (nvp (snd (nvp_cuvid_destroy steady_engine session_64))) = 16
   \<and> parser (nvp (snd (nvp_cuvid_destroy steady_engine session_64))) = 32
   \<and> rgb (nvp (snd (nvp_cuvid_destroy steady_engine session_64))) = 8192
   \<and> reorg (nvp (snd (nvp_cuvid_destroy steady_engine session_64))) = 0"
  by code_simp

subsection \<open>The recursion of \<open>nvp_cuvid_decode\<close>\<close>

text \<open>
  C3 does not hold of the code. The guard against endless recursion (the flag
  \<open>empty\<close>) covers the resubmission for an unknown size only; the resubmission after
  \<open>resize\<close> is not guarded, and \<open>resize\<close> drops the result of \<open>dec_initialize\<close>. So
  when the engine cannot create a decoder for the requested output size, the recorded
  output size never becomes the requested one and the call resubmits the packet for
  ever: on an initialized session with a known stream size, whenever the packet can be
  resubmitted (its parsing succeeds, no callback fails an assertion or reports an empty
  picture), \<open>nvp_cuvid_decode\<close> does not return.
\<close>

theorem resize_recursion_unbounded:
  assumes st: "impl_type (nvp w) = DECODER" "parser (nvp w) \<noteq> 0" "initialized (nvp w)"
      "d_wsrc (nvp w) \<noteq> 0" "d_hsrc (nvp w) \<noteq> 0"
    and differs: "d_wdst (nvp w) \<noteq> width \<or> d_hdst (nvp w) \<noteq> height"
    and args: "ibuf_sz \<noteq> 0" "width \<noteq> 0" "height \<noteq> 0" "even height"
    and no_create: "\<forall>hist crt. ulTargetWidth crt = width \<and> ulTargetHeight crt = height \<longrightarrow>
                       fst (on_cuvidCreateDecoder E hist crt) \<noteq> CUDA_SUCCESS"
    and calm: "\<forall>hist h. calm (on_cuvidParseVideoData E hist h ibuf ibuf_sz)"
  shows "nvp_cuvid_decode E w ibuf ibuf_sz obuf width height = None"
proof -
  have False if "nvp_cuvid_decode E w ibuf ibuf_sz obuf width height = Some y" for y
    using that st differs args no_create calm
  proof (induct rule: nvp_cuvid_decode.raw_induct [rotated 1, consumes 1, case_names step])
    case (step dec E w ibuf ibuf_sz obuf width height y)
    note IH = step(1) and body = step(2)
      and st = step(3-7) and differs = step(8) and args = step(9-12)
      and no_create = step(13) and calm = step(14)
    from calm have "calm (on_cuvidParseVideoData E (calls w) (parser (nvp w)) ibuf ibuf_sz)"
      by simp
    from submit_calm [OF st args this] obtain w1 where
      sub: "nvp_cuvid_decode_submit E w ibuf ibuf_sz width height = (None, w1)"
      and w1: "initialized (nvp w1)" "d_wsrc (nvp w1) \<noteq> 0" "d_hsrc (nvp w1) \<noteq> 0"
        "d_wdst (nvp w1) = d_wdst (nvp w)" "d_hdst (nvp w1) = d_hdst (nvp w)"
        "impl_type (nvp w1) = DECODER" "parser (nvp w1) = parser (nvp w)"
      by blast
    define w2 where "w2 = w1\<lparr>nvp := (nvp w1)\<lparr>empty := False\<rparr>\<rparr>"
    define wd where "wd = resize_destroy E w2"
    obtain r w3 where di: "dec_initialize E wd (d_wsrc (nvp w1)) (d_hsrc (nvp w1)) width height = (r, w3)"
      by (cases "dec_initialize E wd (d_wsrc (nvp w1)) (d_hsrc (nvp w1)) width height")
    have wd: "decoder (nvp wd) = 0" "nvp wd = (nvp w2)\<lparr>decoder := 0\<rparr>"
      using resize_destroy_props(1,3) [of E w2] by (simp_all add: wd_def)
    from no_create have
      "fst (on_cuvidCreateDecoder E (calls wd)
              (create_info (d_wsrc (nvp w1)) (d_hsrc (nvp w1)) width height)) \<noteq> CUDA_SUCCESS"
      by (simp add: create_info_def)
    from dec_initialize_not_created [OF di w1(2,3) args(2,3) wd(1) this]
    have r: "r = Some False" .
    from dec_initialize_sizes [OF di w1(2,3) args(2,3) wd(1)] r wd(2) w1
    have s3: "d_wdst (nvp w3) = d_wdst (nvp w)" "d_hdst (nvp w3) = d_hdst (nvp w)"
      "initialized (nvp w3)"
      by (simp_all add: w2_def)
    from dec_initialize_frame [OF di] wd(2) w1
    have f3: "d_wsrc (nvp w3) \<noteq> 0" "d_hsrc (nvp w3) \<noteq> 0" "impl_type (nvp w3) = DECODER"
      "parser (nvp w3) \<noteq> 0"
      using st(2) by (simp_all add: w2_def)
    have rs: "resize E w2 (d_wsrc (nvp w2)) (d_hsrc (nvp w2)) width height = (Some (), w3)"
      using di r by (simp add: resize_def wd_def w2_def)
    from differs w1(4,5) have m: "d_wdst (nvp w1) \<noteq> width \<or> d_hdst (nvp w1) \<noteq> height" by simp
    from body sub w1(2,3) m rs
    have "dec E w3 ibuf ibuf_sz obuf width height = Some y"
      by (auto simp: Let_def w2_def)
    from IH [OF this f3(3,4) s3(3) f3(1,2) _ args no_create calm] differs s3(1,2)
    show ?case by simp
  qed
  then show ?thesis by (cases "nvp_cuvid_decode E w ibuf ibuf_sz obuf width height") auto
qed

theorem resize_recursion_unbounded_witness:
  "nvp_cuvid_decode limited_engine new_session [1, 2, 3] 3 0 8192 8192 = None"
proof -
  let ?s = "nvp_cuvid_decode_submit limited_engine new_session [1, 2, 3] 3 8192 8192"
  let ?r = "resize limited_engine (snd ?s\<lparr>nvp := (nvp (snd ?s))\<lparr>empty := False\<rparr>\<rparr>) 64 64 8192 8192"
  have "fst ?s = None \<and> d_wsrc (nvp (snd ?s)) = 64 \<and> d_hsrc (nvp (snd ?s)) = 64
      \<and> d_wdst (nvp (snd ?s)) = 64"
    by code_simp
  then obtain w1 where s: "?s = (None, w1)" "d_wsrc (nvp w1) = 64" "d_hsrc (nvp w1) = 64"
    "d_wdst (nvp w1) = 64"
    by (cases ?s) auto
  have "fst ?r = Some () \<and> impl_type (nvp (snd ?r)) = DECODER \<and> parser (nvp (snd ?r)) = 32
      \<and> initialized (nvp (snd ?r)) \<and> d_wsrc (nvp (snd ?r)) = 64 \<and> d_hsrc (nvp (snd ?r)) = 64
      \<and> d_wdst (nvp (snd ?r)) = 64"
    by code_simp
  with s(1) obtain w3 where
    r: "resize limited_engine (w1\<lparr>nvp := (nvp w1)\<lparr>empty := False\<rparr>\<rparr>) 64 64 8192 8192 = (Some (), w3)"
      "impl_type (nvp w3) = DECODER" "parser (nvp w3) = 32" "initialized (nvp w3)"
      "d_wsrc (nvp w3) = 64" "d_hsrc (nvp w3) = 64" "d_wdst (nvp w3) = 64"
    by (cases ?r) auto
  from decode_unfold_None [OF s(1), of 0] s(2-) r(1)
  have "nvp_cuvid_decode limited_engine new_session [1, 2, 3] 3 0 8192 8192
          = nvp_cuvid_decode limited_engine w3 [1, 2, 3] 3 0 8192 8192"
    by (simp add: Let_def)
  also have "\<dots> = None"
    using r(2-)
    by (intro resize_recursion_unbounded)
       (simp_all add: limited_engine_def steady_engine_def script_64_def fmt_64_def pic_64_def
          CUDA_SUCCESS_def)
  finally show ?thesis .
qed

subsection \<open>The recorded sizes and the live decoder\<close>

text \<open>
  C5 does not hold of the code. When \<open>dec_initialize\<close> has created the decoder for a new
  output size and the allocation of the RGB buffer then fails, it returns \<open>false\<close> at
  line 139: the new decoder \<open>h\<close> is live and was created for the output size
  \<open>dstwidth\<close> by \<open>dstheight\<close>, the input size \<open>wi\<close>, \<open>hi\<close> has been recorded, but the
  recorded output size \<open>wdst\<close>, \<open>hdst\<close> is still the old one and differs from that of the
  live decoder.
\<close>

theorem stale_output_size_after_failed_allocation:
  assumes "dec_initialize E w iwidth iheight dstwidth dstheight = (r, w')"
    and "iwidth \<noteq> 0" "iheight \<noteq> 0" "dstwidth \<noteq> 0" "dstheight \<noteq> 0" "decoder (nvp w) = 0"
    and "on_cuvidCreateDecoder E (calls w) (create_info iwidth iheight dstwidth dstheight)
           = (CUDA_SUCCESS, h)"
    and "dstwidth \<noteq> d_wdst (nvp w) \<or> dstheight \<noteq> d_hdst (nvp w)"
    and "\<forall>hist p. on_cuMemFree E hist p = CUDA_SUCCESS"
    and "\<forall>hist n. fst (on_cuMemAlloc E hist n) \<noteq> CUDA_SUCCESS"
  shows "r = Some False \<and> decoder (nvp w') = h
       \<and> Ev (CuvidCreateDecoder (create_info iwidth iheight dstwidth dstheight) h) CUDA_SUCCESS
            \<in> set (calls w')
       \<and> d_wi (nvp w') = iwidth \<and> d_hi (nvp w') = iheight
       \<and> d_wdst (nvp w') = d_wdst (nvp w) \<and> d_hdst (nvp w') = d_hdst (nvp w)
       \<and> rgb (nvp w') = 0"
proof -
  have na: "on_cuMemAlloc E hist n = (rc, p) \<Longrightarrow> rc \<noteq> CUDA_SUCCESS" for hist n rc p
    using assms(10) by (metis fst_conv)
  from assms(1-9) show ?thesis
    by (auto simp: dec_initialize_def engine_call_defs Let_def word_gt_0
             split: if_splits prod.splits dest: na)
qed

theorem stale_output_size_after_failed_allocation_witness:
  "\<exists>w'. dec_initialize no_memory_engine (resize_destroy no_memory_engine session_64) 64 64 32 32
          = (Some False, w')
     \<and> decoder (nvp w') = 16
     \<and> Ev (CuvidCreateDecoder (create_info 64 64 32 32) 16) CUDA_SUCCESS \<in> set (calls w')
     \<and> d_wi (nvp w') = 64 \<and> d_hi (nvp w') = 64 \<and> d_wdst (nvp w') = 64 \<and> d_hdst (nvp w') = 64
     \<and> rgb (nvp w') = 0"
proof -
  let ?w = "resize_destroy no_memory_engine session_64"
  let ?d = "dec_initialize no_memory_engine ?w 64 64 32 32"
  have w: "decoder (nvp ?w) = 0" "d_wdst (nvp ?w) = 64" "d_hdst (nvp ?w) = 64"
    by code_simp+
  obtain r w' where d: "?d = (r, w')" by (cases ?d)
  have c: "on_cuvidCreateDecoder no_memory_engine (calls ?w) (create_info 64 64 32 32)
             = (CUDA_SUCCESS, 16)"
    by (simp add: no_memory_engine_def steady_engine_def)
  from stale_output_size_after_failed_allocation [OF d _ _ _ _ w(1) c] w(2,3) d
  show ?thesis
    by (simp add: no_memory_engine_def steady_engine_def CUDA_SUCCESS_def)
qed

subsection \<open>Streams with an unhandled bit depth\<close>




subsection \<open>Resizing the decoder\<close>

text \<open>
  C1, as the code has it. When a submission resolves a known picture size that differs
  from the input size the decoder was created with, or the requested size differs from
  the recorded output size, \<open>nvp_cuvid_decode\<close> calls \<open>resize\<close>: the current decoder
  (if there is one) is destroyed, the observed size is recorded as the created input
  size, the engine is asked for a decoder with input size the observed size and output
  size the requested size, and the identical packet is decoded again from the resulting
  state. That second decode is an ordinary one: it is the only resubmission (two
  submissions in all, then the output stage) when it succeeds and resolves a picture of
  the recorded input size with the requested output size recorded. Whenever the call
  returns \<open>NVPIPE_SUCCESS\<close>, the recorded input size equals the size of the last resolved
  picture and the recorded output size equals the requested one.
\<close>

theorem resize_and_resubmit:
  "(nvp_cuvid_decode_submit E w ibuf ibuf_sz width height = (None, w1)
      \<and> d_wsrc (nvp w1) \<noteq> 0 \<and> d_hsrc (nvp w1) \<noteq> 0
      \<and> (d_wsrc (nvp w1) \<noteq> d_wi (nvp w1) \<or> d_hsrc (nvp w1) \<noteq> d_hi (nvp w1)
           \<or> d_wdst (nvp w1) \<noteq> width \<or> d_hdst (nvp w1) \<noteq> height) \<longrightarrow>
      (\<exists>w3 drc h crc post.
           resize E (w1\<lparr>nvp := (nvp w1)\<lparr>empty := False\<rparr>\<rparr>)
               (d_wsrc (nvp w1)) (d_hsrc (nvp w1)) width height = (Some (), w3)
         \<and> calls w3 = calls w1
             @ (if decoder (nvp w1) = 0 then []
                else [Ev (CuvidDestroyDecoder (decoder (nvp w1))) drc])
             @ Ev (CuvidCreateDecoder
                     (create_info (d_wsrc (nvp w1)) (d_hsrc (nvp w1)) width height) h) crc
             # post
         \<and> setup_events post
         \<and> d_wi (nvp w3) = d_wsrc (nvp w1) \<and> d_hi (nvp w3) = d_hsrc (nvp w1)
         \<and> nvp_cuvid_decode E w ibuf ibuf_sz obuf width height
             = nvp_cuvid_decode E w3 ibuf ibuf_sz obuf width height
         \<and> (\<forall>w4. nvp_cuvid_decode_submit E w3 ibuf ibuf_sz width height = (None, w4)
                 \<and> d_wsrc (nvp w4) \<noteq> 0 \<and> d_hsrc (nvp w4) \<noteq> 0
                 \<and> d_wsrc (nvp w4) = d_wi (nvp w4) \<and> d_hsrc (nvp w4) = d_hi (nvp w4)
                 \<and> d_wdst (nvp w4) = width \<and> d_hdst (nvp w4) = height \<longrightarrow>
                 nvp_cuvid_decode E w ibuf ibuf_sz obuf width height
                   = Some (nvp_cuvid_decode_output E (w4\<lparr>nvp := (nvp w4)\<lparr>empty := False\<rparr>\<rparr>)
                             obuf width height)
               \<and> (\<exists>tr. calls w4 = calls w @ tr \<and> parse_count tr = 2))))
   \<and> (\<forall>w'. nvp_cuvid_decode E w ibuf ibuf_sz obuf width height
               = Some (Returned NVPIPE_SUCCESS, w') \<longrightarrow>
            d_wi (nvp w') = d_wsrc (nvp w') \<and> d_hi (nvp w') = d_hsrc (nvp w')
          \<and> d_wdst (nvp w') = width \<and> d_hdst (nvp w') = height)"
proof (intro conjI impI allI; (elim conjE)?)
  fix w'
  assume "nvp_cuvid_decode E w ibuf ibuf_sz obuf width height = Some (Returned NVPIPE_SUCCESS, w')"
  from decode_success_sizes [OF this]
  show "d_wi (nvp w') = d_wsrc (nvp w')" "d_hi (nvp w') = d_hsrc (nvp w')"
    "d_wdst (nvp w') = width" "d_hdst (nvp w') = height"
    by simp_all
next
  assume sub: "nvp_cuvid_decode_submit E w ibuf ibuf_sz width height = (None, w1)"
    and known: "d_wsrc (nvp w1) \<noteq> 0" "d_hsrc (nvp w1) \<noteq> 0"
    and differs: "d_wsrc (nvp w1) \<noteq> d_wi (nvp w1) \<or> d_hsrc (nvp w1) \<noteq> d_hi (nvp w1)
           \<or> d_wdst (nvp w1) \<noteq> width \<or> d_hdst (nvp w1) \<noteq> height"
  let ?w2 = "w1\<lparr>nvp := (nvp w1)\<lparr>empty := False\<rparr>\<rparr>"
  from submit_None(3) [OF sub] have args: "width \<noteq> 0" "height \<noteq> 0" by simp_all
  obtain r w3 where rs: "resize E ?w2 (d_wsrc (nvp w1)) (d_hsrc (nvp w1)) width height = (r, w3)"
    by (cases "resize E ?w2 (d_wsrc (nvp w1)) (d_hsrc (nvp w1)) width height")
  from resize_returns [OF rs known args]
  have r: "r = Some ()" and wi: "d_wi (nvp w3) = d_wsrc (nvp w1)" "d_hi (nvp w3) = d_hsrc (nvp w1)"
    by simp_all
  from resize_trace [OF rs known args] obtain drc h crc post where
    tr0: "calls w3 = calls ?w2
             @ (if decoder (nvp ?w2) = 0 then []
                else [Ev (CuvidDestroyDecoder (decoder (nvp ?w2))) drc])
             @ Ev (CuvidCreateDecoder
                     (create_info (d_wsrc (nvp w1)) (d_hsrc (nvp w1)) width height) h) crc
             # post"
    and post: "setup_events post"
    by blast
  from tr0 have tr: "calls w3 = calls w1
             @ (if decoder (nvp w1) = 0 then []
                else [Ev (CuvidDestroyDecoder (decoder (nvp w1))) drc])
             @ Ev (CuvidCreateDecoder
                     (create_info (d_wsrc (nvp w1)) (d_hsrc (nvp w1)) width height) h) crc
             # post"
    by (cases "decoder (nvp w1) = 0") simp_all
  from decode_unfold_None [OF sub, of obuf] known differs rs r
  have again: "nvp_cuvid_decode E w ibuf ibuf_sz obuf width height
             = nvp_cuvid_decode E w3 ibuf ibuf_sz obuf width height"
    by (simp add: Let_def)
  have final: "nvp_cuvid_decode E w ibuf ibuf_sz obuf width height
                   = Some (nvp_cuvid_decode_output E (w4\<lparr>nvp := (nvp w4)\<lparr>empty := False\<rparr>\<rparr>)
                             obuf width height)
               \<and> (\<exists>tr. calls w4 = calls w @ tr \<and> parse_count tr = 2)"
    if s2: "nvp_cuvid_decode_submit E w3 ibuf ibuf_sz width height = (None, w4)"
      and k2: "d_wsrc (nvp w4) \<noteq> 0" "d_hsrc (nvp w4) \<noteq> 0"
      and same: "d_wsrc (nvp w4) = d_wi (nvp w4)" "d_hsrc (nvp w4) = d_hi (nvp w4)"
        "d_wdst (nvp w4) = width" "d_hdst (nvp w4) = height"
    for w4
  proof
    from decode_unfold_None [OF s2, of obuf] k2 same again
    show "nvp_cuvid_decode E w ibuf ibuf_sz obuf width height
                   = Some (nvp_cuvid_decode_output E (w4\<lparr>nvp := (nvp w4)\<lparr>empty := False\<rparr>\<rparr>)
                             obuf width height)"
      by (simp add: Let_def)
    from submit_None(1) [OF sub] obtain t1 h1 where
      t1: "calls w1 = calls w @ t1 @ [Ev (CuvidParseVideoData h1 ibuf ibuf_sz) CUDA_SUCCESS]"
        "setup_events t1" by blast
    from submit_None(1) [OF s2] obtain t2 h2 where
      t2: "calls w4 = calls w3 @ t2 @ [Ev (CuvidParseVideoData h2 ibuf ibuf_sz) CUDA_SUCCESS]"
        "setup_events t2" by blast
    from resize_calls(1) [OF rs] obtain tm where
      tm: "calls w3 = calls w1 @ tm" "setup_events tm" by auto
    let ?tr = "t1 @ [Ev (CuvidParseVideoData h1 ibuf ibuf_sz) CUDA_SUCCESS] @ tm
                 @ t2 @ [Ev (CuvidParseVideoData h2 ibuf ibuf_sz) CUDA_SUCCESS]"
    from t1 t2 tm have "calls w4 = calls w @ ?tr" by simp
    moreover from t1(2) t2(2) tm(2) have "parse_count ?tr = 2"
      by (simp add: setup_events_parse_count)
    ultimately show "\<exists>tr. calls w4 = calls w @ tr \<and> parse_count tr = 2" by blast
  qed
  show "\<exists>w3 drc h crc post.
           resize E (w1\<lparr>nvp := (nvp w1)\<lparr>empty := False\<rparr>\<rparr>)
               (d_wsrc (nvp w1)) (d_hsrc (nvp w1)) width height = (Some (), w3)
         \<and> calls w3 = calls w1
             @ (if decoder (nvp w1) = 0 then []
                else [Ev (CuvidDestroyDecoder (decoder (nvp w1))) drc])
             @ Ev (CuvidCreateDecoder
                     (create_info (d_wsrc (nvp w1)) (d_hsrc (nvp w1)) width height) h) crc
             # post
         \<and> setup_events post
         \<and> d_wi (nvp w3) = d_wsrc (nvp w1) \<and> d_hi (nvp w3) = d_hsrc (nvp w1)
         \<and> nvp_cuvid_decode E w ibuf ibuf_sz obuf width height
             = nvp_cuvid_decode E w3 ibuf ibuf_sz obuf width height
         \<and> (\<forall>w4. nvp_cuvid_decode_submit E w3 ibuf ibuf_sz width height = (None, w4)
                 \<and> d_wsrc (nvp w4) \<noteq> 0 \<and> d_hsrc (nvp w4) \<noteq> 0
                 \<and> d_wsrc (nvp w4) = d_wi (nvp w4) \<and> d_hsrc (nvp w4) = d_hi (nvp w4)
                 \<and> d_wdst (nvp w4) = width \<and> d_hdst (nvp w4) = height \<longrightarrow>
                 nvp_cuvid_decode E w ibuf ibuf_sz obuf width height
                   = Some (nvp_cuvid_decode_output E (w4\<lparr>nvp := (nvp w4)\<lparr>empty := False\<rparr>\<rparr>)
                             obuf width height)
               \<and> (\<exists>tr. calls w4 = calls w @ tr \<and> parse_count tr = 2))"
    apply (rule exI [of _ w3], rule exI [of _ drc], rule exI [of _ h], rule exI [of _ crc],
        rule exI [of _ post])
    apply (intro conjI)
          apply (use rs r in simp)
         apply (rule tr)
        apply (rule post)
       apply (rule wi(1))
      apply (rule wi(2))
     apply (rule again)
    apply (intro allI impI, elim conjE)
    apply (rule final; assumption)
    done
qed

theorem resize_and_resubmit_witness:
  "\<exists>w1 w3 w4 w'.
      nvp_cuvid_decode_submit steady_engine session_64 [4, 5, 6] 3 32 32 = (None, w1)
    \<and> d_wsrc (nvp w1) = 64 \<and> d_hsrc (nvp w1) = 64 \<and> d_wdst (nvp w1) = 64 \<and> d_hdst (nvp w1) = 64
    \<and> resize steady_engine (w1\<lparr>nvp := (nvp w1)\<lparr>empty := False\<rparr>\<rparr>) 64 64 32 32 = (Some (), w3)
    \<and> d_wi (nvp w3) = 64 \<and> d_hi (nvp w3) = 64
    \<and> nvp_cuvid_decode_submit steady_engine w3 [4, 5, 6] 3 32 32 = (None, w4)
    \<and> nvp_cuvid_decode steady_engine session_64 [4, 5, 6] 3 0 32 32
         = Some (nvp_cuvid_decode_output steady_engine (w4\<lparr>nvp := (nvp w4)\<lparr>empty := False\<rparr>\<rparr>) 0 32 32)
    \<and> (\<exists>tr. calls w4 = calls session_64 @ tr \<and> parse_count tr = 2)
    \<and> nvp_cuvid_decode steady_engine session_64 [4, 5, 6] 3 0 32 32
         = Some (Returned NVPIPE_SUCCESS, w')
    \<and> d_wi (nvp w') = d_wsrc (nvp w') \<and> d_hi (nvp w') = d_hsrc (nvp w')
    \<and> d_wdst (nvp w') = 32 \<and> d_hdst (nvp w') = 32"
proof -
  let ?s = "nvp_cuvid_decode_submit steady_engine session_64 [4, 5, 6] 3 32 32"
  have "fst ?s = None \<and> d_wsrc (nvp (snd ?s)) = 64 \<and> d_hsrc (nvp (snd ?s)) = 64
      \<and> d_wdst (nvp (snd ?s)) = 64 \<and> d_hdst (nvp (snd ?s)) = 64"
    by code_simp
  then obtain w1 where s: "?s = (None, w1)" "d_wsrc (nvp w1) = 64" "d_hsrc (nvp w1) = 64"
    "d_wdst (nvp w1) = 64" "d_hdst (nvp w1) = 64"
    by (cases ?s) auto
  note main = resize_and_resubmit [of steady_engine session_64 "[4, 5, 6]" 3 32 32 w1 0]
  from main [THEN conjunct1, rule_format] s
  obtain w3 where r:
    "resize steady_engine (w1\<lparr>nvp := (nvp w1)\<lparr>empty := False\<rparr>\<rparr>) 64 64 32 32 = (Some (), w3)"
    "d_wi (nvp w3) = 64 \<and> d_hi (nvp w3) = 64"
    "\<forall>w4. nvp_cuvid_decode_submit steady_engine w3 [4, 5, 6] 3 32 32 = (None, w4)
                 \<and> d_wsrc (nvp w4) \<noteq> 0 \<and> d_hsrc (nvp w4) \<noteq> 0
                 \<and> d_wsrc (nvp w4) = d_wi (nvp w4) \<and> d_hsrc (nvp w4) = d_hi (nvp w4)
                 \<and> d_wdst (nvp w4) = 32 \<and> d_hdst (nvp w4) = 32 \<longrightarrow>
                 nvp_cuvid_decode steady_engine session_64 [4, 5, 6] 3 0 32 32
                   = Some (nvp_cuvid_decode_output steady_engine
                             (w4\<lparr>nvp := (nvp w4)\<lparr>empty := False\<rparr>\<rparr>) 0 32 32)
               \<and> (\<exists>tr. calls w4 = calls session_64 @ tr \<and> parse_count tr = 2)"
    by auto
  let ?r = "resize steady_engine (snd ?s\<lparr>nvp := (nvp (snd ?s))\<lparr>empty := False\<rparr>\<rparr>) 64 64 32 32"
  let ?t = "nvp_cuvid_decode_submit steady_engine (snd ?r) [4, 5, 6] 3 32 32"
  have "fst ?t = None \<and> d_wsrc (nvp (snd ?t)) \<noteq> 0 \<and> d_hsrc (nvp (snd ?t)) \<noteq> 0
      \<and> d_wsrc (nvp (snd ?t)) = d_wi (nvp (snd ?t)) \<and> d_hsrc (nvp (snd ?t)) = d_hi (nvp (snd ?t))
      \<and> d_wdst (nvp (snd ?t)) = 32 \<and> d_hdst (nvp (snd ?t)) = 32"
    by code_simp
  moreover from s(1) r(1) have "snd ?r = w3" by simp
  ultimately obtain w4 where t:
    "nvp_cuvid_decode_submit steady_engine w3 [4, 5, 6] 3 32 32 = (None, w4)"
    "d_wsrc (nvp w4) \<noteq> 0" "d_hsrc (nvp w4) \<noteq> 0"
    "d_wsrc (nvp w4) = d_wi (nvp w4)" "d_hsrc (nvp w4) = d_hi (nvp w4)"
    "d_wdst (nvp w4) = 32" "d_hdst (nvp w4) = 32"
    by (cases "nvp_cuvid_decode_submit steady_engine w3 [4, 5, 6] 3 32 32") auto
  from r(3) [rule_format, of w4] t
  have f: "nvp_cuvid_decode steady_engine session_64 [4, 5, 6] 3 0 32 32
                   = Some (nvp_cuvid_decode_output steady_engine
                             (w4\<lparr>nvp := (nvp w4)\<lparr>empty := False\<rparr>\<rparr>) 0 32 32)"
    "\<exists>tr. calls w4 = calls session_64 @ tr \<and> parse_count tr = 2"
    by simp_all
  have "map_option fst (nvp_cuvid_decode steady_engine session_64 [4, 5, 6] 3 0 32 32)
          = Some (Returned NVPIPE_SUCCESS)"
    by code_simp
  then obtain w' where d: "nvp_cuvid_decode steady_engine session_64 [4, 5, 6] 3 0 32 32
         = Some (Returned NVPIPE_SUCCESS, w')"
    by (cases "nvp_cuvid_decode steady_engine session_64 [4, 5, 6] 3 0 32 32") auto
  from main [THEN conjunct2, rule_format, OF d]
  have z: "d_wi (nvp w') = d_wsrc (nvp w') \<and> d_hi (nvp w') = d_hsrc (nvp w')
    \<and> d_wdst (nvp w') = 32 \<and> d_hdst (nvp w') = 32" .
  show ?thesis
    apply (rule exI [of _ w1], rule exI [of _ w3], rule exI [of _ w4], rule exI [of _ w'])
    using s r(1,2) t(1) f d z apply simp
    done
qed

text \<open>
  C1 as stated fails: the stream of \<open>shifting_engine\<close> resolves a 128 by 128 picture on
  the first submission of the packet and a 256 by 256 one on its resubmission, so the
  one call resizes twice and submits the packet three times before producing output.
\<close>

theorem shifting_size_resized_twice:
  "map_option fst (nvp_cuvid_decode shifting_engine session_shifting [4, 5, 6] 3 0 64 64)
      = Some (Returned NVPIPE_SUCCESS)
   \<and> (d_wi (nvp session_shifting), d_hi (nvp session_shifting),
        d_wdst (nvp session_shifting), d_hdst (nvp session_shifting)) = (64, 64, 64, 64)
   \<and> map_option (\<lambda>y. parse_count (drop (length (calls session_shifting)) (calls (snd y))))
        (nvp_cuvid_decode shifting_engine session_shifting [4, 5, 6] 3 0 64 64) = Some 3
   \<and> map_option (\<lambda>y. created (drop (length (calls session_shifting)) (calls (snd y))))
        (nvp_cuvid_decode shifting_engine session_shifting [4, 5, 6] 3 0 64 64)
      = Some [create_info 128 128 64 64, create_info 256 256 64 64]"
  by code_simp

end
